theory Spec2Isabelle
  imports Main "HOL-Library.AList"
begin

section \<open>Python values and runtime\<close>

text \<open>
  Payloads are the values \<^verbatim>\<open>json.loads\<close> produces. A dict is an association list
  (\<open>JObj\<close>), read with \<open>map_of\<close>. Floats are an abstract type \<open>'f\<close>: the functions of
  the Python runtime that the code calls on them (and the other library functions whose
  result depends on parsing or printing) are taken as a parameter \<open>ops\<close>.
\<close>

datatype 'f json =
    JNull
  | JBool bool
  | JInt int
  | JFloat 'f
  | JStr string
  | JList "'f json list"
  | JObj "(string \<times> 'f json) list"

datatype exc =
    AttributeError
  | TypeError
  | ValueError
  | OverflowError
  | IndexError
  | RuntimeError
  | JSONDecodeError
  | CancelledError
  | AirzoneOffline
  | AirzonePollError
  | AirzoneTimeout

record 'f py_ops =
  float_of_int :: "int \<Rightarrow> exc + 'f"          \<comment> \<open>\<^verbatim>\<open>float(n)\<close>\<close>
  float_of_str :: "string \<Rightarrow> exc + 'f"       \<comment> \<open>\<^verbatim>\<open>float(s)\<close>\<close>
  int_of_float :: "'f \<Rightarrow> exc + int"          \<comment> \<open>\<^verbatim>\<open>int(x)\<close>\<close>
  int_of_str :: "string \<Rightarrow> exc + int"        \<comment> \<open>\<^verbatim>\<open>int(s)\<close>\<close>
  float_truthy :: "'f \<Rightarrow> bool"              \<comment> \<open>\<^verbatim>\<open>bool(x)\<close>\<close>
  float_int_value :: "'f \<Rightarrow> int option"     \<comment> \<open>the integer a float is equal to, if any\<close>
  round1 :: "'f \<Rightarrow> 'f"                      \<comment> \<open>\<^verbatim>\<open>round(x, 1)\<close>\<close>
  str_of :: "'f json \<Rightarrow> string"             \<comment> \<open>\<^verbatim>\<open>str(v)\<close> of a value that is not a str\<close>
  fromtimestamp :: "'f \<Rightarrow> exc + int"         \<comment> \<open>\<^verbatim>\<open>datetime.fromtimestamp(x, tz=TZ_UTC)\<close>\<close>
  dt_fields :: "int \<Rightarrow> int list"            \<comment> \<open>year, month, day, hour, minute, second, microsecond\<close>

text \<open>\<^verbatim>\<open>d.get(key, default)\<close>: only a dict has the method.\<close>

definition py_get :: "'f json \<Rightarrow> string \<Rightarrow> 'f json \<Rightarrow> exc + 'f json" where
  "py_get d key dflt =
     (case d of
        JObj kvs \<Rightarrow> (case map_of kvs key of None \<Rightarrow> Inr dflt | Some v \<Rightarrow> Inr v)
      | _ \<Rightarrow> Inl AttributeError)"

definition py_bool :: "'f py_ops \<Rightarrow> 'f json \<Rightarrow> bool" where
  "py_bool ops v =
     (case v of
        JNull \<Rightarrow> False
      | JBool b \<Rightarrow> b
      | JInt n \<Rightarrow> n \<noteq> 0
      | JFloat x \<Rightarrow> float_truthy ops x
      | JStr s \<Rightarrow> s \<noteq> []
      | JList xs \<Rightarrow> xs \<noteq> []
      | JObj kvs \<Rightarrow> kvs \<noteq> [])"

definition py_int :: "'f py_ops \<Rightarrow> 'f json \<Rightarrow> exc + int" where
  "py_int ops v =
     (case v of
        JNull \<Rightarrow> Inl TypeError
      | JBool b \<Rightarrow> Inr (if b then 1 else 0)
      | JInt n \<Rightarrow> Inr n
      | JFloat x \<Rightarrow> int_of_float ops x
      | JStr s \<Rightarrow> int_of_str ops s
      | JList xs \<Rightarrow> Inl TypeError
      | JObj kvs \<Rightarrow> Inl TypeError)"

definition py_float :: "'f py_ops \<Rightarrow> 'f json \<Rightarrow> exc + 'f" where
  "py_float ops v =
     (case v of
        JNull \<Rightarrow> Inl TypeError
      | JBool b \<Rightarrow> float_of_int ops (if b then 1 else 0)
      | JInt n \<Rightarrow> float_of_int ops n
      | JFloat x \<Rightarrow> Inr x
      | JStr s \<Rightarrow> float_of_str ops s
      | JList xs \<Rightarrow> Inl TypeError
      | JObj kvs \<Rightarrow> Inl TypeError)"

definition py_str :: "'f py_ops \<Rightarrow> 'f json \<Rightarrow> string" where
  "py_str ops v = (case v of JStr s \<Rightarrow> s | _ \<Rightarrow> str_of ops v)"

text \<open>The value an enum constructor looks up: \<open>True\<close>, \<open>1\<close> and \<open>1.0\<close> are the same key.\<close>

definition enum_key :: "'f py_ops \<Rightarrow> 'f json \<Rightarrow> int option" where
  "enum_key ops v =
     (case v of
        JBool b \<Rightarrow> Some (if b then 1 else 0)
      | JInt n \<Rightarrow> Some n
      | JFloat x \<Rightarrow> float_int_value ops x
      | _ \<Rightarrow> None)"

section \<open>common.py\<close>

text \<open>
  \<open>AZ_Mode\<close> is an \<open>IntEnum\<close> with the values \<open>-1\<close> (UNKNOWN) to \<open>18\<close>; a member is
  represented by its value. \<open>_missing_\<close> sends every other value to UNKNOWN.
\<close>

type_synonym az_mode = int

definition AZ_Mode :: "'f py_ops \<Rightarrow> 'f json \<Rightarrow> az_mode" where
  "AZ_Mode ops v =
     (case enum_key ops v of
        Some n \<Rightarrow> (if -1 \<le> n \<and> n \<le> 18 then n else -1)
      | None \<Rightarrow> -1)"

datatype AZ_TemperatureUnit = CELSIUS | FAHRENHEIT

definition AZ_TemperatureUnit_of :: "'f py_ops \<Rightarrow> 'f json \<Rightarrow> exc + AZ_TemperatureUnit" where
  "AZ_TemperatureUnit_of ops v =
     (case enum_key ops v of
        Some n \<Rightarrow> (if n = 0 then Inr CELSIUS else if n = 1 then Inr FAHRENHEIT else Inl ValueError)
      | None \<Rightarrow> Inl ValueError)"

definition unit_value :: "AZ_TemperatureUnit \<Rightarrow> int" where
  "unit_value u = (case u of CELSIUS \<Rightarrow> 0 | FAHRENHEIT \<Rightarrow> 1)"

datatype UpdateType = FULL | PARTIAL

section \<open>const.py\<close>

text \<open>
  Modelled from the spec: \<^verbatim>\<open>const.py\<close> (the key and topic constants) and
  \<^verbatim>\<open>update.py\<close> (\<open>UpdateType\<close>) are not part of the sources at hand. The constants are
  given the names the payloads use; the development relies only on the keys read from one
  dict being pairwise different.
\<close>

definition API_AZ_GET_STATUS :: string where "API_AZ_GET_STATUS = ''az.get_status''"
definition API_AZ_SYSTEM :: string where "API_AZ_SYSTEM = ''az_system''"
definition API_AZ_ZONE :: string where "API_AZ_ZONE = ''az_zone''"
definition API_BODY :: string where "API_BODY = ''body''"
definition API_CMD :: string where "API_CMD = ''cmd''"
definition API_DESTINATION :: string where "API_DESTINATION = ''destination''"
definition API_DEVICE_ID :: string where "API_DEVICE_ID = ''device_id''"
definition API_DEVICE_TYPE :: string where "API_DEVICE_TYPE = ''device_type''"
definition API_DEVICES :: string where "API_DEVICES = ''devices''"
definition API_HEADERS :: string where "API_HEADERS = ''headers''"
definition API_IS_CONNECTED :: string where "API_IS_CONNECTED = ''is_connected''"
definition API_META :: string where "API_META = ''meta''"
definition API_ONLINE :: string where "API_ONLINE = ''online''"
definition API_PARAMETERS :: string where "API_PARAMETERS = ''parameters''"
definition API_REQ_ID :: string where "API_REQ_ID = ''req_id''"
definition API_SYSTEM_ID :: string where "API_SYSTEM_ID = ''system_id''"
definition API_TS :: string where "API_TS = ''ts''"
definition API_UNITS :: string where "API_UNITS = ''units''"
definition API_AIR_ACTIVE :: string where "API_AIR_ACTIVE = ''air_active''"
definition API_HUMIDITY :: string where "API_HUMIDITY = ''humidity''"
definition API_MAX :: string where "API_MAX = ''max''"
definition API_MIN :: string where "API_MIN = ''min''"
definition API_MODE :: string where "API_MODE = ''mode''"
definition API_MODE_AVAILABLE :: string where "API_MODE_AVAILABLE = ''mode_available''"
definition API_NAME :: string where "API_NAME = ''name''"
definition API_POWER :: string where "API_POWER = ''power''"
definition API_RAD_ACTIVE :: string where "API_RAD_ACTIVE = ''rad_active''"
definition API_RANGE_SP :: string where "API_RANGE_SP = ''range_sp''"
definition API_SETPOINT :: string where "API_SETPOINT = ''setpoint''"
definition API_STEP :: string where "API_STEP = ''step''"
definition API_ZONE_WORK_TEMP :: string where "API_ZONE_WORK_TEMP = ''zone_work_temp''"

definition AMT_EVENTS :: string where "AMT_EVENTS = ''events''"
definition AMT_INVOKE :: string where "AMT_INVOKE = ''invoke''"
definition AMT_ONLINE :: string where "AMT_ONLINE = ''online''"
definition AMT_REQUEST :: string where "AMT_REQUEST = ''request''"
definition AMT_RESPONSE :: string where "AMT_RESPONSE = ''response''"
definition AMT_STATUS :: string where "AMT_STATUS = ''status''"
definition AMT_V1 :: string where "AMT_V1 = ''v1''"

definition AZ_MANUFACTURER :: string where "AZ_MANUFACTURER = ''Airzone''"
definition AZ_MODEL_SYSTEM :: string where "AZ_MODEL_SYSTEM = ''System''"
definition AZ_MODEL_ZONE :: string where "AZ_MODEL_ZONE = ''Zone''"

definition AZD_ACTIVE :: string where "AZD_ACTIVE = ''active''"
definition AZD_AIR_ACTIVE :: string where "AZD_AIR_ACTIVE = ''air_active''"
definition AZD_DEVICE_ID :: string where "AZD_DEVICE_ID = ''device_id''"
definition AZD_HUMIDITY :: string where "AZD_HUMIDITY = ''humidity''"
definition AZD_ID :: string where "AZD_ID = ''id''"
definition AZD_IS_CONNECTED :: string where "AZD_IS_CONNECTED = ''is_connected''"
definition AZD_MODE :: string where "AZD_MODE = ''mode''"
definition AZD_MODE_AVAILABLE :: string where "AZD_MODE_AVAILABLE = ''mode_available''"
definition AZD_NAME :: string where "AZD_NAME = ''name''"
definition AZD_POWER :: string where "AZD_POWER = ''power''"
definition AZD_RAD_ACTIVE :: string where "AZD_RAD_ACTIVE = ''rad_active''"
definition AZD_SETPOINT :: string where "AZD_SETPOINT = ''setpoint''"
definition AZD_SETPOINT_MAX :: string where "AZD_SETPOINT_MAX = ''setpoint_max''"
definition AZD_SETPOINT_MIN :: string where "AZD_SETPOINT_MIN = ''setpoint_min''"
definition AZD_STEP :: string where "AZD_STEP = ''step''"
definition AZD_SYSTEM_ID :: string where "AZD_SYSTEM_ID = ''system_id''"
definition AZD_UNITS :: string where "AZD_UNITS = ''units''"
definition AZD_ZONE_WORK_TEMP :: string where "AZD_ZONE_WORK_TEMP = ''zone_work_temp''"

section \<open>device.py\<close>

text \<open>
  A method that mutates \<open>self\<close> and may raise returns the object as it is when the method
  ends, together with the exception, if any: what was assigned before a raise stays
  assigned.
\<close>

type_synonym 'z step = "'z \<Rightarrow> 'z \<times> exc option"

fun steps :: "'z step list \<Rightarrow> 'z step" where
  "steps [] z = (z, None)"
| "steps (f # fs) z = (case f z of (z', None) \<Rightarrow> steps fs z' | (z', Some e) \<Rightarrow> (z', Some e))"

text \<open>
  \<^verbatim>\<open>v = params.get(key)\<close> followed by \<^verbatim>\<open>if v is not None: self.attr = conv(v)\<close>.
\<close>

definition set_field ::
  "'f json \<Rightarrow> string \<Rightarrow> ('f json \<Rightarrow> exc + 'v) \<Rightarrow> ('v \<Rightarrow> 'z \<Rightarrow> 'z) \<Rightarrow> 'z step" where
  "set_field params key conv upd z =
     (case py_get params key JNull of
        Inl e \<Rightarrow> (z, Some e)
      | Inr JNull \<Rightarrow> (z, None)
      | Inr v \<Rightarrow> (case conv v of Inl e \<Rightarrow> (z, Some e) | Inr x \<Rightarrow> (upd x z, None)))"

text \<open>
  \<open>model\<close>, \<open>name\<close> and \<open>mqtt_topic\<close> are attributes the base constructor does not
  assign: the subclass constructors assign the first two, \<open>set_mqtt_topic\<close> the third.
\<close>

record device =
  device_id :: string
  is_connected :: bool
  manufacturer :: string
  system_id :: string
  units :: AZ_TemperatureUnit
  model :: string
  mqtt_topic :: "string option"
  name :: string

definition Device_init :: "'f py_ops \<Rightarrow> 'f json \<Rightarrow> exc + device" where
  "Device_init ops data =
     (case py_get data API_DEVICE_ID JNull of
        Inl e \<Rightarrow> Inl e
      | Inr did \<Rightarrow>
          (case py_get data API_SYSTEM_ID JNull of
             Inl e \<Rightarrow> Inl e
           | Inr sid \<Rightarrow>
               Inr \<lparr> device_id = py_str ops did, is_connected = False,
                     manufacturer = AZ_MANUFACTURER, system_id = py_str ops sid,
                     units = CELSIUS, model = [], mqtt_topic = None, name = [] \<rparr>))"

definition get_id :: "'a device_scheme \<Rightarrow> string" where
  "get_id d = system_id d @ '':'' @ device_id d"

text \<open>\<^verbatim>\<open>re.sub("[^0-9a-zA-Z_-]+", "_", s)\<close>: every maximal run of other characters
  becomes one underscore. The flag says whether the previous character was replaced.\<close>

definition id_char :: "char \<Rightarrow> bool" where
  "id_char c =
     (let n = (of_char c :: nat) in
      (48 \<le> n \<and> n \<le> 57) \<or> (97 \<le> n \<and> n \<le> 122) \<or> (65 \<le> n \<and> n \<le> 90) \<or> n = 95 \<or> n = 45)"

fun sub_runs :: "bool \<Rightarrow> string \<Rightarrow> string" where
  "sub_runs in_run [] = []"
| "sub_runs in_run (c # cs) =
     (if id_char c then c # sub_runs False cs
      else if in_run then sub_runs True cs
      else CHR ''_'' # sub_runs True cs)"

definition get_id_ha :: "'a device_scheme \<Rightarrow> string" where
  "get_id_ha d = sub_runs False (get_id d)"

definition device_data :: "'a device_scheme \<Rightarrow> (string \<times> 'f json) list" where
  "device_data d =
     [(AZD_DEVICE_ID, JStr (device_id d)),
      (AZD_ID, JStr (get_id d)),
      (AZD_IS_CONNECTED, JBool (is_connected d)),
      (AZD_SYSTEM_ID, JStr (system_id d)),
      (AZD_UNITS, JInt (unit_value (units d)))]"

definition device_update ::
  "'f py_ops \<Rightarrow> 'f json \<Rightarrow> UpdateType \<Rightarrow> 'a device_scheme step" where
  "device_update ops data update_type d =
     (case py_get data API_META (JObj []) of
        Inl e \<Rightarrow> (d, Some e)
      | Inr meta \<Rightarrow>
          (case py_get data API_PARAMETERS (JObj []) of
             Inl e \<Rightarrow> (d, Some e)
           | Inr parameters \<Rightarrow>
               steps
                 [set_field parameters API_IS_CONNECTED (\<lambda>v. Inr (py_bool ops v))
                    (\<lambda>x z. z\<lparr>is_connected := x\<rparr>),
                  set_field meta API_UNITS (AZ_TemperatureUnit_of ops)
                    (\<lambda>x z. z\<lparr>units := x\<rparr>)] d))"

section \<open>system.py\<close>

type_synonym system = device

definition System_init :: "'f py_ops \<Rightarrow> 'f json \<Rightarrow> exc + system" where
  "System_init ops data =
     (case Device_init ops data of
        Inl e \<Rightarrow> Inl e
      | Inr d \<Rightarrow> Inr (d\<lparr>model := AZ_MODEL_SYSTEM, name := ''System ['' @ get_id d @ '']''\<rparr>))"

definition system_set_mqtt_topic :: "string \<Rightarrow> system \<Rightarrow> system" where
  "system_set_mqtt_topic pfx d = d\<lparr>mqtt_topic := Some (pfx @ ''/system/'' @ get_id_ha d)\<rparr>"

definition system_data :: "system \<Rightarrow> (string \<times> 'f json) list" where
  "system_data d = device_data d"

definition system_update :: "'f py_ops \<Rightarrow> 'f json \<Rightarrow> UpdateType \<Rightarrow> system step" where
  "system_update ops data update_type d = device_update ops data update_type d"

section \<open>zone.py\<close>

record 'f zone = device +
  air_active :: "bool option"
  humidity :: "int option"
  mode :: "az_mode option"
  mode_available :: "az_mode list"
  zpower :: "bool option"
  rad_active :: "bool option"
  setpoint :: "'f option"
  setpoint_max :: "'f option"
  setpoint_min :: "'f option"
  step :: "'f option"
  zone_work_temp :: "'f option"

definition Zone_init :: "'f py_ops \<Rightarrow> 'f json \<Rightarrow> exc + 'f zone" where
  "Zone_init ops data =
     (case Device_init ops data of
        Inl e \<Rightarrow> Inl e
      | Inr d \<Rightarrow>
          Inr \<lparr> device_id = device_id d, is_connected = is_connected d,
                manufacturer = manufacturer d, system_id = system_id d, units = units d,
                model = AZ_MODEL_ZONE, mqtt_topic = mqtt_topic d,
                name = ''Zone ['' @ get_id d @ '']'',
                air_active = None, humidity = None, mode = None, mode_available = [],
                zpower = None, rad_active = None, setpoint = None, setpoint_max = None,
                setpoint_min = None, step = None, zone_work_temp = None \<rparr>)"

definition get_active :: "'f zone \<Rightarrow> bool" where
  "get_active z =
     ((case air_active z of None \<Rightarrow> False | Some b \<Rightarrow> b)
      \<or> (case rad_active z of None \<Rightarrow> False | Some b \<Rightarrow> b))"

definition get_mode_available :: "'f zone \<Rightarrow> int list option" where
  "get_mode_available z =
     (if length (mode_available z) > 0 then Some (mode_available z) else None)"

definition get_rounded :: "'f py_ops \<Rightarrow> 'f option \<Rightarrow> 'f option" where
  "get_rounded ops x = (case x of None \<Rightarrow> None | Some v \<Rightarrow> Some (round1 ops v))"

definition zone_set_mqtt_topic :: "string \<Rightarrow> 'f zone \<Rightarrow> 'f zone" where
  "zone_set_mqtt_topic pfx z = z\<lparr>mqtt_topic := Some (pfx @ ''/zone/'' @ get_id_ha z)\<rparr>"

text \<open>\<^verbatim>\<open>x = self.get_x()\<close> followed by \<^verbatim>\<open>if x is not None: data[key] = x\<close>.\<close>

definition put_opt ::
  "string \<Rightarrow> 'v option \<Rightarrow> ('v \<Rightarrow> 'f json) \<Rightarrow> (string \<times> 'f json) list \<Rightarrow> (string \<times> 'f json) list"
  where
  "put_opt key x j data = (case x of None \<Rightarrow> data | Some v \<Rightarrow> AList.update key (j v) data)"

definition zone_data :: "'f py_ops \<Rightarrow> 'f zone \<Rightarrow> (string \<times> 'f json) list" where
  "zone_data ops z =
     (put_opt AZD_ZONE_WORK_TEMP (get_rounded ops (zone_work_temp z)) JFloat
     (put_opt AZD_STEP (get_rounded ops (step z)) JFloat
     (put_opt AZD_SETPOINT_MIN (get_rounded ops (setpoint_min z)) JFloat
     (put_opt AZD_SETPOINT_MAX (get_rounded ops (setpoint_max z)) JFloat
     (put_opt AZD_SETPOINT (get_rounded ops (setpoint z)) JFloat
     (put_opt AZD_RAD_ACTIVE (rad_active z) JBool
     (put_opt AZD_POWER (zpower z) JBool
     (put_opt AZD_NAME (Some (name z)) JStr
     (put_opt AZD_MODE_AVAILABLE (get_mode_available z) (\<lambda>ms. JList (map JInt ms))
     (put_opt AZD_MODE (mode z) JInt
     (put_opt AZD_HUMIDITY (humidity z) JInt
     (put_opt AZD_AIR_ACTIVE (air_active z) JBool
     (AList.update AZD_ACTIVE (JBool (get_active z))
     (device_data z))))))))))))))"

text \<open>What \<^verbatim>\<open>for x in v\<close> runs over.\<close>

definition py_iter :: "'f json \<Rightarrow> exc + 'f json list" where
  "py_iter v =
     (case v of
        JList xs \<Rightarrow> Inr xs
      | JStr s \<Rightarrow> Inr (map (\<lambda>c. JStr [c]) s)
      | JObj kvs \<Rightarrow> Inr (map (\<lambda>kv. JStr (fst kv)) kvs)
      | _ \<Rightarrow> Inl TypeError)"

text \<open>The list is emptied before the loop over the payload's value starts.\<close>

definition set_mode_available :: "'f py_ops \<Rightarrow> 'f json \<Rightarrow> 'f zone step" where
  "set_mode_available ops params z =
     (case py_get params API_MODE_AVAILABLE JNull of
        Inl e \<Rightarrow> (z, Some e)
      | Inr JNull \<Rightarrow> (z, None)
      | Inr v \<Rightarrow>
          (case py_iter v of
             Inl e \<Rightarrow> (z\<lparr>mode_available := []\<rparr>, Some e)
           | Inr xs \<Rightarrow> (z\<lparr>mode_available := map (AZ_Mode ops) xs\<rparr>, None)))"

definition set_range_sp :: "'f py_ops \<Rightarrow> 'f json \<Rightarrow> 'f zone step" where
  "set_range_sp ops params z =
     (case py_get params API_RANGE_SP (JObj []) of
        Inl e \<Rightarrow> (z, Some e)
      | Inr range_sp \<Rightarrow>
          steps
            [set_field range_sp API_MAX (py_float ops) (\<lambda>x z. z\<lparr>setpoint_max := Some x\<rparr>),
             set_field range_sp API_MIN (py_float ops) (\<lambda>x z. z\<lparr>setpoint_min := Some x\<rparr>)] z)"

definition zone_update :: "'f py_ops \<Rightarrow> 'f json \<Rightarrow> UpdateType \<Rightarrow> 'f zone step" where
  "zone_update ops data update_type z =
     (case device_update ops data update_type z of
        (z1, Some e) \<Rightarrow> (z1, Some e)
      | (z1, None) \<Rightarrow>
          (case py_get data API_PARAMETERS (JObj []) of
             Inl e \<Rightarrow> (z1, Some e)
           | Inr parameters \<Rightarrow>
               steps
                 [set_field parameters API_AIR_ACTIVE (\<lambda>v. Inr (py_bool ops v))
                    (\<lambda>x z. z\<lparr>air_active := Some x\<rparr>),
                  set_field parameters API_HUMIDITY (py_int ops)
                    (\<lambda>x z. z\<lparr>humidity := Some x\<rparr>),
                  set_field parameters API_MODE (\<lambda>v. Inr (AZ_Mode ops v))
                    (\<lambda>x z. z\<lparr>mode := Some x\<rparr>),
                  set_mode_available ops parameters,
                  set_field parameters API_NAME (\<lambda>v. Inr (py_str ops v))
                    (\<lambda>x z. z\<lparr>name := x\<rparr>),
                  set_field parameters API_POWER (\<lambda>v. Inr (py_bool ops v))
                    (\<lambda>x z. z\<lparr>zpower := Some x\<rparr>),
                  set_field parameters API_RAD_ACTIVE (\<lambda>v. Inr (py_bool ops v))
                    (\<lambda>x z. z\<lparr>rad_active := Some x\<rparr>),
                  set_range_sp ops parameters,
                  set_field parameters API_SETPOINT (py_float ops)
                    (\<lambda>x z. z\<lparr>setpoint := Some x\<rparr>),
                  set_field parameters API_STEP (py_float ops)
                    (\<lambda>x z. z\<lparr>step := Some x\<rparr>),
                  set_field parameters API_ZONE_WORK_TEMP (py_float ops)
                    (\<lambda>x z. z\<lparr>zone_work_temp := Some x\<rparr>)] z1))"

section \<open>airzone.py\<close>

text \<open>
  The state of the \<open>Airzone\<close> object. An \<open>asyncio.Event\<close> is its flag, the
  \<open>asyncio.Lock\<close> is \<open>True\<close> while held. Datetimes and timedeltas are integers
  (microseconds; both are exact to the microsecond in Python). \<open>online\<close> holds the truth
  value of the attribute, which is all the code ever reads of it. \<open>published\<close> records
  the calls of \<open>mqtt_publish\<close>, with the data each payload is the dump of. The update
  callback is a parameter \<open>cb\<close> of the functions that call it; every reading of the
  clock is a parameter as well.
\<close>

record 'f airzone =
  api_init :: bool
  api_init_event :: bool
  api_lock :: bool
  api_raw_data :: "'f json"
  api_resp :: bool
  api_req_id :: "'f json"
  mqtt_prefix :: string
  az_mqtt_topic :: string
  topic_interface :: string
  online :: bool
  online_event :: bool
  poll_timeout :: int
  scan_interval :: int
  systems :: "string \<rightharpoonup> system"
  update_dt :: "int option"
  zones :: "string \<rightharpoonup> 'f zone"
  published :: "(string \<times> 'f json) list"

type_synonym 'f callback = "('f airzone \<Rightarrow> 'f airzone \<times> exc option) option"

record config =
  cfg_poll_timeout :: int
  cfg_scan_interval :: int
  cfg_topic_airzone :: string
  cfg_topic_interface :: string

text \<open>config.py: 15 minutes, 60 seconds.\<close>

definition Config_init :: config where
  "Config_init =
     \<lparr> cfg_poll_timeout = 900000000, cfg_scan_interval = 60000000,
       cfg_topic_airzone = ''airzone'', cfg_topic_interface = ''airzone-mqtt-hass'' \<rparr>"

definition Airzone_init :: "config \<Rightarrow> 'f airzone" where
  "Airzone_init cfg =
     \<lparr> api_init = False, api_init_event = False, api_lock = False, api_raw_data = JNull,
       api_resp = False, api_req_id = JStr [],
       mqtt_prefix = cfg_topic_airzone cfg @ ''/'' @ AMT_V1,
       az_mqtt_topic = cfg_topic_airzone cfg, topic_interface = cfg_topic_interface cfg,
       online = False, online_event = False, poll_timeout = cfg_poll_timeout cfg,
       scan_interval = cfg_scan_interval cfg, systems = Map.empty, update_dt = None,
       zones = Map.empty, published = [] \<rparr>"

definition api_safe_str :: "string \<Rightarrow> string" where
  "api_safe_str topic = map (\<lambda>c. if c = CHR ''.'' then CHR ''_'' else c) topic"

text \<open>The body of the loop of \<open>api_az_get_status\<close>, for one entry of the device list.\<close>

definition status_device :: "'f py_ops \<Rightarrow> string \<Rightarrow> 'f json \<Rightarrow> 'f airzone step" where
  "status_device ops mqtt_topic_pfx dev s =
     (case py_get dev API_DEVICE_TYPE JNull of
        Inl e \<Rightarrow> (s, Some e)
      | Inr dev_type \<Rightarrow>
          if dev_type = JStr API_AZ_SYSTEM then
            (case System_init ops dev of
               Inl e \<Rightarrow> (s, Some e)
             | Inr system0 \<Rightarrow>
                 (case system_update ops dev FULL system0 of
                    (system1, Some e) \<Rightarrow> (s, Some e)
                  | (system1, None) \<Rightarrow>
                      (let system = system_set_mqtt_topic mqtt_topic_pfx system1;
                           sys_key = get_id system
                       in if systems s sys_key = None
                          then (s\<lparr>systems := (systems s)(sys_key \<mapsto> system)\<rparr>, None)
                          else (s, None))))
          else if dev_type = JStr API_AZ_ZONE then
            (case Zone_init ops dev of
               Inl e \<Rightarrow> (s, Some e)
             | Inr zone0 \<Rightarrow>
                 (case zone_update ops dev FULL zone0 of
                    (zone1, Some e) \<Rightarrow> (s, Some e)
                  | (zone1, None) \<Rightarrow>
                      (let zone = zone_set_mqtt_topic mqtt_topic_pfx zone1;
                           zone_key = get_id zone
                       in if zones s zone_key = None
                          then (s\<lparr>zones := (zones s)(zone_key \<mapsto> zone)\<rparr>, None)
                          else (s, None))))
          else (s, None))"

definition api_az_get_status :: "'f py_ops \<Rightarrow> 'f json \<Rightarrow> int \<Rightarrow> 'f airzone step" where
  "api_az_get_status ops data cur_dt s =
     (let s1 = s\<lparr>api_raw_data := data\<rparr> in
      case py_get data API_BODY (JObj []) of
        Inl e \<Rightarrow> (s1, Some e)
      | Inr body \<Rightarrow>
          (case py_get body API_DEVICES (JList []) of
             Inl e \<Rightarrow> (s1, Some e)
           | Inr devices \<Rightarrow>
               (case py_iter devices of
                  Inl e \<Rightarrow> (s1, Some e)
                | Inr devs \<Rightarrow>
                    (case steps
                            (map (status_device ops (topic_interface s @ ''/'' @ az_mqtt_topic s))
                               devs) s1 of
                       (s2, Some e) \<Rightarrow> (s2, Some e)
                     | (s2, None) \<Rightarrow>
                         (s2\<lparr>api_init := True,
                              api_init_event := (if api_init s2 then api_init_event s2 else True),
                              update_dt := Some cur_dt\<rparr>, None)))))"

definition cmd_destination :: "'f airzone \<Rightarrow> string \<Rightarrow> string" where
  "cmd_destination s topic = mqtt_prefix s @ ''/'' @ AMT_RESPONSE @ ''/'' @ api_safe_str topic"

definition cmd_req_id :: "'f py_ops \<Rightarrow> int \<Rightarrow> string \<Rightarrow> string" where
  "cmd_req_id ops cur_dt req_id =
     (let f = dt_fields ops cur_dt;
          p = (\<lambda>i. str_of ops (JInt (f ! i)));
          cur_date = p 0 @ ''/'' @ p 1 @ ''/'' @ p 2;
          cur_time = p 3 @ '':'' @ p 4 @ '':'' @ p 5;
          time_id = cur_date @ ''-'' @ cur_time @ ''.'' @ p 6
      in AMT_REQUEST @ ''-'' @ time_id @ ''-'' @ api_safe_str req_id)"

definition get_system :: "'f py_ops \<Rightarrow> 'f airzone \<Rightarrow> 'f json \<Rightarrow> 'f json \<Rightarrow> system option" where
  "get_system ops s sid did = systems s (py_str ops sid @ '':'' @ py_str ops did)"

definition get_zone :: "'f py_ops \<Rightarrow> 'f airzone \<Rightarrow> 'f json \<Rightarrow> 'f json \<Rightarrow> 'f zone option" where
  "get_zone ops s sid did = zones s (py_str ops sid @ '':'' @ py_str ops did)"

definition update_callback ::
  "'f py_ops \<Rightarrow> 'f callback \<Rightarrow> 'f json \<Rightarrow> int \<Rightarrow> 'f airzone step" where
  "update_callback ops cb data now s =
     (case py_get data API_HEADERS (JObj []) of
        Inl e \<Rightarrow> (s, Some e)
      | Inr headers \<Rightarrow>
          (case py_get headers API_TS JNull of
             Inl e \<Rightarrow> (s, Some e)
           | Inr data_ts \<Rightarrow>
               (case (case data_ts of
                        JNull \<Rightarrow> Inr now
                      | _ \<Rightarrow> (case py_float ops data_ts of
                                Inl e \<Rightarrow> Inl e
                              | Inr x \<Rightarrow> fromtimestamp ops x)) of
                  Inl e \<Rightarrow> (s, Some e)
                | Inr dt \<Rightarrow>
                    (let s1 = s\<lparr>update_dt := Some dt\<rparr>
                     in case cb of None \<Rightarrow> (s1, None) | Some f \<Rightarrow> f s1))))"

subsection \<open>Inbound messages\<close>

text \<open>
  A payload is what \<^verbatim>\<open>json.loads\<close> makes of the bytes, or \<open>None\<close> when it rejects
  them. A topic list is mutated by \<^verbatim>\<open>topic.pop(0)\<close>; the functions below work on
  the list that is left.
\<close>

definition json_loads :: "'f json option \<Rightarrow> exc + 'f json" where
  "json_loads payload = (case payload of None \<Rightarrow> Inl JSONDecodeError | Some d \<Rightarrow> Inr d)"

text \<open>\<^verbatim>\<open>if topic[0] == seg: topic.pop(0)\<close>\<close>

definition pop_if :: "string \<Rightarrow> string list \<Rightarrow> exc + string list" where
  "pop_if seg topic =
     (case topic of [] \<Rightarrow> Inl IndexError | t # ts \<Rightarrow> Inr (if t = seg then ts else t # ts))"

definition msg_events_status ::
  "'f py_ops \<Rightarrow> 'f callback \<Rightarrow> string list \<Rightarrow> 'f json option \<Rightarrow> int \<Rightarrow> 'f airzone step" where
  "msg_events_status ops cb topic payload now s =
     (case pop_if AMT_STATUS topic of
        Inl e \<Rightarrow> (s, Some e)
      | Inr topic1 \<Rightarrow>
     (case json_loads payload of
        Inl e \<Rightarrow> (s, Some e)
      | Inr data \<Rightarrow>
     (case py_get data API_BODY (JObj []) of
        Inl e \<Rightarrow> (s, Some e)
      | Inr body \<Rightarrow>
     (case py_get body API_DEVICE_ID JNull of
        Inl e \<Rightarrow> (s, Some e)
      | Inr dev_id \<Rightarrow>
     (case py_get body API_DEVICE_TYPE JNull of
        Inl e \<Rightarrow> (s, Some e)
      | Inr device_type \<Rightarrow>
     (case py_get body API_SYSTEM_ID JNull of
        Inl e \<Rightarrow> (s, Some e)
      | Inr sys_id \<Rightarrow>
          if device_type = JStr API_AZ_SYSTEM then
            (case get_system ops s sys_id dev_id of
               None \<Rightarrow> (s, None)
             | Some system \<Rightarrow>
                 (let key = py_str ops sys_id @ '':'' @ py_str ops dev_id in
                  case system_update ops body PARTIAL system of
                    (system1, Some e) \<Rightarrow> (s\<lparr>systems := (systems s)(key \<mapsto> system1)\<rparr>, Some e)
                  | (system1, None) \<Rightarrow>
                      update_callback ops cb data now
                        (s\<lparr>systems := (systems s)(key \<mapsto> system1)\<rparr>)))
          else if device_type = JStr API_AZ_ZONE then
            (case get_zone ops s sys_id dev_id of
               None \<Rightarrow> (s, None)
             | Some zone \<Rightarrow>
                 (let key = py_str ops sys_id @ '':'' @ py_str ops dev_id in
                  case zone_update ops body PARTIAL zone of
                    (zone1, Some e) \<Rightarrow> (s\<lparr>zones := (zones s)(key \<mapsto> zone1)\<rparr>, Some e)
                  | (zone1, None) \<Rightarrow>
                      update_callback ops cb data now
                        (s\<lparr>zones := (zones s)(key \<mapsto> zone1)\<rparr>)))
          else (s, None)))))))"

definition msg_events ::
  "'f py_ops \<Rightarrow> 'f callback \<Rightarrow> string list \<Rightarrow> 'f json option \<Rightarrow> int \<Rightarrow> 'f airzone step" where
  "msg_events ops cb topic payload now s =
     (case pop_if AMT_EVENTS topic of
        Inl e \<Rightarrow> (s, Some e)
      | Inr [] \<Rightarrow> (s, Some IndexError)
      | Inr (t # ts) \<Rightarrow>
          if t = AMT_STATUS then msg_events_status ops cb (t # ts) payload now s
          else (s, None))"

definition msg_online :: "'f py_ops \<Rightarrow> 'f json option \<Rightarrow> 'f airzone step" where
  "msg_online ops payload s =
     (case json_loads payload of
        Inl e \<Rightarrow> (s, Some e)
      | Inr data \<Rightarrow>
          (case py_get data API_ONLINE (JBool False) of
             Inl e \<Rightarrow> (s, Some e)
           | Inr v \<Rightarrow> (s\<lparr>online := py_bool ops v, online_event := py_bool ops v\<rparr>, None)))"

text \<open>
  \<open>now1\<close> is the clock as \<open>api_az_get_status\<close> reads it, \<open>now2\<close> as
  \<open>update_callback\<close> reads it afterwards. The comparison with the pending id is Python's
  \<^verbatim>\<open>==\<close>, which on a str (the pending id of every request the program sends) is equality
  of values.
\<close>

definition msg_response ::
  "'f py_ops \<Rightarrow> 'f callback \<Rightarrow> string list \<Rightarrow> 'f json option \<Rightarrow> int \<Rightarrow> int \<Rightarrow> 'f airzone step"
  where
  "msg_response ops cb topic payload now1 now2 s =
     (case json_loads payload of
        Inl e \<Rightarrow> (s, Some e)
      | Inr data \<Rightarrow>
     (case py_get data API_HEADERS (JObj []) of
        Inl e \<Rightarrow> (s, Some e)
      | Inr headers \<Rightarrow>
     (case py_get headers API_REQ_ID JNull of
        Inl e \<Rightarrow> (s, Some e)
      | Inr req_id \<Rightarrow>
          (let s1 = (if req_id = api_req_id s then s\<lparr>api_resp := True\<rparr> else s) in
           case pop_if AMT_RESPONSE topic of
             Inl e \<Rightarrow> (s1, Some e)
           | Inr [] \<Rightarrow> (s1, Some IndexError)
           | Inr (t # ts) \<Rightarrow>
               if t = api_safe_str API_AZ_GET_STATUS then
                 (case api_az_get_status ops data now1 s1 of
                    (s2, Some e) \<Rightarrow> (s2, Some e)
                  | (s2, None) \<Rightarrow> update_callback ops cb (JObj []) now2 s2)
               else (s1, None)))))"

text \<open>\<^verbatim>\<open>str.removeprefix\<close> and \<^verbatim>\<open>str.split("/")\<close>\<close>

definition removeprefix :: "string \<Rightarrow> string \<Rightarrow> string" where
  "removeprefix pfx s = (if take (length pfx) s = pfx then drop (length pfx) s else s)"

fun split_on :: "char \<Rightarrow> string \<Rightarrow> string list" where
  "split_on c [] = [[]]"
| "split_on c (x # xs) =
     (if x = c then [] # split_on c xs
      else (case split_on c xs of [] \<Rightarrow> [[x]] | w # ws \<Rightarrow> (x # w) # ws))"

definition msg_process ::
  "'f py_ops \<Rightarrow> 'f callback \<Rightarrow> string \<Rightarrow> 'f json option \<Rightarrow> int \<Rightarrow> int \<Rightarrow> 'f airzone step"
  where
  "msg_process ops cb topic_str payload now1 now2 s =
     (let topic = split_on CHR ''/'' (removeprefix (mqtt_prefix s @ ''/'') topic_str) in
      case topic of
        [] \<Rightarrow> (s, Some IndexError)
      | t # ts \<Rightarrow>
          if t = AMT_EVENTS then msg_events ops cb topic payload now1 s
          else if t = AMT_INVOKE then (s, None)
          else if t = AMT_ONLINE then msg_online ops payload s
          else if t = AMT_RESPONSE then msg_response ops cb topic payload now1 now2 s
          else (s, None))"

subsection \<open>Requests\<close>

text \<open>\<open>asyncio.Lock.release\<close>: releasing a lock that is not held raises.\<close>

definition lock_release :: "bool \<Rightarrow> exc + bool" where
  "lock_release held = (if held then Inr False else Inl RuntimeError)"

text \<open>
  While a task waits, the receive loop handles the messages that come in. An inbound
  message is its topic, its payload and the two clock readings of its handler. The list
  given to a wait holds the messages that arrive before the timeout of the caller
  expires: the wait ends when the event is set; when the list runs out first, the
  timeout cancels the waiting task. An exception of a handler ends the receive loop and
  with it the program, and is passed on as it is.
\<close>

type_synonym 'f inbound = "string \<times> 'f json option \<times> int \<times> int"

fun api_resp_wait :: "'f py_ops \<Rightarrow> 'f callback \<Rightarrow> 'f inbound list \<Rightarrow> 'f airzone step" where
  "api_resp_wait ops cb [] s = (if api_resp s then (s, None) else (s, Some CancelledError))"
| "api_resp_wait ops cb ((topic_str, payload, now1, now2) # ms) s =
     (if api_resp s then (s, None)
      else (case msg_process ops cb topic_str payload now1 now2 s of
              (s1, Some e) \<Rightarrow> (s1, Some e)
            | (s1, None) \<Rightarrow> api_resp_wait ops cb ms s1))"

text \<open>Waiting for a lock that nobody releases: the messages are handled, then the
  timeout cancels the task.\<close>

fun lock_wait :: "'f py_ops \<Rightarrow> 'f callback \<Rightarrow> 'f inbound list \<Rightarrow> 'f airzone step" where
  "lock_wait ops cb [] s = (s, Some CancelledError)"
| "lock_wait ops cb ((topic_str, payload, now1, now2) # ms) s =
     (case msg_process ops cb topic_str payload now1 now2 s of
        (s1, Some e) \<Rightarrow> (s1, Some e)
      | (s1, None) \<Rightarrow> lock_wait ops cb ms s1)"

definition cmd_invoke ::
  "'f py_ops \<Rightarrow> 'f callback \<Rightarrow> 'f json \<Rightarrow> 'f inbound list \<Rightarrow> 'f airzone step" where
  "cmd_invoke ops cb data msgs s =
     (case py_get data API_HEADERS (JObj []) of
        Inl e \<Rightarrow> (s, Some e)
      | Inr headers \<Rightarrow>
          (case py_get headers API_REQ_ID (JStr []) of
             Inl e \<Rightarrow> (s, Some e)
           | Inr req_id \<Rightarrow>
               if api_lock s then lock_wait ops cb msgs s
               else
                 (let s1 = s\<lparr>api_lock := True\<rparr>;
                      s2 = s1\<lparr>api_resp := False\<rparr>;
                      s3 = s2\<lparr>api_req_id := req_id\<rparr>;
                      s4 = s3\<lparr>published :=
                               published s3 @ [(mqtt_prefix s3 @ ''/'' @ AMT_INVOKE, data)]\<rparr>
                  in case api_resp_wait ops cb msgs s4 of
                       (s5, r) \<Rightarrow>
                         (case lock_release (api_lock s5) of
                            Inl e \<Rightarrow> (s5, Some e)
                          | Inr l \<Rightarrow> (s5\<lparr>api_lock := l\<rparr>, r)))))"

definition cmd_az_get_status ::
  "'f py_ops \<Rightarrow> 'f callback \<Rightarrow> int \<Rightarrow> 'f inbound list \<Rightarrow> 'f airzone step" where
  "cmd_az_get_status ops cb now msgs s =
     cmd_invoke ops cb
       (JObj
          [(API_HEADERS,
            JObj [(API_CMD, JStr API_AZ_GET_STATUS),
                  (API_DESTINATION, JStr (cmd_destination s API_AZ_GET_STATUS)),
                  (API_REQ_ID, JStr (cmd_req_id ops now API_AZ_GET_STATUS))]),
           (API_BODY, JNull)])
       msgs s"

subsection \<open>The update cycle\<close>

definition update_events :: "'f airzone \<Rightarrow> int \<Rightarrow> bool" where
  "update_events s now =
     (if api_init s then
        (if online s then
           (case update_dt s of None \<Rightarrow> False | Some dt \<Rightarrow> now - dt \<le> poll_timeout s)
         else False)
      else False)"

text \<open>
  \<open>asyncio.timeout\<close> turns the cancellation of the task into \<open>TimeoutError\<close>, which
  the handler of \<open>_update_polling\<close> catches.
\<close>

definition update_polling ::
  "'f py_ops \<Rightarrow> 'f callback \<Rightarrow> int \<Rightarrow> 'f inbound list \<Rightarrow> 'f airzone step" where
  "update_polling ops cb now msgs s =
     (if online s then
        (case cmd_az_get_status ops cb now msgs s of
           (s1, Some e) \<Rightarrow>
             if e = CancelledError then
               (case lock_release (api_lock s1) of
                  Inl e1 \<Rightarrow> (s1, Some e1)
                | Inr l \<Rightarrow> (s1\<lparr>api_lock := l\<rparr>, Some AirzoneTimeout))
             else (s1, Some e)
         | (s1, None) \<Rightarrow>
             if api_init s1 then (s1, None) else (s1, Some AirzonePollError))
      else (s, Some AirzoneOffline))"

text \<open>\<open>now_ev\<close> is the clock as \<open>_update_events\<close> reads it, \<open>now_req\<close> as
  \<open>cmd_req_id\<close> reads it.\<close>

definition update ::
  "'f py_ops \<Rightarrow> 'f callback \<Rightarrow> int \<Rightarrow> int \<Rightarrow> 'f inbound list \<Rightarrow> 'f airzone step" where
  "update ops cb now_ev now_req msgs s =
     (if update_events s now_ev then (s, None) else update_polling ops cb now_req msgs s)"

section \<open>Vocabulary of the proofs\<close>

text \<open>
  A function on an object overwrites a field when it either keeps the field or sets it
  to a value that does not depend on the object. A step is an overwrite when its
  exception does not depend on the object and its effect overwrites every field.
\<close>

definition fld_ow :: "('z \<Rightarrow> 'a) \<Rightarrow> ('z \<Rightarrow> 'z) \<Rightarrow> bool" where
  "fld_ow sel U = ((\<forall>z. sel (U z) = sel z) \<or> (\<exists>c. \<forall>z. sel (U z) = c))"

definition dev_ow :: "('a device_scheme \<Rightarrow> 'a device_scheme) \<Rightarrow> bool" where
  "dev_ow U =
     (fld_ow device_id U \<and> fld_ow is_connected U \<and> fld_ow manufacturer U \<and>
      fld_ow system_id U \<and> fld_ow units U \<and> fld_ow model U \<and> fld_ow mqtt_topic U \<and>
      fld_ow name U)"

definition zone_ow :: "('f zone \<Rightarrow> 'f zone) \<Rightarrow> bool" where
  "zone_ow U =
     (dev_ow U \<and> fld_ow air_active U \<and> fld_ow humidity U \<and> fld_ow mode U \<and>
      fld_ow mode_available U \<and> fld_ow zpower U \<and> fld_ow rad_active U \<and>
      fld_ow setpoint U \<and> fld_ow setpoint_max U \<and> fld_ow setpoint_min U \<and>
      fld_ow step U \<and> fld_ow zone_work_temp U)"

definition sys_ow :: "(system \<Rightarrow> system) \<Rightarrow> bool" where
  "sys_ow U = dev_ow U"

definition ow_step :: "(('z \<Rightarrow> 'z) \<Rightarrow> bool) \<Rightarrow> 'z step \<Rightarrow> bool" where
  "ow_step P f = (\<exists>u e. P u \<and> (\<forall>z. f z = (u z, e)))"

text \<open>A callback that leaves the device store alone (the one the interface registers
  publishes the devices and changes nothing).\<close>

definition keeps_store :: "'f callback \<Rightarrow> bool" where
  "keeps_store cb =
     (case cb of
        None \<Rightarrow> True
      | Some f \<Rightarrow> (\<forall>t. zones (fst (f t)) = zones t \<and> systems (fst (f t)) = systems t))"

text \<open>An instance of the runtime for the examples: floats are integers, no string
  parses as a number, a timestamp counts seconds.\<close>

definition ex_ops :: "int py_ops" where
  "ex_ops =
     \<lparr> float_of_int = Inr, float_of_str = (\<lambda>s. Inl ValueError), int_of_float = Inr,
       int_of_str = (\<lambda>s. Inl ValueError), float_truthy = (\<lambda>x. x \<noteq> 0),
       float_int_value = Some, round1 = (\<lambda>x. x), str_of = (\<lambda>v. ''?''),
       fromtimestamp = (\<lambda>x. Inr (x * 1000000)),
       dt_fields = (\<lambda>t. [1970, 1, 1, 0, 0, 0, 0]) \<rparr>"

text \<open>A zone, a state that stores it, and an event message for it.\<close>

definition ex_zone :: "int zone" where
  "ex_zone =
     \<lparr> device_id = ''2'', is_connected = True, manufacturer = AZ_MANUFACTURER,
       system_id = ''1'', units = CELSIUS, model = AZ_MODEL_ZONE,
       mqtt_topic = Some ''airzone-mqtt-hass/airzone/zone/1_2'', name = ''Zone [1:2]'',
       air_active = None, humidity = Some 40, mode = Some 3, mode_available = [2, 3],
       zpower = Some False, rad_active = None, setpoint = Some 21, setpoint_max = Some 30,
       setpoint_min = Some 15, step = None, zone_work_temp = Some 20 \<rparr>"

definition ex_state :: "int airzone" where
  "ex_state =
     (Airzone_init Config_init)
       \<lparr> api_init := True, api_init_event := True, online := True, online_event := True,
         update_dt := Some 0, zones := [''1:2'' \<mapsto> ex_zone] \<rparr>"

definition ex_event :: "(string \<times> int json) list" where
  "ex_event =
     [(API_HEADERS, JObj []),
      (API_BODY,
       JObj [(API_DEVICE_ID, JStr ''2''), (API_DEVICE_TYPE, JStr API_AZ_ZONE),
             (API_SYSTEM_ID, JStr ''1''),
             (API_PARAMETERS, JObj [(API_POWER, JBool True)])])]"

text \<open>A step keeps an attribute when the object it returns has the attribute as it was.\<close>

definition keeps :: "('z \<Rightarrow> 'a) \<Rightarrow> 'z step \<Rightarrow> bool" where
  "keeps sel f = (\<forall>z. sel (fst (f z)) = sel z)"

text \<open>A snapshot entry for the zone stored in \<open>ex_state\<close>, the zone its
  constructor builds, an entry of no known type, and the snapshot of both.\<close>

definition ex_entry :: "int json" where
  "ex_entry =
     JObj [(API_DEVICE_ID, JStr ''2''), (API_DEVICE_TYPE, JStr API_AZ_ZONE),
           (API_SYSTEM_ID, JStr ''1''),
           (API_PARAMETERS, JObj [(API_POWER, JBool True)])]"

definition ex_zone0 :: "int zone" where
  "ex_zone0 =
     \<lparr> device_id = ''2'', is_connected = False, manufacturer = AZ_MANUFACTURER,
       system_id = ''1'', units = CELSIUS, model = AZ_MODEL_ZONE,
       mqtt_topic = None, name = ''Zone [1:2]'',
       air_active = None, humidity = None, mode = None, mode_available = [],
       zpower = None, rad_active = None, setpoint = None, setpoint_max = None,
       setpoint_min = None, step = None, zone_work_temp = None \<rparr>"

definition ex_other :: "int json" where
  "ex_other = JObj [(API_DEVICE_ID, JStr ''9''), (API_DEVICE_TYPE, JStr ''az_other'')]"

definition ex_snapshot :: "int json" where
  "ex_snapshot = JObj [(API_HEADERS, JObj []), (API_BODY, JObj [(API_DEVICES, JList [ex_entry, ex_other])])]"

definition ex_sys_entry :: "int json" where
  "ex_sys_entry =
     JObj [(API_DEVICE_ID, JStr ''2''), (API_DEVICE_TYPE, JStr API_AZ_SYSTEM),
           (API_SYSTEM_ID, JStr ''1'')]"

definition ex_system0 :: system where
  "ex_system0 =
     \<lparr> device_id = ''2'', is_connected = False, manufacturer = AZ_MANUFACTURER,
       system_id = ''1'', units = CELSIUS, model = AZ_MODEL_SYSTEM,
       mqtt_topic = None, name = ''System [1:2]'' \<rparr>"

text \<open>
  Every stored device is stored under its own id. The receive loop, as a function of
  the messages it is given.
\<close>

definition store_keyed :: "'f airzone \<Rightarrow> bool" where
  "store_keyed s =
     ((\<forall>k d. systems s k = Some d \<longrightarrow> get_id d = k)
      \<and> (\<forall>k z. zones s k = Some z \<longrightarrow> get_id z = k))"

fun run_msgs :: "'f py_ops \<Rightarrow> 'f callback \<Rightarrow> 'f inbound list \<Rightarrow> 'f airzone \<Rightarrow> 'f airzone" where
  "run_msgs ops cb [] s = s"
| "run_msgs ops cb ((topic_str, payload, now1, now2) # ms) s =
     run_msgs ops cb ms (fst (msg_process ops cb topic_str payload now1 now2 s))"

text \<open>A snapshot with a system and a zone that have the same ids.\<close>

definition ex_snapshot2 :: "int json" where
  "ex_snapshot2 =
     JObj [(API_HEADERS, JObj []), (API_BODY, JObj [(API_DEVICES, JList [ex_sys_entry, ex_entry])])]"

text \<open>
  The part of the state that no handler of an inbound message writes: the calls of
  \<open>mqtt_publish\<close> so far, the pending id and the lock. A property of that part is
  kept by the handlers when the callback keeps it.
\<close>

definition frame :: "'f airzone \<Rightarrow> (string \<times> 'f json) list \<times> 'f json \<times> bool" where
  "frame s = (published s, api_req_id s, api_lock s)"

definition frame_ok ::
  "((string \<times> 'f json) list \<times> 'f json \<times> bool \<Rightarrow> bool) \<Rightarrow> 'f airzone \<Rightarrow> bool" where
  "frame_ok Q s = Q (frame s)"

definition cb_keeps ::
  "((string \<times> 'f json) list \<times> 'f json \<times> bool \<Rightarrow> bool) \<Rightarrow> 'f callback \<Rightarrow> bool" where
  "cb_keeps Q cb =
     (case cb of
        None \<Rightarrow> True
      | Some f \<Rightarrow> (\<forall>t. frame_ok Q t \<longrightarrow> frame_ok Q (fst (f t))))"

text \<open>
  The calls of \<open>mqtt_publish\<close> so far begin with a given list; a callback that only
  adds to them; a callback that leaves the pending request alone.
\<close>

definition has_prefix :: "(string \<times> 'f json) list \<Rightarrow> 'f airzone \<Rightarrow> bool" where
  "has_prefix pre s = (take (length pre) (published s) = pre)"

definition cb_appends :: "'f callback \<Rightarrow> bool" where
  "cb_appends cb =
     (case cb of
        None \<Rightarrow> True
      | Some f \<Rightarrow> (\<forall>pre t. has_prefix pre t \<longrightarrow> has_prefix pre (fst (f t))))"

definition keeps_pending :: "'f callback \<Rightarrow> bool" where
  "keeps_pending cb =
     (case cb of
        None \<Rightarrow> True
      | Some f \<Rightarrow>
          (\<forall>t. api_resp (fst (f t)) = api_resp t \<and> api_req_id (fst (f t)) = api_req_id t
               \<and> api_lock (fst (f t)) = api_lock t))"

text \<open>The request that \<open>cmd_az_get_status\<close> sends.\<close>

definition az_get_status_request :: "'f py_ops \<Rightarrow> 'f airzone \<Rightarrow> int \<Rightarrow> 'f json" where
  "az_get_status_request ops s now =
     JObj
       [(API_HEADERS,
         JObj [(API_CMD, JStr API_AZ_GET_STATUS),
               (API_DESTINATION, JStr (cmd_destination s API_AZ_GET_STATUS)),
               (API_REQ_ID, JStr (cmd_req_id ops now API_AZ_GET_STATUS))]),
        (API_BODY, JNull)]"

text \<open>A request in flight, and a get-status response that carries another id.\<close>

definition ex_pending :: "int airzone" where
  "ex_pending =
     (Airzone_init Config_init)
       \<lparr> api_lock := True, api_req_id := JStr ''request-1'', online := True,
         online_event := True \<rparr>"

definition ex_response :: "int json" where
  "ex_response =
     JObj [(API_HEADERS, JObj [(API_REQ_ID, JStr ''request-0'')]),
           (API_BODY, JObj [(API_DEVICES, JList [ex_entry])])]"

text \<open>An event message for the stored zone that also carries units.\<close>

definition ex_event_units :: "(string \<times> int json) list" where
  "ex_event_units =
     [(API_HEADERS, JObj []),
      (API_BODY,
       JObj [(API_DEVICE_ID, JStr ''2''), (API_DEVICE_TYPE, JStr API_AZ_ZONE),
             (API_SYSTEM_ID, JStr ''1''),
             (API_META, JObj [(API_UNITS, JInt 1)]),
             (API_PARAMETERS, JObj [(API_POWER, JBool True)])])]"

text \<open>A zone entry whose units are no member of the enum, and a snapshot that has it
  before the entry of the zone \<open>1:2\<close>.\<close>

definition ex_bad_entry :: "int json" where
  "ex_bad_entry =
     JObj [(API_DEVICE_ID, JStr ''3''), (API_DEVICE_TYPE, JStr API_AZ_ZONE),
           (API_SYSTEM_ID, JStr ''1''), (API_META, JObj [(API_UNITS, JInt 5)])]"

definition ex_snapshot_bad :: "int json" where
  "ex_snapshot_bad =
     JObj [(API_HEADERS, JObj []),
           (API_BODY, JObj [(API_DEVICES, JList [ex_bad_entry, ex_entry])])]"

definition ex_bad_sys_entry :: "int json" where
  "ex_bad_sys_entry =
     JObj [(API_DEVICE_ID, JStr ''2''), (API_DEVICE_TYPE, JStr API_AZ_SYSTEM),
           (API_SYSTEM_ID, JStr ''1''), (API_META, JObj [(API_UNITS, JInt 5)])]"

definition ex_zone3 :: "int zone" where
  "ex_zone3 = ex_zone0\<lparr>device_id := ''3'', name := ''Zone [1:3]''\<rparr>"

text \<open>
  The response to the get-status request that \<open>ex_state\<close> sends when the clock reads
  \<open>901000000\<close>: it has the id of the request and a timestamp of 5 seconds in its headers.
  It arrives while the request waits.
\<close>

definition ex_poll_response :: "int json" where
  "ex_poll_response =
     JObj [(API_HEADERS,
            JObj [(API_REQ_ID, JStr (cmd_req_id ex_ops 901000000 API_AZ_GET_STATUS)),
                  (API_TS, JInt 5)]),
           (API_BODY, JObj [(API_DEVICES, JList [])])]"

definition ex_poll_msgs :: "int inbound list" where
  "ex_poll_msgs = [(''airzone/v1/response/az_get_status'', Some ex_poll_response, 902000000, 903000000)]"

text \<open>The state while that request waits: the lock is held, the id of the request is
  pending, the request is published.\<close>

definition ex_poll_pending :: "int airzone" where
  "ex_poll_pending =
     ex_state
       \<lparr> api_lock := True, api_resp := False,
         api_req_id := JStr (cmd_req_id ex_ops 901000000 API_AZ_GET_STATUS),
         published := published ex_state
           @ [(mqtt_prefix ex_state @ ''/'' @ AMT_INVOKE,
               az_get_status_request ex_ops ex_state 901000000)] \<rparr>"

section \<open>Constant tables\<close>

lemmas api_consts =
  API_AZ_GET_STATUS_def API_AZ_SYSTEM_def API_AZ_ZONE_def API_BODY_def API_CMD_def
  API_DESTINATION_def API_DEVICE_ID_def API_DEVICE_TYPE_def API_DEVICES_def API_HEADERS_def
  API_IS_CONNECTED_def API_META_def API_ONLINE_def API_PARAMETERS_def API_REQ_ID_def
  API_SYSTEM_ID_def API_TS_def API_UNITS_def API_AIR_ACTIVE_def API_HUMIDITY_def API_MAX_def
  API_MIN_def API_MODE_def API_MODE_AVAILABLE_def API_NAME_def API_POWER_def
  API_RAD_ACTIVE_def API_RANGE_SP_def API_SETPOINT_def API_STEP_def API_ZONE_WORK_TEMP_def

lemmas amt_consts =
  AMT_EVENTS_def AMT_INVOKE_def AMT_ONLINE_def AMT_REQUEST_def AMT_RESPONSE_def
  AMT_STATUS_def AMT_V1_def

lemmas azd_consts =
  AZD_ACTIVE_def AZD_AIR_ACTIVE_def AZD_DEVICE_ID_def AZD_HUMIDITY_def AZD_ID_def
  AZD_IS_CONNECTED_def AZD_MODE_def AZD_MODE_AVAILABLE_def AZD_NAME_def AZD_POWER_def
  AZD_RAD_ACTIVE_def AZD_SETPOINT_def AZD_SETPOINT_MAX_def AZD_SETPOINT_MIN_def AZD_STEP_def
  AZD_SYSTEM_ID_def AZD_UNITS_def AZD_ZONE_WORK_TEMP_def

section \<open>Overwriting steps\<close>

lemma fld_ow_id: "fld_ow sel (\<lambda>z. z)"
  by (simp add: fld_ow_def)

lemma fld_ow_comp:
  assumes "fld_ow sel U" and "fld_ow sel V"
  shows "fld_ow sel (\<lambda>z. V (U z))"
  using assms unfolding fld_ow_def by metis

lemma fld_ow_twice: "fld_ow sel U \<Longrightarrow> sel (U (U z)) = sel (U z)"
  unfolding fld_ow_def by metis

lemma dev_ow_id: "dev_ow (\<lambda>z. z)"
  by (simp add: dev_ow_def fld_ow_id)

lemma dev_ow_comp: "dev_ow U \<Longrightarrow> dev_ow V \<Longrightarrow> dev_ow (\<lambda>z. V (U z))"
  by (simp add: dev_ow_def fld_ow_comp)

lemma zone_ow_id: "zone_ow (\<lambda>z. z)"
  by (simp add: zone_ow_def dev_ow_id fld_ow_id)

lemma zone_ow_comp: "zone_ow U \<Longrightarrow> zone_ow V \<Longrightarrow> zone_ow (\<lambda>z. V (U z))"
  by (simp add: zone_ow_def dev_ow_comp fld_ow_comp)

lemma zone_ow_twice:
  fixes U :: "'f zone \<Rightarrow> 'f zone"
  assumes "zone_ow U"
  shows "U (U z) = U z"
proof (rule zone.equality)
  show "zone.more (U (U z)) = zone.more (U z)" by simp
qed (use assms in \<open>simp_all add: zone_ow_def dev_ow_def fld_ow_twice\<close>)

lemma sys_ow_twice:
  fixes U :: "system \<Rightarrow> system"
  assumes "sys_ow U"
  shows "U (U z) = U z"
proof (rule device.equality)
  show "device.more (U (U z)) = device.more (U z)" by simp
qed (use assms in \<open>simp_all add: sys_ow_def dev_ow_def fld_ow_twice\<close>)

lemma ow_step_twice:
  assumes "ow_step P f" and "\<And>u z. P u \<Longrightarrow> u (u z) = u z"
  shows "f (fst (f z)) = f z"
  using assms unfolding ow_step_def by (metis fst_conv)

lemma ow_step_steps:
  assumes "P (\<lambda>z. z)"
    and "\<And>U V. P U \<Longrightarrow> P V \<Longrightarrow> P (\<lambda>z. V (U z))"
    and "\<forall>f \<in> set fs. ow_step P f"
  shows "ow_step P (steps fs)"
  using assms(3)
proof (induction fs)
  case Nil
  show ?case unfolding ow_step_def using assms(1) by (intro exI[of _ "\<lambda>z. z"] exI[of _ None]) simp
next
  case (Cons f fs)
  from Cons.prems obtain u e where u: "P u" "\<forall>z. f z = (u z, e)"
    unfolding ow_step_def by auto
  from Cons obtain v d where v: "P v" "\<forall>z. steps fs z = (v z, d)"
    unfolding ow_step_def by auto
  show ?case
  proof (cases e)
    case None
    have "P (\<lambda>z. v (u z))" using assms(2) u(1) v(1) by blast
    moreover have "\<forall>z. steps (f # fs) z = (v (u z), d)" using u(2) v(2) None by simp
    ultimately show ?thesis unfolding ow_step_def by blast
  next
    case (Some x)
    have "\<forall>z. steps (f # fs) z = (u z, Some x)" using u(2) Some by simp
    then show ?thesis unfolding ow_step_def using u(1) by blast
  qed
qed

lemma ow_step_set_field:
  fixes params :: "'f json"
  assumes "P (\<lambda>z. z)" and "\<And>x. P (upd x)"
  shows "ow_step P (set_field params key conv upd)"
proof -
  have "(\<exists>e. py_get params key JNull = Inl e) \<or> py_get params key JNull = Inr JNull
      \<or> (\<exists>v. v \<noteq> JNull \<and> py_get params key JNull = Inr v)"
    by (cases "py_get params key JNull") auto
  then show ?thesis
  proof (elim disjE exE conjE)
    fix e assume "py_get params key JNull = Inl e"
    then have "\<forall>z. set_field params key conv upd z = (z, Some e)"
      by (simp add: set_field_def)
    then show ?thesis unfolding ow_step_def using assms(1) by blast
  next
    assume "py_get params key JNull = Inr JNull"
    then have "\<forall>z. set_field params key conv upd z = (z, None)"
      by (simp add: set_field_def)
    then show ?thesis unfolding ow_step_def using assms(1) by blast
  next
    fix v :: "'f json" assume v: "v \<noteq> JNull" "py_get params key JNull = Inr v"
    show ?thesis
    proof (cases "conv v")
      case (Inl e)
      with v have "\<forall>z. set_field params key conv upd z = (z, Some e)"
        by (cases v) (simp_all add: set_field_def)
      then show ?thesis unfolding ow_step_def using assms(1) by blast
    next
      case (Inr x)
      with v have "\<forall>z. set_field params key conv upd z = (upd x z, None)"
        by (cases v) (simp_all add: set_field_def)
      then show ?thesis unfolding ow_step_def using assms(2) by blast
    qed
  qed
qed

section \<open>Updates are overwrites\<close>

lemma ow_step_fail: "P (\<lambda>z. z) \<Longrightarrow> ow_step P (\<lambda>z. (z, Some e))"
  unfolding ow_step_def by blast

lemma ow_step_cong: "(\<And>z. f z = g z) \<Longrightarrow> ow_step P g \<Longrightarrow> ow_step P f"
  unfolding ow_step_def by simp

lemma ow_step_seq:
  assumes "\<And>U V. P U \<Longrightarrow> P V \<Longrightarrow> P (\<lambda>z. V (U z))"
    and "ow_step P f" and "ow_step P g"
  shows "ow_step P (\<lambda>z. case f z of (z1, Some e) \<Rightarrow> (z1, Some e) | (z1, None) \<Rightarrow> g z1)"
proof -
  from assms(2) obtain u e where u: "P u" "\<forall>z. f z = (u z, e)"
    unfolding ow_step_def by auto
  from assms(3) obtain v d where v: "P v" "\<forall>z. g z = (v z, d)"
    unfolding ow_step_def by auto
  show ?thesis
  proof (cases e)
    case None
    have "P (\<lambda>z. v (u z))" using assms(1) u(1) v(1) by blast
    moreover have "\<forall>z. (case f z of (z1, Some e) \<Rightarrow> (z1, Some e) | (z1, None) \<Rightarrow> g z1) = (v (u z), d)"
      using u(2) v(2) None by simp
    ultimately show ?thesis unfolding ow_step_def by blast
  next
    case (Some x)
    have "\<forall>z. (case f z of (z1, Some e) \<Rightarrow> (z1, Some e) | (z1, None) \<Rightarrow> g z1) = (u z, Some x)"
      using u(2) Some by simp
    then show ?thesis unfolding ow_step_def using u(1) by blast
  qed
qed

lemma ow_step_device_update:
  fixes P :: "('a device_scheme \<Rightarrow> 'a device_scheme) \<Rightarrow> bool"
  assumes id: "P (\<lambda>z. z)"
    and comp: "\<And>U V. P U \<Longrightarrow> P V \<Longrightarrow> P (\<lambda>z. V (U z))"
    and conn: "\<And>x. P (\<lambda>z. z\<lparr>is_connected := x\<rparr>)"
    and unit: "\<And>x. P (\<lambda>z. z\<lparr>units := x\<rparr>)"
  shows "ow_step P (device_update ops data ut)"
proof (cases "py_get data API_META (JObj [])")
  case (Inl e)
  show ?thesis
    by (rule ow_step_cong [where g = "\<lambda>z. (z, Some e)"])
       (simp_all add: device_update_def Inl ow_step_fail id)
next
  case meta: (Inr meta)
  show ?thesis
  proof (cases "py_get data API_PARAMETERS (JObj [])")
    case (Inl e)
    show ?thesis
      by (rule ow_step_cong [where g = "\<lambda>z. (z, Some e)"])
         (simp_all add: device_update_def meta Inl ow_step_fail id)
  next
    case (Inr parameters)
    have "ow_step P (steps [set_field parameters API_IS_CONNECTED (\<lambda>v. Inr (py_bool ops v))
                 (\<lambda>x z. z\<lparr>is_connected := x\<rparr>),
               set_field meta API_UNITS (AZ_TemperatureUnit_of ops) (\<lambda>x z. z\<lparr>units := x\<rparr>)])"
      by (rule ow_step_steps [where P = P])
         (simp_all add: ow_step_set_field id conn unit comp)
    then show ?thesis
      by (rule ow_step_cong [rotated]) (simp add: device_update_def meta Inr)
  qed
qed

lemma zone_ow_setters:
  "zone_ow (\<lambda>z. z\<lparr>is_connected := b\<rparr>)"
  "zone_ow (\<lambda>z. z\<lparr>units := u\<rparr>)"
  "zone_ow (\<lambda>z. z\<lparr>name := n\<rparr>)"
  "zone_ow (\<lambda>z. z\<lparr>air_active := a\<rparr>)"
  "zone_ow (\<lambda>z. z\<lparr>humidity := h\<rparr>)"
  "zone_ow (\<lambda>z. z\<lparr>mode := m\<rparr>)"
  "zone_ow (\<lambda>z. z\<lparr>mode_available := ms\<rparr>)"
  "zone_ow (\<lambda>z. z\<lparr>zpower := p\<rparr>)"
  "zone_ow (\<lambda>z. z\<lparr>rad_active := r\<rparr>)"
  "zone_ow (\<lambda>z. z\<lparr>setpoint := s\<rparr>)"
  "zone_ow (\<lambda>z. z\<lparr>setpoint_max := smax\<rparr>)"
  "zone_ow (\<lambda>z. z\<lparr>setpoint_min := smin\<rparr>)"
  "zone_ow (\<lambda>z. z\<lparr>step := st\<rparr>)"
  "zone_ow (\<lambda>z. z\<lparr>zone_work_temp := w\<rparr>)"
  by (simp_all add: zone_ow_def dev_ow_def fld_ow_def)

lemma sys_ow_setters:
  "sys_ow (\<lambda>z. z\<lparr>is_connected := b\<rparr>)"
  "sys_ow (\<lambda>z. z\<lparr>units := u\<rparr>)"
  by (simp_all add: sys_ow_def dev_ow_def fld_ow_def)

lemma ow_step_set_mode_available: "ow_step zone_ow (set_mode_available ops params)"
proof -
  have "(\<exists>e. py_get params API_MODE_AVAILABLE JNull = Inl e)
      \<or> py_get params API_MODE_AVAILABLE JNull = Inr JNull
      \<or> (\<exists>v. v \<noteq> JNull \<and> py_get params API_MODE_AVAILABLE JNull = Inr v)"
    by (cases "py_get params API_MODE_AVAILABLE JNull") auto
  then show ?thesis
  proof (elim disjE exE conjE)
    fix e assume "py_get params API_MODE_AVAILABLE JNull = Inl e"
    then have "\<forall>z. set_mode_available ops params z = (z, Some e)"
      by (simp add: set_mode_available_def)
    then show ?thesis unfolding ow_step_def using zone_ow_id by blast
  next
    assume "py_get params API_MODE_AVAILABLE JNull = Inr JNull"
    then have "\<forall>z. set_mode_available ops params z = (z, None)"
      by (simp add: set_mode_available_def)
    then show ?thesis unfolding ow_step_def using zone_ow_id by blast
  next
    fix v :: "'a json"
    assume v: "v \<noteq> JNull" "py_get params API_MODE_AVAILABLE JNull = Inr v"
    show ?thesis
    proof (cases "py_iter v")
      case (Inl e)
      with v have "\<forall>z. set_mode_available ops params z = (z\<lparr>mode_available := []\<rparr>, Some e)"
        by (cases v) (simp_all add: set_mode_available_def)
      then show ?thesis unfolding ow_step_def using zone_ow_setters(7) by blast
    next
      case (Inr xs)
      with v have "\<forall>z. set_mode_available ops params z
          = (z\<lparr>mode_available := map (AZ_Mode ops) xs\<rparr>, None)"
        by (cases v) (simp_all add: set_mode_available_def)
      then show ?thesis unfolding ow_step_def using zone_ow_setters(7) by blast
    qed
  qed
qed

lemma ow_step_set_range_sp: "ow_step zone_ow (set_range_sp ops params)"
proof (cases "py_get params API_RANGE_SP (JObj [])")
  case (Inl e)
  show ?thesis
    by (rule ow_step_cong [where g = "\<lambda>z. (z, Some e)"])
       (simp_all add: set_range_sp_def Inl ow_step_fail zone_ow_id)
next
  case (Inr range_sp)
  have "ow_step zone_ow
     (steps [set_field range_sp API_MAX (py_float ops) (\<lambda>x z. z\<lparr>setpoint_max := Some x\<rparr>),
             set_field range_sp API_MIN (py_float ops) (\<lambda>x z. z\<lparr>setpoint_min := Some x\<rparr>)])"
    by (rule ow_step_steps [where P = zone_ow])
       (simp_all add: ow_step_set_field zone_ow_id zone_ow_setters zone_ow_comp)
  then show ?thesis
    by (rule ow_step_cong [rotated]) (simp add: set_range_sp_def Inr)
qed

lemma ow_step_zone_steps:
  fixes parameters :: "'f json"
  shows "ow_step zone_ow
     (steps
        [set_field parameters API_AIR_ACTIVE (\<lambda>v. Inr (py_bool ops v))
           (\<lambda>x z. z\<lparr>air_active := Some x\<rparr>),
         set_field parameters API_HUMIDITY (py_int ops)
           (\<lambda>x z. z\<lparr>humidity := Some x\<rparr>),
         set_field parameters API_MODE (\<lambda>v. Inr (AZ_Mode ops v))
           (\<lambda>x z. z\<lparr>mode := Some x\<rparr>),
         set_mode_available ops parameters,
         set_field parameters API_NAME (\<lambda>v. Inr (py_str ops v))
           (\<lambda>x z. z\<lparr>name := x\<rparr>),
         set_field parameters API_POWER (\<lambda>v. Inr (py_bool ops v))
           (\<lambda>x z. z\<lparr>zpower := Some x\<rparr>),
         set_field parameters API_RAD_ACTIVE (\<lambda>v. Inr (py_bool ops v))
           (\<lambda>x z. z\<lparr>rad_active := Some x\<rparr>),
         set_range_sp ops parameters,
         set_field parameters API_SETPOINT (py_float ops)
           (\<lambda>x z. z\<lparr>setpoint := Some x\<rparr>),
         set_field parameters API_STEP (py_float ops)
           (\<lambda>x z. z\<lparr>step := Some x\<rparr>),
         set_field parameters API_ZONE_WORK_TEMP (py_float ops)
           (\<lambda>x z. z\<lparr>zone_work_temp := Some x\<rparr>)])"
  by (rule ow_step_steps [where P = zone_ow])
     (simp_all add: ow_step_set_field ow_step_set_mode_available ow_step_set_range_sp
        zone_ow_id zone_ow_setters zone_ow_comp)

lemma ow_step_zone_rest:
  "ow_step zone_ow (\<lambda>z1.
      case py_get data API_PARAMETERS (JObj []) of
        Inl e \<Rightarrow> (z1, Some e)
      | Inr parameters \<Rightarrow>
          steps
            [set_field parameters API_AIR_ACTIVE (\<lambda>v. Inr (py_bool ops v))
               (\<lambda>x z. z\<lparr>air_active := Some x\<rparr>),
             set_field parameters API_HUMIDITY (py_int ops)
               (\<lambda>x z. z\<lparr>humidity := Some x\<rparr>),
             set_field parameters API_MODE (\<lambda>v. Inr (AZ_Mode ops v))
               (\<lambda>x z. z\<lparr>mode := Some x\<rparr>),
             set_mode_available ops parameters,
             set_field parameters API_NAME (\<lambda>v. Inr (py_str ops v))
               (\<lambda>x z. z\<lparr>name := x\<rparr>),
             set_field parameters API_POWER (\<lambda>v. Inr (py_bool ops v))
               (\<lambda>x z. z\<lparr>zpower := Some x\<rparr>),
             set_field parameters API_RAD_ACTIVE (\<lambda>v. Inr (py_bool ops v))
               (\<lambda>x z. z\<lparr>rad_active := Some x\<rparr>),
             set_range_sp ops parameters,
             set_field parameters API_SETPOINT (py_float ops)
               (\<lambda>x z. z\<lparr>setpoint := Some x\<rparr>),
             set_field parameters API_STEP (py_float ops)
               (\<lambda>x z. z\<lparr>step := Some x\<rparr>),
             set_field parameters API_ZONE_WORK_TEMP (py_float ops)
               (\<lambda>x z. z\<lparr>zone_work_temp := Some x\<rparr>)] z1)"
proof (cases "py_get data API_PARAMETERS (JObj [])")
  case (Inl e)
  show ?thesis
    by (rule ow_step_cong [where g = "\<lambda>z. (z, Some e)"])
       (simp_all add: Inl ow_step_fail zone_ow_id)
next
  case (Inr parameters)
  show ?thesis
    by (rule ow_step_cong [OF _ ow_step_zone_steps [of parameters ops]]) (simp add: Inr)
qed

lemma ow_step_zone_update: "ow_step zone_ow (zone_update ops data ut)"
proof -
  have dev: "ow_step zone_ow (device_update ops data ut)"
    by (rule ow_step_device_update) (simp_all add: zone_ow_id zone_ow_comp zone_ow_setters)
  show ?thesis
    unfolding zone_update_def
    by (rule ow_step_seq [where P = zone_ow]) (simp_all add: zone_ow_comp dev ow_step_zone_rest)
qed

lemma dev_ow_setters:
  "dev_ow (\<lambda>z. z\<lparr>is_connected := b\<rparr>)"
  "dev_ow (\<lambda>z. z\<lparr>units := u\<rparr>)"
  by (simp_all add: dev_ow_def fld_ow_def)

lemma ow_step_system_update: "ow_step sys_ow (system_update ops data ut)"
  unfolding system_update_def sys_ow_def
  by (rule ow_step_device_update) (simp_all add: dev_ow_id dev_ow_comp dev_ow_setters)

section \<open>Merge idempotence\<close>

text \<open>
  C4. For a Zone and for a System, and for every payload and update type, running
  \<open>update\<close> a second time with the same payload leaves the object exactly as the first
  run left it (and ends the same way: normally, or with the same exception).
\<close>

theorem update_idempotent:
  "zone_update ops data ut (fst (zone_update ops data ut z)) = zone_update ops data ut z
   \<and> system_update ops data ut (fst (system_update ops data ut d)) = system_update ops data ut d"
proof
  show "zone_update ops data ut (fst (zone_update ops data ut z)) = zone_update ops data ut z"
    by (rule ow_step_twice [OF ow_step_zone_update]) (rule zone_ow_twice)
  show "system_update ops data ut (fst (system_update ops data ut d)) = system_update ops data ut d"
    by (rule ow_step_twice [OF ow_step_system_update]) (rule sys_ow_twice)
qed

section \<open>The data projection of a zone\<close>

lemma map_of_put_opt_other:
  "k \<noteq> key \<Longrightarrow> map_of (put_opt key x j data) k = map_of data k"
  by (simp add: put_opt_def update_conv' split: option.split)

lemma map_of_put_opt_same:
  "map_of (put_opt key x j data) key
     = (case x of None \<Rightarrow> map_of data key | Some v \<Rightarrow> Some (j v))"
  by (simp add: put_opt_def update_conv' split: option.split)

lemma get_active_eq: "get_active z = (air_active z = Some True \<or> rad_active z = Some True)"
  by (simp add: get_active_def split: option.split)

text \<open>
  C10. The data of a zone always has the entry \<open>active\<close>, which is true exactly when
  \<open>air_active\<close> or \<open>rad_active\<close> is set and true (an unset one counts as false); the
  entries \<open>air_active\<close> and \<open>rad_active\<close> are there exactly when the attribute is set.
\<close>

theorem zone_data_active:
  "map_of (zone_data ops z) AZD_ACTIVE
     = Some (JBool (air_active z = Some True \<or> rad_active z = Some True))
   \<and> (map_of (zone_data ops z) AZD_AIR_ACTIVE = None) = (air_active z = None)
   \<and> (map_of (zone_data ops z) AZD_RAD_ACTIVE = None) = (rad_active z = None)"
proof (intro conjI)
  show "map_of (zone_data ops z) AZD_ACTIVE
     = Some (JBool (air_active z = Some True \<or> rad_active z = Some True))"
    by (simp add: zone_data_def map_of_put_opt_other update_conv' azd_consts get_active_eq)
  have "map_of (zone_data ops z) AZD_AIR_ACTIVE
     = (case air_active z of None \<Rightarrow> None | Some v \<Rightarrow> Some (JBool v))"
    by (simp add: zone_data_def map_of_put_opt_other map_of_put_opt_same update_conv'
          device_data_def azd_consts split: option.split)
  then show "(map_of (zone_data ops z) AZD_AIR_ACTIVE = None) = (air_active z = None)"
    by (simp split: option.split)
  have "map_of (zone_data ops z) AZD_RAD_ACTIVE
     = (case rad_active z of None \<Rightarrow> None | Some v \<Rightarrow> Some (JBool v))"
    by (simp add: zone_data_def map_of_put_opt_other map_of_put_opt_same update_conv'
          device_data_def azd_consts split: option.split)
  then show "(map_of (zone_data ops z) AZD_RAD_ACTIVE = None) = (rad_active z = None)"
    by (simp split: option.split)
qed

section \<open>Partial updates\<close>

lemma zone_update_power_only:
  assumes "map_of kvs API_PARAMETERS = Some (JObj [(API_POWER, JBool True)])"
    and "map_of kvs API_META = None"
  shows "zone_update ops (JObj kvs) ut z = (z\<lparr>zpower := Some True\<rparr>, None)"
  using assms
  by (simp add: zone_update_def device_update_def set_field_def py_get_def
        set_mode_available_def set_range_sp_def py_bool_def api_consts)

lemma update_callback_cases:
  "(\<exists>e. update_callback ops cb data now s = (s, Some e))
   \<or> (\<exists>dt. update_callback ops cb data now s
          = (case cb of None \<Rightarrow> (s\<lparr>update_dt := Some dt\<rparr>, None)
             | Some f \<Rightarrow> f (s\<lparr>update_dt := Some dt\<rparr>)))"
proof (cases "py_get data API_HEADERS (JObj [])")
  case (Inl e)
  then show ?thesis by (simp add: update_callback_def)
next
  case hd: (Inr headers)
  show ?thesis
  proof (cases "py_get headers API_TS JNull")
    case (Inl e)
    with hd show ?thesis by (simp add: update_callback_def)
  next
    case ts: (Inr data_ts)
    show ?thesis
    proof (cases "case data_ts of JNull \<Rightarrow> Inr now
        | _ \<Rightarrow> (case py_float ops data_ts of Inl e \<Rightarrow> Inl e | Inr x \<Rightarrow> fromtimestamp ops x)")
      case (Inl e)
      with hd ts show ?thesis by (simp add: update_callback_def)
    next
      case (Inr dt)
      with hd ts have "update_callback ops cb data now s
          = (case cb of None \<Rightarrow> (s\<lparr>update_dt := Some dt\<rparr>, None)
             | Some f \<Rightarrow> f (s\<lparr>update_dt := Some dt\<rparr>))"
        by (simp add: update_callback_def Let_def)
      then show ?thesis by blast
    qed
  qed
qed

lemma update_callback_store:
  assumes "keeps_store cb"
  shows "zones (fst (update_callback ops cb data now s)) = zones s
       \<and> systems (fst (update_callback ops cb data now s)) = systems s"
  using update_callback_cases [of ops cb data now s] assms
  by (cases cb) (auto simp: keeps_store_def)

lemma zone_update_power_meta:
  assumes "map_of kvs API_PARAMETERS = Some (JObj [(API_POWER, JBool True)])"
    and "py_get (JObj kvs) API_META (JObj []) = Inr meta"
    and "py_get meta API_UNITS JNull = Inr JNull"
  shows "zone_update ops (JObj kvs) ut z = (z\<lparr>zpower := Some True\<rparr>, None)"
proof -
  have d: "device_update ops (JObj kvs) ut z = (z, None)"
    using assms
    by (simp add: device_update_def set_field_def py_get_def API_IS_CONNECTED_def API_POWER_def)
  show ?thesis
    unfolding zone_update_def d
    using assms(1)
    by (simp add: set_field_def py_get_def set_mode_available_def set_range_sp_def
          py_bool_def api_consts)
qed

lemma ex_event_units_zone:
  "zone_update ex_ops
     (JObj [(API_DEVICE_ID, JStr ''2''), (API_DEVICE_TYPE, JStr API_AZ_ZONE),
             (API_SYSTEM_ID, JStr ''1''),
             (API_META, JObj [(API_UNITS, JInt 1)]),
             (API_PARAMETERS, JObj [(API_POWER, JBool True)])]) PARTIAL ex_zone
   = (ex_zone\<lparr>units := FAHRENHEIT, zpower := Some True\<rparr>, None)"
proof -
  have d: "device_update ex_ops
     (JObj [(API_DEVICE_ID, JStr ''2''), (API_DEVICE_TYPE, JStr API_AZ_ZONE),
             (API_SYSTEM_ID, JStr ''1''),
             (API_META, JObj [(API_UNITS, JInt 1)]),
             (API_PARAMETERS, JObj [(API_POWER, JBool True)])]) PARTIAL ex_zone
     = (ex_zone\<lparr>units := FAHRENHEIT\<rparr>, None)"
    by (simp add: device_update_def set_field_def py_get_def AZ_TemperatureUnit_of_def
          enum_key_def api_consts)
  show ?thesis
    unfolding zone_update_def d
    by (simp add: set_field_def py_get_def set_mode_available_def set_range_sp_def
          py_bool_def api_consts)
qed

text \<open>
  C9 (as amended). An event message for a stored zone whose body has the parameters
  \<open>{power: true}\<close> and whose \<open>meta\<close>, if it has one, is a dict without units leaves the
  store with
  that zone changed in its power attribute only: every other attribute of the zone, every
  other zone and every system are as before. (The callback registered is one that leaves
  the store alone.)
\<close>

theorem event_power_only:
  assumes "keeps_store cb"
    and "map_of msg API_BODY = Some (JObj kvs)"
    and "map_of kvs API_DEVICE_TYPE = Some (JStr API_AZ_ZONE)"
    and "map_of kvs API_SYSTEM_ID = Some sid"
    and "map_of kvs API_DEVICE_ID = Some did"
    and "map_of kvs API_PARAMETERS = Some (JObj [(API_POWER, JBool True)])"
    and "py_get (JObj kvs) API_META (JObj []) = Inr meta"
    and "py_get meta API_UNITS JNull = Inr JNull"
    and "zones s (py_str ops sid @ '':'' @ py_str ops did) = Some z"
  shows "zones (fst (msg_events_status ops cb [AMT_STATUS] (Some (JObj msg)) now s))
           = (zones s)(py_str ops sid @ '':'' @ py_str ops did \<mapsto> z\<lparr>zpower := Some True\<rparr>)
       \<and> systems (fst (msg_events_status ops cb [AMT_STATUS] (Some (JObj msg)) now s))
           = systems s"
proof -
  have upd: "zone_update ops (JObj kvs) PARTIAL z = (z\<lparr>zpower := Some True\<rparr>, None)"
    by (rule zone_update_power_meta [OF assms(6) assms(7) assms(8)])
  have ne: "JStr API_AZ_ZONE \<noteq> JStr API_AZ_SYSTEM"
    by (simp add: api_consts)
  have "msg_events_status ops cb [AMT_STATUS] (Some (JObj msg)) now s
      = update_callback ops cb (JObj msg) now
          (s\<lparr>zones := (zones s)(py_str ops sid @ '':'' @ py_str ops did
                 \<mapsto> z\<lparr>zpower := Some True\<rparr>)\<rparr>)"
    using assms(2-5,9) upd ne
    by (simp add: msg_events_status_def pop_if_def json_loads_def py_get_def get_zone_def)
  then show ?thesis
    using update_callback_store [OF assms(1)] by simp
qed

theorem event_power_only_witness:
  "keeps_store (None :: int callback)
   \<and> zones ex_state ''1:2'' = Some ex_zone
   \<and> zones (fst (msg_events_status ex_ops None [AMT_STATUS] (Some (JObj ex_event)) 5 ex_state))
       = (zones ex_state)(''1:2'' \<mapsto> ex_zone\<lparr>zpower := Some True\<rparr>)
   \<and> setpoint (ex_zone\<lparr>zpower := Some True\<rparr>) = Some 21"
proof -
  have k: "keeps_store (None :: int callback)"
    by (simp add: keeps_store_def)
  have b: "map_of ex_event API_BODY
      = Some (JObj [(API_DEVICE_ID, JStr ''2''), (API_DEVICE_TYPE, JStr API_AZ_ZONE),
        (API_SYSTEM_ID, JStr ''1''), (API_PARAMETERS, JObj [(API_POWER, JBool True)])])"
    by (simp add: ex_event_def API_HEADERS_def API_BODY_def)
  have f: "map_of [(API_DEVICE_ID, JStr ''2''), (API_DEVICE_TYPE, JStr API_AZ_ZONE),
        (API_SYSTEM_ID, JStr ''1''), (API_PARAMETERS, JObj [(API_POWER, JBool True) :: string \<times> int json])]
        API_DEVICE_TYPE = Some (JStr API_AZ_ZONE)"
      "map_of [(API_DEVICE_ID, JStr ''2''), (API_DEVICE_TYPE, JStr API_AZ_ZONE),
        (API_SYSTEM_ID, JStr ''1''), (API_PARAMETERS, JObj [(API_POWER, JBool True) :: string \<times> int json])]
        API_SYSTEM_ID = Some (JStr ''1'')"
      "map_of [(API_DEVICE_ID, JStr ''2''), (API_DEVICE_TYPE, JStr API_AZ_ZONE),
        (API_SYSTEM_ID, JStr ''1''), (API_PARAMETERS, JObj [(API_POWER, JBool True) :: string \<times> int json])]
        API_DEVICE_ID = Some (JStr ''2'')"
      "map_of [(API_DEVICE_ID, JStr ''2''), (API_DEVICE_TYPE, JStr API_AZ_ZONE),
        (API_SYSTEM_ID, JStr ''1''), (API_PARAMETERS, JObj [(API_POWER, JBool True) :: string \<times> int json])]
        API_PARAMETERS = Some (JObj [(API_POWER, JBool True)])"
    by (simp_all add: api_consts)
  have m: "py_get (JObj [(API_DEVICE_ID, JStr ''2''), (API_DEVICE_TYPE, JStr API_AZ_ZONE),
        (API_SYSTEM_ID, JStr ''1''), (API_PARAMETERS, JObj [(API_POWER, JBool True)])] :: int json)
        API_META (JObj []) = Inr (JObj [])"
    "py_get (JObj [] :: int json) API_UNITS JNull = Inr JNull"
    by (simp_all add: py_get_def api_consts)
  have z: "zones ex_state (py_str ex_ops (JStr ''1'') @ '':'' @ py_str ex_ops (JStr ''2'')) = Some ex_zone"
    by (simp add: ex_state_def py_str_def)
  have s: "setpoint (ex_zone\<lparr>zpower := Some True\<rparr>) = Some 21"
    by (simp add: ex_zone_def)
  from event_power_only [OF k b f m z, of 5] z s k show ?thesis
    by (simp add: py_str_def)
qed

theorem event_units_counterexample:
  "map_of ex_event_units API_BODY
     = Some (JObj [(API_DEVICE_ID, JStr ''2''), (API_DEVICE_TYPE, JStr API_AZ_ZONE),
             (API_SYSTEM_ID, JStr ''1''),
             (API_META, JObj [(API_UNITS, JInt 1)]),
             (API_PARAMETERS, JObj [(API_POWER, JBool True)])])
   \<and> map_option units (zones ex_state ''1:2'') = Some CELSIUS
   \<and> map_option units
        (zones (fst (msg_events_status ex_ops None [AMT_STATUS] (Some (JObj ex_event_units)) 5
                  ex_state)) ''1:2'')
       = Some FAHRENHEIT"
proof -
  have b: "map_of ex_event_units API_BODY
     = Some (JObj [(API_DEVICE_ID, JStr ''2''), (API_DEVICE_TYPE, JStr API_AZ_ZONE),
             (API_SYSTEM_ID, JStr ''1''),
             (API_META, JObj [(API_UNITS, JInt 1)]),
             (API_PARAMETERS, JObj [(API_POWER, JBool True)])])"
    by (simp add: ex_event_units_def API_HEADERS_def API_BODY_def)
  have z: "zones ex_state ''1:2'' = Some ex_zone" "units ex_zone = CELSIUS"
    by (simp_all add: ex_state_def ex_zone_def)
  have ne: "API_AZ_ZONE \<noteq> API_AZ_SYSTEM"
    by (simp add: api_consts)
  have g: "py_get (JObj [(API_DEVICE_ID, JStr ''2''), (API_DEVICE_TYPE, JStr API_AZ_ZONE),
             (API_SYSTEM_ID, JStr ''1''),
             (API_META, JObj [(API_UNITS, JInt 1)]),
             (API_PARAMETERS, JObj [(API_POWER, JBool True)])] :: int json) API_DEVICE_ID JNull
        = Inr (JStr ''2'')"
    "py_get (JObj [(API_DEVICE_ID, JStr ''2''), (API_DEVICE_TYPE, JStr API_AZ_ZONE),
             (API_SYSTEM_ID, JStr ''1''),
             (API_META, JObj [(API_UNITS, JInt 1)]),
             (API_PARAMETERS, JObj [(API_POWER, JBool True)])] :: int json) API_DEVICE_TYPE JNull
        = Inr (JStr API_AZ_ZONE)"
    "py_get (JObj [(API_DEVICE_ID, JStr ''2''), (API_DEVICE_TYPE, JStr API_AZ_ZONE),
             (API_SYSTEM_ID, JStr ''1''),
             (API_META, JObj [(API_UNITS, JInt 1)]),
             (API_PARAMETERS, JObj [(API_POWER, JBool True)])] :: int json) API_SYSTEM_ID JNull
        = Inr (JStr ''1'')"
    by (simp_all add: py_get_def api_consts)
  have "msg_events_status ex_ops None [AMT_STATUS] (Some (JObj ex_event_units)) 5 ex_state
      = update_callback ex_ops None (JObj ex_event_units) 5
          (ex_state\<lparr>zones := (zones ex_state)(''1:2''
                 \<mapsto> ex_zone\<lparr>units := FAHRENHEIT, zpower := Some True\<rparr>)\<rparr>)"
    unfolding msg_events_status_def
    using b z(1) ne
    by (simp add: pop_if_def json_loads_def py_get_def [of "JObj ex_event_units"] g
          get_zone_def py_str_def ex_event_units_zone)
  then have "zones (fst (msg_events_status ex_ops None [AMT_STATUS] (Some (JObj ex_event_units)) 5
                  ex_state)) ''1:2''
      = Some (ex_zone\<lparr>units := FAHRENHEIT, zpower := Some True\<rparr>)"
    using update_callback_store [of "None :: int callback" ex_ops "JObj ex_event_units" 5]
    by (simp add: keeps_store_def)
  with b z show ?thesis by simp
qed

section \<open>Identity of a device\<close>

lemma keeps_steps:
  assumes "\<forall>f \<in> set fs. keeps sel f"
  shows "keeps sel (steps fs)"
  using assms
proof (induction fs)
  case Nil
  show ?case by (simp add: keeps_def)
next
  case (Cons f fs)
  then have f: "\<And>z. sel (fst (f z)) = sel z" and r: "\<And>z. sel (fst (steps fs z)) = sel z"
    by (simp_all add: keeps_def)
  show ?case
    unfolding keeps_def
  proof
    fix z
    obtain z1 e where fz: "f z = (z1, e)" by (cases "f z")
    with f [of z] have "sel z1 = sel z" by simp
    with fz r [of z1] show "sel (fst (steps (f # fs) z)) = sel z"
      by (cases e) simp_all
  qed
qed

lemma keeps_set_field:
  fixes params :: "'f json"
  assumes "\<And>x z. sel (upd x z) = sel z"
  shows "keeps sel (set_field params key conv upd)"
  unfolding keeps_def set_field_def
  by (auto simp: assms split: sum.split json.split)

lemma keeps_fail: "keeps sel (\<lambda>z. (z, Some e))"
  by (simp add: keeps_def)

lemma keeps_device_update:
  fixes ops :: "'f py_ops"
  shows "keeps get_id (device_update ops data ut)"
proof -
  have st: "keeps get_id (steps [set_field parameters API_IS_CONNECTED (\<lambda>v. Inr (py_bool ops v))
               (\<lambda>x z. z\<lparr>is_connected := x\<rparr>),
             set_field meta API_UNITS (AZ_TemperatureUnit_of ops) (\<lambda>x z. z\<lparr>units := x\<rparr>)])"
    for parameters meta :: "'f json"
    by (rule keeps_steps) (simp add: keeps_set_field get_id_def)
  show ?thesis
    unfolding keeps_def device_update_def
    using st by (auto simp: keeps_def split: sum.split)
qed

lemma keeps_set_mode_available: "keeps get_id (set_mode_available ops params)"
  unfolding keeps_def set_mode_available_def
  by (auto simp: get_id_def split: sum.split json.split)

lemma device_update_id: "get_id (fst (device_update ops data ut z)) = get_id z"
  by (rule keeps_device_update [unfolded keeps_def, rule_format])

lemma keeps_set_range_sp:
  fixes ops :: "'f py_ops"
  shows "keeps get_id (set_range_sp ops params)"
proof -
  have st: "keeps get_id
     (steps [set_field range_sp API_MAX (py_float ops) (\<lambda>x z. z\<lparr>setpoint_max := Some x\<rparr>),
             set_field range_sp API_MIN (py_float ops) (\<lambda>x z. z\<lparr>setpoint_min := Some x\<rparr>)])"
    for range_sp :: "'f json"
    by (rule keeps_steps) (simp add: keeps_set_field get_id_def)
  show ?thesis
    unfolding keeps_def set_range_sp_def
    using st by (auto simp: keeps_def split: sum.split)
qed

lemma keeps_zone_update:
  fixes ops :: "'f py_ops"
  shows "keeps get_id (zone_update ops data ut)"
proof -
  have st: "keeps get_id
     (steps
        [set_field parameters API_AIR_ACTIVE (\<lambda>v. Inr (py_bool ops v))
           (\<lambda>x z. z\<lparr>air_active := Some x\<rparr>),
         set_field parameters API_HUMIDITY (py_int ops)
           (\<lambda>x z. z\<lparr>humidity := Some x\<rparr>),
         set_field parameters API_MODE (\<lambda>v. Inr (AZ_Mode ops v))
           (\<lambda>x z. z\<lparr>mode := Some x\<rparr>),
         set_mode_available ops parameters,
         set_field parameters API_NAME (\<lambda>v. Inr (py_str ops v))
           (\<lambda>x z. z\<lparr>name := x\<rparr>),
         set_field parameters API_POWER (\<lambda>v. Inr (py_bool ops v))
           (\<lambda>x z. z\<lparr>zpower := Some x\<rparr>),
         set_field parameters API_RAD_ACTIVE (\<lambda>v. Inr (py_bool ops v))
           (\<lambda>x z. z\<lparr>rad_active := Some x\<rparr>),
         set_range_sp ops parameters,
         set_field parameters API_SETPOINT (py_float ops)
           (\<lambda>x z. z\<lparr>setpoint := Some x\<rparr>),
         set_field parameters API_STEP (py_float ops)
           (\<lambda>x z. z\<lparr>step := Some x\<rparr>),
         set_field parameters API_ZONE_WORK_TEMP (py_float ops)
           (\<lambda>x z. z\<lparr>zone_work_temp := Some x\<rparr>)])"
    for parameters :: "'f json"
    by (rule keeps_steps)
       (simp add: keeps_set_field keeps_set_mode_available keeps_set_range_sp get_id_def)
  show ?thesis
    unfolding keeps_def
  proof
    fix z :: "'f zone"
    obtain z1 e where d: "device_update ops data ut z = (z1, e)"
      by (cases "device_update ops data ut z")
    with device_update_id [of ops data ut z] have z1: "get_id z1 = get_id z"
      by simp
    show "get_id (fst (zone_update ops data ut z)) = get_id z"
    proof (cases e)
      case (Some x)
      with d z1 show ?thesis by (simp add: zone_update_def)
    next
      case None
      with d z1 st show ?thesis
        by (auto simp: zone_update_def keeps_def split: sum.split)
    qed
  qed
qed

lemma zone_update_id: "get_id (fst (zone_update ops data ut z)) = get_id z"
  by (rule keeps_zone_update [unfolded keeps_def, rule_format])

lemma system_update_id: "get_id (fst (system_update ops data ut d)) = get_id d"
  by (simp add: system_update_def device_update_id)

section \<open>Full snapshots\<close>

lemma status_device_stored:
  "(zones s k = Some z \<longrightarrow> zones (fst (status_device ops pfx dev s)) k = Some z)
   \<and> (systems s k = Some d \<longrightarrow> systems (fst (status_device ops pfx dev s)) k = Some d)"
  by (auto simp: status_device_def Let_def split: sum.split prod.split option.split)

lemma steps_status_stored:
  "(zones s k = Some z \<longrightarrow> zones (fst (steps (map (status_device ops pfx) devs) s)) k = Some z)
   \<and> (systems s k = Some d
        \<longrightarrow> systems (fst (steps (map (status_device ops pfx) devs) s)) k = Some d)"
proof (induction devs arbitrary: s)
  case Nil
  show ?case by simp
next
  case (Cons dev devs)
  obtain s1 e where st: "status_device ops pfx dev s = (s1, e)"
    by (cases "status_device ops pfx dev s")
  with status_device_stored [of s k z ops pfx dev d]
  have s1: "zones s k = Some z \<longrightarrow> zones s1 k = Some z"
    "systems s k = Some d \<longrightarrow> systems s1 k = Some d"
    by simp_all
  show ?case
  proof (cases e)
    case (Some x)
    with st s1 show ?thesis by simp
  next
    case None
    with st s1 Cons.IH [of s1] show ?thesis by simp
  qed
qed

lemma api_az_get_status_store:
  "\<exists>devs. zones (fst (api_az_get_status ops data now s))
            = zones (fst (steps (map (status_device ops
                 (topic_interface s @ ''/'' @ az_mqtt_topic s)) devs) (s\<lparr>api_raw_data := data\<rparr>)))
        \<and> systems (fst (api_az_get_status ops data now s))
            = systems (fst (steps (map (status_device ops
                 (topic_interface s @ ''/'' @ az_mqtt_topic s)) devs) (s\<lparr>api_raw_data := data\<rparr>)))"
proof (cases "py_get data API_BODY (JObj [])")
  case (Inl e)
  then show ?thesis
    by (intro exI [of _ "[]"]) (simp add: api_az_get_status_def)
next
  case body: (Inr body)
  show ?thesis
  proof (cases "py_get body API_DEVICES (JList [])")
    case (Inl e)
    with body show ?thesis
      by (intro exI [of _ "[]"]) (simp add: api_az_get_status_def)
  next
    case devices: (Inr devices)
    show ?thesis
    proof (cases "py_iter devices")
      case (Inl e)
      with body devices show ?thesis
        by (intro exI [of _ "[]"]) (simp add: api_az_get_status_def)
    next
      case (Inr devs)
      obtain s2 r where st: "steps (map (status_device ops
          (topic_interface s @ ''/'' @ az_mqtt_topic s)) devs) (s\<lparr>api_raw_data := data\<rparr>) = (s2, r)"
        by (cases "steps (map (status_device ops
          (topic_interface s @ ''/'' @ az_mqtt_topic s)) devs) (s\<lparr>api_raw_data := data\<rparr>)")
      with body devices Inr show ?thesis
        by (intro exI [of _ devs]) (cases r; simp add: api_az_get_status_def)
    qed
  qed
qed

lemma api_az_get_status_stored:
  "(zones s k = Some z \<longrightarrow> zones (fst (api_az_get_status ops data now s)) k = Some z)
   \<and> (systems s k = Some d \<longrightarrow> systems (fst (api_az_get_status ops data now s)) k = Some d)"
proof -
  obtain devs where
    "zones (fst (api_az_get_status ops data now s))
       = zones (fst (steps (map (status_device ops
            (topic_interface s @ ''/'' @ az_mqtt_topic s)) devs) (s\<lparr>api_raw_data := data\<rparr>)))"
    "systems (fst (api_az_get_status ops data now s))
       = systems (fst (steps (map (status_device ops
            (topic_interface s @ ''/'' @ az_mqtt_topic s)) devs) (s\<lparr>api_raw_data := data\<rparr>)))"
    using api_az_get_status_store [of ops data now s] by blast
  then show ?thesis
    using steps_status_stored [of "s\<lparr>api_raw_data := data\<rparr>" k z ops
        "topic_interface s @ ''/'' @ az_mqtt_topic s" devs d]
    by simp
qed

lemma status_device_shape:
  "fst (status_device ops pfx dev s)
     = s\<lparr>systems := systems (fst (status_device ops pfx dev s)),
          zones := zones (fst (status_device ops pfx dev s))\<rparr>"
proof (cases "py_get dev API_DEVICE_TYPE JNull")
  case (Inl e)
  then show ?thesis by (simp add: status_device_def)
next
  case ty: (Inr ty)
  show ?thesis
  proof (cases "ty = JStr API_AZ_SYSTEM")
    case True
    show ?thesis
    proof (cases "System_init ops dev")
      case (Inl e)
      with ty True show ?thesis by (simp add: status_device_def)
    next
      case (Inr d0)
      obtain d1 r where u: "system_update ops dev FULL d0 = (d1, r)"
        by (cases "system_update ops dev FULL d0")
      from ty True Inr u show ?thesis
        by (cases r) (simp_all add: status_device_def Let_def)
    qed
  next
    case False
    show ?thesis
    proof (cases "ty = JStr API_AZ_ZONE")
      case nz: False
      with ty False show ?thesis by (simp add: status_device_def)
    next
      case True
      show ?thesis
      proof (cases "Zone_init ops dev")
        case (Inl e)
        with ty True False show ?thesis by (simp add: status_device_def)
      next
        case (Inr z0)
        obtain z1 r where u: "zone_update ops dev FULL z0 = (z1, r)"
          by (cases "zone_update ops dev FULL z0")
        from ty True False Inr u show ?thesis
          by (cases r) (simp_all add: status_device_def Let_def)
      qed
    qed
  qed
qed


lemma status_device_api_init:
  "api_init (fst (status_device ops pfx dev s)) = api_init s
   \<and> update_dt (fst (status_device ops pfx dev s)) = update_dt s"
  by (subst (1 2) status_device_shape) simp

lemma steps_status_api_init:
  "api_init (fst (steps (map (status_device ops pfx) devs) s)) = api_init s
   \<and> update_dt (fst (steps (map (status_device ops pfx) devs) s)) = update_dt s"
proof (induction devs arbitrary: s)
  case Nil
  show ?case by simp
next
  case (Cons dev devs)
  obtain s1 e where st: "status_device ops pfx dev s = (s1, e)"
    by (cases "status_device ops pfx dev s")
  with status_device_api_init [of ops pfx dev s]
  have "api_init s1 = api_init s \<and> update_dt s1 = update_dt s"
    by simp
  with st Cons.IH [of s1] show ?case
    by (cases e) simp_all
qed

lemma api_az_get_status_loop:
  assumes "py_get data API_BODY (JObj []) = Inr body"
    and "py_get body API_DEVICES (JList []) = Inr devices"
    and "py_iter devices = Inr devs"
  shows "api_az_get_status ops data now s
     = (case steps (map (status_device ops (topic_interface s @ ''/'' @ az_mqtt_topic s)) devs)
               (s\<lparr>api_raw_data := data\<rparr>) of
          (s2, Some e) \<Rightarrow> (s2, Some e)
        | (s2, None) \<Rightarrow>
            (s2\<lparr>api_init := True,
                 api_init_event := (if api_init s2 then api_init_event s2 else True),
                 update_dt := Some now\<rparr>, None))"
  using assms by (simp add: api_az_get_status_def Let_def)

lemma api_az_get_status_failed:
  assumes "snd (api_az_get_status ops data now s) = Some e"
  shows "api_init (fst (api_az_get_status ops data now s)) = api_init s
       \<and> update_dt (fst (api_az_get_status ops data now s)) = update_dt s"
proof (cases "py_get data API_BODY (JObj [])")
  case (Inl e)
  then show ?thesis by (simp add: api_az_get_status_def)
next
  case body: (Inr body)
  show ?thesis
  proof (cases "py_get body API_DEVICES (JList [])")
    case (Inl e)
    with body show ?thesis by (simp add: api_az_get_status_def)
  next
    case devices: (Inr devices)
    show ?thesis
    proof (cases "py_iter devices")
      case (Inl e)
      with body devices show ?thesis by (simp add: api_az_get_status_def)
    next
      case (Inr devs)
      obtain s2 r where st: "steps (map (status_device ops
          (topic_interface s @ ''/'' @ az_mqtt_topic s)) devs) (s\<lparr>api_raw_data := data\<rparr>) = (s2, r)"
        by (cases "steps (map (status_device ops
          (topic_interface s @ ''/'' @ az_mqtt_topic s)) devs) (s\<lparr>api_raw_data := data\<rparr>)")
      with steps_status_api_init [of ops "topic_interface s @ ''/'' @ az_mqtt_topic s" devs
          "s\<lparr>api_raw_data := data\<rparr>"]
      have k: "api_init s2 = api_init s \<and> update_dt s2 = update_dt s" by simp
      from assms st show ?thesis
        unfolding api_az_get_status_loop [OF body devices Inr]
        using k by (cases r) simp_all
    qed
  qed
qed

text \<open>
  C5 (as amended). Applying a snapshot handles the entries of its device list in order;
  an exception raised for an entry ends the snapshot there: it is passed on, the entries
  after it are not handled, and the snapshot neither marks the store as initialized nor
  sets the time of the last update. An entry is handled by its declared type. For a
  system or a zone a new object is built (which cannot fail for an entry that has a
  type to read) and updated from the entry: if that raises,
  nothing is stored; otherwise the object is stored under its key when that key is not
  stored yet, and is dropped when the key is stored already. An entry of any other type
  changes nothing. A device that is stored when the snapshot arrives is stored unchanged
  afterwards: no entry is applied to it.
\<close>

theorem snapshot_entry:
  "(py_get data API_BODY (JObj []) = Inr body
      \<and> py_get body API_DEVICES (JList []) = Inr devices \<and> py_iter devices = Inr devs
    \<longrightarrow> api_az_get_status ops data now s
        = (case steps (map (status_device ops (topic_interface s @ ''/'' @ az_mqtt_topic s)) devs)
                  (s\<lparr>api_raw_data := data\<rparr>) of
             (s2, Some e) \<Rightarrow> (s2, Some e)
           | (s2, None) \<Rightarrow>
               (s2\<lparr>api_init := True,
                    api_init_event := (if api_init s2 then api_init_event s2 else True),
                    update_dt := Some now\<rparr>, None)))
   \<and> (status_device ops pfx dev s = (s1, None)
    \<longrightarrow> steps (map (status_device ops pfx) (dev # rest)) s
        = steps (map (status_device ops pfx) rest) s1)
   \<and> (status_device ops pfx dev s = (s1, Some e1)
    \<longrightarrow> steps (map (status_device ops pfx) (dev # rest)) s = (s1, Some e1))
   \<and> (snd (api_az_get_status ops data now s) = Some e2
    \<longrightarrow> api_init (fst (api_az_get_status ops data now s)) = api_init s
        \<and> update_dt (fst (api_az_get_status ops data now s)) = update_dt s)
   \<and> (py_get dev API_DEVICE_TYPE JNull = Inr (JStr API_AZ_SYSTEM)
      \<and> System_init ops dev = Inr d0 \<and> system_update ops dev FULL d0 = (d1, None)
    \<longrightarrow> status_device ops pfx dev s
        = (if systems s (get_id d0) = None
           then s\<lparr>systems := (systems s)(get_id d0 \<mapsto> system_set_mqtt_topic pfx d1)\<rparr>
           else s, None))
   \<and> (py_get dev API_DEVICE_TYPE JNull = Inr (JStr API_AZ_SYSTEM)
      \<and> System_init ops dev = Inr d0 \<and> system_update ops dev FULL d0 = (d1, Some e3)
    \<longrightarrow> status_device ops pfx dev s = (s, Some e3))
   \<and> (py_get dev API_DEVICE_TYPE JNull = Inr (JStr API_AZ_ZONE)
      \<and> Zone_init ops dev = Inr z0 \<and> zone_update ops dev FULL z0 = (z1, None)
    \<longrightarrow> status_device ops pfx dev s
        = (if zones s (get_id z0) = None
           then s\<lparr>zones := (zones s)(get_id z0 \<mapsto> zone_set_mqtt_topic pfx z1)\<rparr>
           else s, None))
   \<and> (py_get dev API_DEVICE_TYPE JNull = Inr (JStr API_AZ_ZONE)
      \<and> Zone_init ops dev = Inr z0 \<and> zone_update ops dev FULL z0 = (z1, Some e4)
    \<longrightarrow> status_device ops pfx dev s = (s, Some e4))
   \<and> (py_get dev API_DEVICE_TYPE JNull = Inr ty
      \<and> ty \<noteq> JStr API_AZ_SYSTEM \<and> ty \<noteq> JStr API_AZ_ZONE
    \<longrightarrow> status_device ops pfx dev s = (s, None))
   \<and> (py_get dev API_DEVICE_TYPE JNull = Inl e5
    \<longrightarrow> status_device ops pfx dev s = (s, Some e5))
   \<and> (zones s k = Some z \<longrightarrow> zones (fst (api_az_get_status ops data now s)) k = Some z)
   \<and> (systems s k = Some d \<longrightarrow> systems (fst (api_az_get_status ops data now s)) k = Some d)
   \<and> (py_get dev API_DEVICE_TYPE JNull = Inr ty
    \<longrightarrow> System_init ops dev \<noteq> Inl e6 \<and> Zone_init ops dev \<noteq> Inl e6)"
proof -
  have nz: "JStr API_AZ_ZONE \<noteq> (JStr API_AZ_SYSTEM :: 'a json)"
    by (simp add: api_consts)
  have c1: "py_get data API_BODY (JObj []) = Inr body
      \<and> py_get body API_DEVICES (JList []) = Inr devices \<and> py_iter devices = Inr devs
    \<longrightarrow> api_az_get_status ops data now s
        = (case steps (map (status_device ops (topic_interface s @ ''/'' @ az_mqtt_topic s)) devs)
                  (s\<lparr>api_raw_data := data\<rparr>) of
             (s2, Some e) \<Rightarrow> (s2, Some e)
           | (s2, None) \<Rightarrow>
               (s2\<lparr>api_init := True,
                    api_init_event := (if api_init s2 then api_init_event s2 else True),
                    update_dt := Some now\<rparr>, None))"
    using api_az_get_status_loop [of data body devices devs ops now s] by simp
  have c2: "status_device ops pfx dev s = (s1, None)
    \<longrightarrow> steps (map (status_device ops pfx) (dev # rest)) s
        = steps (map (status_device ops pfx) rest) s1"
    by simp
  have c3: "status_device ops pfx dev s = (s1, Some e1)
    \<longrightarrow> steps (map (status_device ops pfx) (dev # rest)) s = (s1, Some e1)"
    by simp
  have c4: "snd (api_az_get_status ops data now s) = Some e2
    \<longrightarrow> api_init (fst (api_az_get_status ops data now s)) = api_init s
        \<and> update_dt (fst (api_az_get_status ops data now s)) = update_dt s"
    using api_az_get_status_failed [of ops data now s e2] by simp
  have c5: "py_get dev API_DEVICE_TYPE JNull = Inr (JStr API_AZ_SYSTEM)
      \<and> System_init ops dev = Inr d0 \<and> system_update ops dev FULL d0 = (d1, None)
    \<longrightarrow> status_device ops pfx dev s
        = (if systems s (get_id d0) = None
           then s\<lparr>systems := (systems s)(get_id d0 \<mapsto> system_set_mqtt_topic pfx d1)\<rparr>
           else s, None)"
  proof
    assume a: "py_get dev API_DEVICE_TYPE JNull = Inr (JStr API_AZ_SYSTEM)
      \<and> System_init ops dev = Inr d0 \<and> system_update ops dev FULL d0 = (d1, None)"
    then have "get_id d1 = get_id d0"
      using system_update_id [of ops dev FULL d0] by simp
    then have "get_id (system_set_mqtt_topic pfx d1) = get_id d0"
      by (simp add: system_set_mqtt_topic_def get_id_def)
    with a show "status_device ops pfx dev s
        = (if systems s (get_id d0) = None
           then s\<lparr>systems := (systems s)(get_id d0 \<mapsto> system_set_mqtt_topic pfx d1)\<rparr>
           else s, None)"
      by (simp add: status_device_def Let_def)
  qed
  have c6: "py_get dev API_DEVICE_TYPE JNull = Inr (JStr API_AZ_SYSTEM)
      \<and> System_init ops dev = Inr d0 \<and> system_update ops dev FULL d0 = (d1, Some e3)
    \<longrightarrow> status_device ops pfx dev s = (s, Some e3)"
    by (simp add: status_device_def)
  have c7: "py_get dev API_DEVICE_TYPE JNull = Inr (JStr API_AZ_ZONE)
      \<and> Zone_init ops dev = Inr z0 \<and> zone_update ops dev FULL z0 = (z1, None)
    \<longrightarrow> status_device ops pfx dev s
        = (if zones s (get_id z0) = None
           then s\<lparr>zones := (zones s)(get_id z0 \<mapsto> zone_set_mqtt_topic pfx z1)\<rparr>
           else s, None)"
  proof
    assume a: "py_get dev API_DEVICE_TYPE JNull = Inr (JStr API_AZ_ZONE)
      \<and> Zone_init ops dev = Inr z0 \<and> zone_update ops dev FULL z0 = (z1, None)"
    then have "get_id z1 = get_id z0"
      using zone_update_id [of ops dev FULL z0] by simp
    then have "get_id (zone_set_mqtt_topic pfx z1) = get_id z0"
      by (simp add: zone_set_mqtt_topic_def get_id_def)
    with a nz show "status_device ops pfx dev s
        = (if zones s (get_id z0) = None
           then s\<lparr>zones := (zones s)(get_id z0 \<mapsto> zone_set_mqtt_topic pfx z1)\<rparr>
           else s, None)"
      by (simp add: status_device_def Let_def)
  qed
  have c8: "py_get dev API_DEVICE_TYPE JNull = Inr (JStr API_AZ_ZONE)
      \<and> Zone_init ops dev = Inr z0 \<and> zone_update ops dev FULL z0 = (z1, Some e4)
    \<longrightarrow> status_device ops pfx dev s = (s, Some e4)"
    using nz by (simp add: status_device_def)
  have c9: "py_get dev API_DEVICE_TYPE JNull = Inr ty
      \<and> ty \<noteq> JStr API_AZ_SYSTEM \<and> ty \<noteq> JStr API_AZ_ZONE
    \<longrightarrow> status_device ops pfx dev s = (s, None)"
    by (simp add: status_device_def)
  have c10: "py_get dev API_DEVICE_TYPE JNull = Inl e5
    \<longrightarrow> status_device ops pfx dev s = (s, Some e5)"
    by (simp add: status_device_def)
  have c11: "zones s k = Some z \<longrightarrow> zones (fst (api_az_get_status ops data now s)) k = Some z"
    using api_az_get_status_stored [where s = s and k = k and z = z] by simp
  have c12: "systems s k = Some d \<longrightarrow> systems (fst (api_az_get_status ops data now s)) k = Some d"
    using api_az_get_status_stored [where s = s and k = k and d = d] by simp
  have c13: "py_get dev API_DEVICE_TYPE JNull = Inr ty
    \<longrightarrow> System_init ops dev \<noteq> Inl e6 \<and> Zone_init ops dev \<noteq> Inl e6"
    by (cases dev)
       (simp_all add: py_get_def System_init_def Zone_init_def Device_init_def split: option.split)
  show ?thesis
    by (intro conjI c1 c2 c3 c4 c5 c6 c7 c8 c9 c10 c11 c12 c13)
qed

theorem snapshot_entry_witness:
  "api_az_get_status ex_ops ex_snapshot_bad 7 (Airzone_init Config_init)
     = ((Airzone_init Config_init)\<lparr>api_raw_data := ex_snapshot_bad\<rparr>, Some ValueError)
   \<and> api_init (fst (api_az_get_status ex_ops ex_snapshot_bad 7 (Airzone_init Config_init))) = False
   \<and> steps (map (status_device ex_ops ''p'') [ex_other, ex_entry]) ex_state
       = steps (map (status_device ex_ops ''p'') [ex_entry]) ex_state
   \<and> status_device ex_ops ''p'' ex_entry ex_state = (ex_state, None)
   \<and> status_device ex_ops ''p'' ex_bad_entry ex_state = (ex_state, Some ValueError)
   \<and> status_device ex_ops ''p'' ex_other ex_state = (ex_state, None)
   \<and> status_device ex_ops ''p'' (JInt 0) ex_state = (ex_state, Some AttributeError)
   \<and> status_device ex_ops ''p'' ex_sys_entry ex_state
       = (ex_state\<lparr>systems := (systems ex_state)(''1:2'' \<mapsto> system_set_mqtt_topic ''p'' ex_system0)\<rparr>, None)
   \<and> status_device ex_ops ''p'' ex_bad_sys_entry ex_state = (ex_state, Some ValueError)
   \<and> zones (fst (api_az_get_status ex_ops ex_snapshot 7 ex_state)) ''1:2'' = Some ex_zone
   \<and> systems (fst (api_az_get_status ex_ops ex_snapshot 7
         (ex_state\<lparr>systems := [''1:2'' \<mapsto> ex_system0]\<rparr>))) ''1:2'' = Some ex_system0
   \<and> Zone_init ex_ops ex_entry \<noteq> Inl AttributeError"
proof -
  let ?i = "Airzone_init Config_init :: int airzone"
  let ?i1 = "?i\<lparr>api_raw_data := ex_snapshot_bad\<rparr>"
  let ?pfx = "topic_interface ?i @ ''/'' @ az_mqtt_topic ?i"
  have h1: "zones ex_state ''1:2'' = Some ex_zone"
    by (simp add: ex_state_def)
  have h2: "py_get ex_entry API_DEVICE_TYPE JNull = Inr (JStr API_AZ_ZONE)"
    by (simp add: ex_entry_def py_get_def api_consts)
  have h3: "Zone_init ex_ops ex_entry = Inr ex_zone0"
    by (simp add: Zone_init_def Device_init_def ex_entry_def ex_zone0_def py_get_def
          py_str_def get_id_def api_consts)
  have h4: "zone_update ex_ops ex_entry FULL ex_zone0 = (ex_zone0\<lparr>zpower := Some True\<rparr>, None)"
    unfolding ex_entry_def by (rule zone_update_power_only) (simp_all add: api_consts)
  have h5: "py_get ex_other API_DEVICE_TYPE JNull = Inr (JStr ''az_other'')"
    "JStr ''az_other'' \<noteq> (JStr API_AZ_SYSTEM :: int json)"
    "JStr ''az_other'' \<noteq> (JStr API_AZ_ZONE :: int json)"
    by (simp_all add: ex_other_def py_get_def api_consts)
  have h6: "py_get ex_sys_entry API_DEVICE_TYPE JNull = Inr (JStr API_AZ_SYSTEM)"
    by (simp add: ex_sys_entry_def py_get_def api_consts)
  have h7: "System_init ex_ops ex_sys_entry = Inr ex_system0"
    by (simp add: System_init_def Device_init_def ex_sys_entry_def ex_system0_def py_get_def
          py_str_def get_id_def api_consts)
  have h8: "system_update ex_ops ex_sys_entry FULL ex_system0 = (ex_system0, None)"
    by (simp add: system_update_def device_update_def ex_sys_entry_def py_get_def
          set_field_def api_consts)
  have b2: "py_get ex_bad_entry API_DEVICE_TYPE JNull = Inr (JStr API_AZ_ZONE)"
    by (simp add: ex_bad_entry_def py_get_def api_consts)
  have b3: "Zone_init ex_ops ex_bad_entry = Inr ex_zone3"
    by (simp add: Zone_init_def Device_init_def ex_bad_entry_def ex_zone3_def ex_zone0_def
          py_get_def py_str_def get_id_def api_consts)
  have b4: "zone_update ex_ops ex_bad_entry FULL ex_zone3 = (ex_zone3, Some ValueError)"
    by (simp add: zone_update_def device_update_def ex_bad_entry_def py_get_def set_field_def
          AZ_TemperatureUnit_of_def enum_key_def api_consts)
  have s2: "py_get ex_bad_sys_entry API_DEVICE_TYPE JNull = Inr (JStr API_AZ_SYSTEM)"
    by (simp add: ex_bad_sys_entry_def py_get_def api_consts)
  have s3: "System_init ex_ops ex_bad_sys_entry = Inr ex_system0"
    by (simp add: System_init_def Device_init_def ex_bad_sys_entry_def ex_system0_def py_get_def
          py_str_def get_id_def api_consts)
  have s4: "system_update ex_ops ex_bad_sys_entry FULL ex_system0 = (ex_system0, Some ValueError)"
    by (simp add: system_update_def device_update_def ex_bad_sys_entry_def py_get_def
          set_field_def AZ_TemperatureUnit_of_def enum_key_def api_consts)
  have n0: "py_get (JInt 0 :: int json) API_DEVICE_TYPE JNull = Inl AttributeError"
    by (simp add: py_get_def)
  have k0: "get_id ex_zone0 = ''1:2''"
    by (simp add: get_id_def ex_zone0_def)
  have k1: "get_id ex_system0 = ''1:2''"
    by (simp add: get_id_def ex_system0_def)
  have k2: "systems ex_state ''1:2'' = None"
    by (simp add: ex_state_def Airzone_init_def)
  have l1: "py_get ex_snapshot_bad API_BODY (JObj [])
      = Inr (JObj [(API_DEVICES, JList [ex_bad_entry, ex_entry])])"
    by (simp add: ex_snapshot_bad_def py_get_def API_HEADERS_def API_BODY_def)
  have l2: "py_get (JObj [(API_DEVICES, JList [ex_bad_entry, ex_entry])]) API_DEVICES (JList [])
      = Inr (JList [ex_bad_entry, ex_entry])"
    by (simp add: py_get_def)
  have l3: "py_iter (JList [ex_bad_entry, ex_entry]) = Inr [ex_bad_entry, ex_entry]"
    by (simp add: py_iter_def)
  have c_zone: "status_device ex_ops ''p'' ex_entry ex_state = (ex_state, None)"
    using snapshot_entry [where dev = ex_entry and ops = ex_ops and ?z0.0 = ex_zone0
        and ?z1.0 = "ex_zone0\<lparr>zpower := Some True\<rparr>" and pfx = "''p''" and s = ex_state,
        THEN conjunct2, THEN conjunct2, THEN conjunct2, THEN conjunct2, THEN conjunct2, THEN conjunct2, THEN conjunct1, THEN mp, OF conjI [OF h2 conjI [OF h3 h4]]] h1 k0
    by simp
  have c_bad: "status_device ex_ops pfx ex_bad_entry s = (s, Some ValueError)" for pfx s
    by (rule snapshot_entry [where dev = ex_bad_entry and ops = ex_ops and ?z0.0 = ex_zone3
        and ?z1.0 = ex_zone3 and ?e4.0 = ValueError,
        THEN conjunct2, THEN conjunct2, THEN conjunct2, THEN conjunct2, THEN conjunct2, THEN conjunct2, THEN conjunct2, THEN conjunct1, THEN mp, OF conjI [OF b2 conjI [OF b3 b4]]])
  have c_other: "status_device ex_ops ''p'' ex_other ex_state = (ex_state, None)"
    by (rule snapshot_entry [where dev = ex_other and ops = ex_ops and ty = "JStr ''az_other''",
        THEN conjunct2, THEN conjunct2, THEN conjunct2, THEN conjunct2, THEN conjunct2, THEN conjunct2, THEN conjunct2, THEN conjunct2, THEN conjunct1, THEN mp, OF conjI [OF h5(1) conjI [OF h5(2) h5(3)]]])
  have c_nodict: "status_device ex_ops ''p'' (JInt 0) ex_state = (ex_state, Some AttributeError)"
    by (rule snapshot_entry [where dev = "JInt 0" and ops = ex_ops and ?e5.0 = AttributeError,
        THEN conjunct2, THEN conjunct2, THEN conjunct2, THEN conjunct2, THEN conjunct2, THEN conjunct2, THEN conjunct2, THEN conjunct2, THEN conjunct2, THEN conjunct1, THEN mp, OF n0])
  have c_sys: "status_device ex_ops ''p'' ex_sys_entry ex_state
       = (ex_state\<lparr>systems := (systems ex_state)(''1:2'' \<mapsto> system_set_mqtt_topic ''p'' ex_system0)\<rparr>, None)"
    using snapshot_entry [where dev = ex_sys_entry and ops = ex_ops and ?d0.0 = ex_system0
        and ?d1.0 = ex_system0 and pfx = "''p''" and s = ex_state,
        THEN conjunct2, THEN conjunct2, THEN conjunct2, THEN conjunct2, THEN conjunct1, THEN mp, OF conjI [OF h6 conjI [OF h7 h8]]] k1 k2
    by simp
  have c_bad_sys: "status_device ex_ops ''p'' ex_bad_sys_entry ex_state = (ex_state, Some ValueError)"
    by (rule snapshot_entry [where dev = ex_bad_sys_entry and ops = ex_ops and ?d0.0 = ex_system0
        and ?d1.0 = ex_system0 and ?e3.0 = ValueError,
        THEN conjunct2, THEN conjunct2, THEN conjunct2, THEN conjunct2, THEN conjunct2, THEN conjunct1, THEN mp, OF conjI [OF s2 conjI [OF s3 s4]]])
  have c_next: "steps (map (status_device ex_ops ''p'') [ex_other, ex_entry]) ex_state
       = steps (map (status_device ex_ops ''p'') [ex_entry]) ex_state"
    by (rule snapshot_entry [where ops = ex_ops and pfx = "''p''" and dev = ex_other
        and s = ex_state and ?s1.0 = ex_state and rest = "[ex_entry]",
        THEN conjunct2, THEN conjunct1, THEN mp, OF c_other])
  have c_stop: "steps (map (status_device ex_ops ?pfx) [ex_bad_entry, ex_entry]) ?i1
       = (?i1, Some ValueError)"
    by (rule snapshot_entry [where ops = ex_ops and pfx = ?pfx and dev = ex_bad_entry
        and s = ?i1 and ?s1.0 = ?i1 and rest = "[ex_entry]" and ?e1.0 = ValueError,
        THEN conjunct2, THEN conjunct2, THEN conjunct1, THEN mp, OF c_bad])
  have c_loop: "api_az_get_status ex_ops ex_snapshot_bad 7 ?i = (?i1, Some ValueError)"
    using snapshot_entry [where data = ex_snapshot_bad and ops = ex_ops and now = 7 and s = ?i
        and body = "JObj [(API_DEVICES, JList [ex_bad_entry, ex_entry])]"
        and devices = "JList [ex_bad_entry, ex_entry]" and devs = "[ex_bad_entry, ex_entry]",
        THEN conjunct1, THEN mp, OF conjI [OF l1 conjI [OF l2 l3]]] c_stop
    by simp
  have c_init: "api_init (fst (api_az_get_status ex_ops ex_snapshot_bad 7 ?i)) = False"
    using snapshot_entry [where data = ex_snapshot_bad and ops = ex_ops and now = 7 and s = ?i
        and ?e2.0 = ValueError, THEN conjunct2, THEN conjunct2, THEN conjunct2, THEN conjunct1, THEN mp] c_loop
    by (simp add: Airzone_init_def)
  have c_stored: "zones (fst (api_az_get_status ex_ops ex_snapshot 7 ex_state)) ''1:2'' = Some ex_zone"
    by (rule snapshot_entry [where s = ex_state and k = "''1:2''" and z = ex_zone,
        THEN conjunct2, THEN conjunct2, THEN conjunct2, THEN conjunct2, THEN conjunct2, THEN conjunct2, THEN conjunct2, THEN conjunct2, THEN conjunct2, THEN conjunct2, THEN conjunct1, THEN mp, OF h1])
  have c_stored_sys: "systems (fst (api_az_get_status ex_ops ex_snapshot 7
         (ex_state\<lparr>systems := [''1:2'' \<mapsto> ex_system0]\<rparr>))) ''1:2'' = Some ex_system0"
    by (rule snapshot_entry [where s = "ex_state\<lparr>systems := [''1:2'' \<mapsto> ex_system0]\<rparr>"
        and k = "''1:2''" and d = ex_system0, THEN conjunct2, THEN conjunct2, THEN conjunct2, THEN conjunct2, THEN conjunct2, THEN conjunct2, THEN conjunct2, THEN conjunct2, THEN conjunct2, THEN conjunct2, THEN conjunct2, THEN conjunct1, THEN mp]) simp
  have c_built: "Zone_init ex_ops ex_entry \<noteq> Inl AttributeError"
    by (rule snapshot_entry [where dev = ex_entry and ops = ex_ops and ty = "JStr API_AZ_ZONE"
        and ?e6.0 = AttributeError,
        THEN conjunct2, THEN conjunct2, THEN conjunct2, THEN conjunct2, THEN conjunct2, THEN conjunct2, THEN conjunct2, THEN conjunct2, THEN conjunct2, THEN conjunct2, THEN conjunct2, THEN conjunct2, THEN mp, OF h2, THEN conjunct2])
  show ?thesis
    by (intro conjI c_loop c_init c_next c_zone c_bad c_other c_nodict c_sys c_bad_sys
          c_stored c_stored_sys c_built)
qed

theorem snapshot_stored_counterexample:
  "zones (fst (api_az_get_status ex_ops ex_snapshot 7 ex_state)) ''1:2''
     \<noteq> Some (fst (zone_update ex_ops ex_entry FULL ex_zone))"
proof -
  have "zones ex_state ''1:2'' = Some ex_zone"
    by (simp add: ex_state_def)
  then have a: "zones (fst (api_az_get_status ex_ops ex_snapshot 7 ex_state)) ''1:2'' = Some ex_zone"
    using api_az_get_status_stored [where s = ex_state and k = "''1:2''" and z = ex_zone] by simp
  have b: "zone_update ex_ops ex_entry FULL ex_zone = (ex_zone\<lparr>zpower := Some True\<rparr>, None)"
    unfolding ex_entry_def by (rule zone_update_power_only) (simp_all add: api_consts)
  have "zpower ex_zone = Some False"
    by (simp add: ex_zone_def)
  then have c: "ex_zone \<noteq> ex_zone\<lparr>zpower := Some True\<rparr>"
    by (metis option.inject zone.select_convs(5) zone.surjective zone.update_convs(5))
  show ?thesis
    unfolding a b using c by simp
qed

section \<open>Stored devices and their keys\<close>

lemma store_keyed_cong:
  "store_keyed s \<Longrightarrow> zones s1 = zones s \<Longrightarrow> systems s1 = systems s \<Longrightarrow> store_keyed s1"
  by (simp add: store_keyed_def)

lemma store_keyed_put_zone:
  "store_keyed s \<Longrightarrow> get_id z = k \<Longrightarrow> store_keyed (s\<lparr>zones := (zones s)(k \<mapsto> z)\<rparr>)"
  by (simp add: store_keyed_def)

lemma store_keyed_put_system:
  "store_keyed s \<Longrightarrow> get_id d = k \<Longrightarrow> store_keyed (s\<lparr>systems := (systems s)(k \<mapsto> d)\<rparr>)"
  by (simp add: store_keyed_def)

lemma store_keyed_status_device:
  assumes "store_keyed s"
  shows "store_keyed (fst (status_device ops pfx dev s))"
proof (cases "py_get dev API_DEVICE_TYPE JNull")
  case (Inl e)
  with assms show ?thesis by (simp add: status_device_def)
next
  case ty: (Inr ty)
  show ?thesis
  proof (cases "ty = JStr API_AZ_SYSTEM")
    case True
    show ?thesis
    proof (cases "System_init ops dev")
      case (Inl e)
      with ty True assms show ?thesis by (simp add: status_device_def)
    next
      case (Inr d0)
      obtain d1 r where u: "system_update ops dev FULL d0 = (d1, r)"
        by (cases "system_update ops dev FULL d0")
      have "store_keyed (s\<lparr>systems := (systems s)(get_id (system_set_mqtt_topic pfx d1)
              \<mapsto> system_set_mqtt_topic pfx d1)\<rparr>)"
        using assms by (rule store_keyed_put_system) simp
      with ty True Inr u assms show ?thesis
        by (cases r) (simp_all add: status_device_def Let_def)
    qed
  next
    case False
    show ?thesis
    proof (cases "ty = JStr API_AZ_ZONE")
      case nz: False
      with ty False assms show ?thesis by (simp add: status_device_def)
    next
      case True
      show ?thesis
      proof (cases "Zone_init ops dev")
        case (Inl e)
        with ty True False assms show ?thesis by (simp add: status_device_def)
      next
        case (Inr z0)
        obtain z1 r where u: "zone_update ops dev FULL z0 = (z1, r)"
          by (cases "zone_update ops dev FULL z0")
        have "store_keyed (s\<lparr>zones := (zones s)(get_id (zone_set_mqtt_topic pfx z1)
                \<mapsto> zone_set_mqtt_topic pfx z1)\<rparr>)"
          using assms by (rule store_keyed_put_zone) simp
        with ty True False Inr u assms show ?thesis
          by (cases r) (simp_all add: status_device_def Let_def)
      qed
    qed
  qed
qed


lemma store_keyed_steps_status:
  assumes "store_keyed s"
  shows "store_keyed (fst (steps (map (status_device ops pfx) devs) s))"
  using assms
proof (induction devs arbitrary: s)
  case Nil
  then show ?case by simp
next
  case (Cons dev devs)
  obtain s1 e where st: "status_device ops pfx dev s = (s1, e)"
    by (cases "status_device ops pfx dev s")
  with store_keyed_status_device [OF Cons.prems, of ops pfx dev]
  have s1: "store_keyed s1" by simp
  show ?case
  proof (cases e)
    case (Some x)
    with st s1 show ?thesis by simp
  next
    case None
    with st Cons.IH [OF s1] show ?thesis by simp
  qed
qed

lemma store_keyed_api_az_get_status:
  assumes "store_keyed s"
  shows "store_keyed (fst (api_az_get_status ops data now s))"
proof -
  obtain devs where d:
    "zones (fst (api_az_get_status ops data now s))
       = zones (fst (steps (map (status_device ops
            (topic_interface s @ ''/'' @ az_mqtt_topic s)) devs) (s\<lparr>api_raw_data := data\<rparr>)))"
    "systems (fst (api_az_get_status ops data now s))
       = systems (fst (steps (map (status_device ops
            (topic_interface s @ ''/'' @ az_mqtt_topic s)) devs) (s\<lparr>api_raw_data := data\<rparr>)))"
    using api_az_get_status_store [of ops data now s] by blast
  have "store_keyed (s\<lparr>api_raw_data := data\<rparr>)"
    using assms by (simp add: store_keyed_def)
  then have "store_keyed (fst (steps (map (status_device ops
            (topic_interface s @ ''/'' @ az_mqtt_topic s)) devs) (s\<lparr>api_raw_data := data\<rparr>)))"
    by (rule store_keyed_steps_status)
  then show ?thesis
    using d by (rule store_keyed_cong)
qed

lemma store_keyed_update_callback:
  assumes "keeps_store cb" and "store_keyed s"
  shows "store_keyed (fst (update_callback ops cb data now s))"
  using assms(2) update_callback_store [OF assms(1), of ops data now s]
  by (simp add: store_keyed_def)

lemma store_keyed_zone_branch:
  assumes cb: "keeps_store cb" and s: "store_keyed s" and z: "zones s k = Some z"
  shows "store_keyed (fst (case zone_update ops body PARTIAL z of
        (zone1, Some e) \<Rightarrow> (s\<lparr>zones := (zones s)(k \<mapsto> zone1)\<rparr>, Some e)
      | (zone1, None) \<Rightarrow> update_callback ops cb data now (s\<lparr>zones := (zones s)(k \<mapsto> zone1)\<rparr>)))"
proof -
  obtain z1 e where u: "zone_update ops body PARTIAL z = (z1, e)"
    by (cases "zone_update ops body PARTIAL z")
  have "get_id z = k" using s z by (simp add: store_keyed_def)
  with u zone_update_id [of ops body PARTIAL z] have "get_id z1 = k" by simp
  with s have k: "store_keyed (s\<lparr>zones := (zones s)(k \<mapsto> z1)\<rparr>)"
    by (rule store_keyed_put_zone)
  show ?thesis
    using u k store_keyed_update_callback [OF cb k] by (cases e) simp_all
qed

lemma store_keyed_system_branch:
  assumes cb: "keeps_store cb" and s: "store_keyed s" and d: "systems s k = Some d"
  shows "store_keyed (fst (case system_update ops body PARTIAL d of
        (system1, Some e) \<Rightarrow> (s\<lparr>systems := (systems s)(k \<mapsto> system1)\<rparr>, Some e)
      | (system1, None) \<Rightarrow> update_callback ops cb data now (s\<lparr>systems := (systems s)(k \<mapsto> system1)\<rparr>)))"
proof -
  obtain d1 e where u: "system_update ops body PARTIAL d = (d1, e)"
    by (cases "system_update ops body PARTIAL d")
  have "get_id d = k" using s d by (simp add: store_keyed_def)
  with u system_update_id [of ops body PARTIAL d] have "get_id d1 = k" by simp
  with s have k: "store_keyed (s\<lparr>systems := (systems s)(k \<mapsto> d1)\<rparr>)"
    by (rule store_keyed_put_system)
  show ?thesis
    using u k store_keyed_update_callback [OF cb k] by (cases e) simp_all
qed


lemma store_keyed_sum:
  assumes "store_keyed s" and "\<And>v. store_keyed (fst (f v))"
  shows "store_keyed (fst (case x of Inl e \<Rightarrow> (s, Some e) | Inr v \<Rightarrow> f v))"
  by (cases x) (simp_all add: assms)

lemma store_keyed_msg_events_status:
  assumes cb: "keeps_store cb" and s: "store_keyed s"
  shows "store_keyed (fst (msg_events_status ops cb topic payload now s))"
  unfolding msg_events_status_def
proof (intro store_keyed_sum s)
  fix topic1 :: "string list" and data body dev_id device_type sys_id :: "'a json"
  show "store_keyed (fst (
          if device_type = JStr API_AZ_SYSTEM then
            (case get_system ops s sys_id dev_id of
               None \<Rightarrow> (s, None)
             | Some system \<Rightarrow>
                 (let key = py_str ops sys_id @ '':'' @ py_str ops dev_id in
                  case system_update ops body PARTIAL system of
                    (system1, Some e) \<Rightarrow> (s\<lparr>systems := (systems s)(key \<mapsto> system1)\<rparr>, Some e)
                  | (system1, None) \<Rightarrow>
                      update_callback ops cb data now
                        (s\<lparr>systems := (systems s)(key \<mapsto> system1)\<rparr>)))
          else if device_type = JStr API_AZ_ZONE then
            (case get_zone ops s sys_id dev_id of
               None \<Rightarrow> (s, None)
             | Some zone \<Rightarrow>
                 (let key = py_str ops sys_id @ '':'' @ py_str ops dev_id in
                  case zone_update ops body PARTIAL zone of
                    (zone1, Some e) \<Rightarrow> (s\<lparr>zones := (zones s)(key \<mapsto> zone1)\<rparr>, Some e)
                  | (zone1, None) \<Rightarrow>
                      update_callback ops cb data now
                        (s\<lparr>zones := (zones s)(key \<mapsto> zone1)\<rparr>)))
          else (s, None)))"
  proof (cases "device_type = JStr API_AZ_SYSTEM")
    case True
    show ?thesis
    proof (cases "get_system ops s sys_id dev_id")
      case None
      with True s show ?thesis by simp
    next
      case (Some d)
      then have "systems s (py_str ops sys_id @ '':'' @ py_str ops dev_id) = Some d"
        by (simp add: get_system_def)
      from store_keyed_system_branch [OF cb s this, where ops = ops and body = body and data = data and now = now]
      show ?thesis by (simp only: True [THEN eqTrueI] if_True Some option.case Let_def)
    qed
  next
    case False
    show ?thesis
    proof (cases "device_type = JStr API_AZ_ZONE")
      case nz: False
      with False s show ?thesis by simp
    next
      case True
      show ?thesis
      proof (cases "get_zone ops s sys_id dev_id")
        case None
        with True False s show ?thesis by simp
      next
        case (Some z)
        then have "zones s (py_str ops sys_id @ '':'' @ py_str ops dev_id) = Some z"
          by (simp add: get_zone_def)
        from store_keyed_zone_branch [OF cb s this, where ops = ops and body = body and data = data and now = now]
        show ?thesis by (simp only: False if_False True [THEN eqTrueI] if_True Some option.case Let_def)
      qed
    qed
  qed
qed


lemma store_keyed_list:
  assumes "store_keyed s" and "\<And>t ts. store_keyed (fst (f t ts))"
  shows "store_keyed (fst (case xs of [] \<Rightarrow> (s, Some e) | t # ts \<Rightarrow> f t ts))"
  by (cases xs) (simp_all add: assms)

lemma store_keyed_if:
  assumes "store_keyed (fst a)" and "store_keyed (fst b)"
  shows "store_keyed (fst (if c then a else b))"
  using assms by simp

lemma store_keyed_msg_events:
  assumes cb: "keeps_store cb" and s: "store_keyed s"
  shows "store_keyed (fst (msg_events ops cb topic payload now s))"
  unfolding msg_events_def
  by (intro store_keyed_sum store_keyed_list store_keyed_if s
        store_keyed_msg_events_status [OF cb s]) (simp add: s)

lemma store_keyed_msg_online:
  assumes s: "store_keyed s"
  shows "store_keyed (fst (msg_online ops payload s))"
  unfolding msg_online_def
  by (intro store_keyed_sum s) (use s in \<open>simp add: store_keyed_def\<close>)

lemma store_keyed_poll_branch:
  assumes cb: "keeps_store cb" and s: "store_keyed s"
  shows "store_keyed (fst (case api_az_get_status ops data now1 s of
           (s2, Some e) \<Rightarrow> (s2, Some e)
         | (s2, None) \<Rightarrow> update_callback ops cb d2 now2 s2))"
proof -
  obtain s2 r where u: "api_az_get_status ops data now1 s = (s2, r)"
    by (cases "api_az_get_status ops data now1 s")
  with store_keyed_api_az_get_status [OF s, of ops data now1] have k: "store_keyed s2"
    by simp
  show ?thesis
    using u k store_keyed_update_callback [OF cb k] by (cases r) simp_all
qed

lemma store_keyed_msg_response:
  assumes cb: "keeps_store cb" and s: "store_keyed s"
  shows "store_keyed (fst (msg_response ops cb topic payload now1 now2 s))"
  unfolding msg_response_def
proof (intro store_keyed_sum s)
  fix data headers req_id :: "'a json"
  define s1 where "s1 = (if req_id = api_req_id s then s\<lparr>api_resp := True\<rparr> else s)"
  have k: "store_keyed s1"
    using s by (simp add: s1_def store_keyed_def)
  have "store_keyed (fst (case pop_if AMT_RESPONSE topic of
             Inl e \<Rightarrow> (s1, Some e)
           | Inr [] \<Rightarrow> (s1, Some IndexError)
           | Inr (t # ts) \<Rightarrow>
               if t = api_safe_str API_AZ_GET_STATUS then
                 (case api_az_get_status ops data now1 s1 of
                    (s2, Some e) \<Rightarrow> (s2, Some e)
                  | (s2, None) \<Rightarrow> update_callback ops cb (JObj []) now2 s2)
               else (s1, None)))"
    by (intro store_keyed_sum store_keyed_list store_keyed_if k
          store_keyed_poll_branch [OF cb k]) (simp add: k)
  then show "store_keyed (fst (let s1 = (if req_id = api_req_id s then s\<lparr>api_resp := True\<rparr> else s) in
           case pop_if AMT_RESPONSE topic of
             Inl e \<Rightarrow> (s1, Some e)
           | Inr [] \<Rightarrow> (s1, Some IndexError)
           | Inr (t # ts) \<Rightarrow>
               if t = api_safe_str API_AZ_GET_STATUS then
                 (case api_az_get_status ops data now1 s1 of
                    (s2, Some e) \<Rightarrow> (s2, Some e)
                  | (s2, None) \<Rightarrow> update_callback ops cb (JObj []) now2 s2)
               else (s1, None)))"
    unfolding s1_def Let_def .
qed

lemma store_keyed_msg_process:
  assumes cb: "keeps_store cb" and s: "store_keyed s"
  shows "store_keyed (fst (msg_process ops cb topic_str payload now1 now2 s))"
  unfolding msg_process_def Let_def
  by (intro store_keyed_list store_keyed_if s store_keyed_msg_events [OF cb s]
        store_keyed_msg_online [OF s] store_keyed_msg_response [OF cb s]) (simp_all add: s)

lemma store_keyed_run_msgs:
  assumes cb: "keeps_store cb" and s: "store_keyed s"
  shows "store_keyed (run_msgs ops cb ms s)"
  using s
proof (induction ms arbitrary: s)
  case Nil
  then show ?case by simp
next
  case (Cons m ms)
  obtain topic_str payload now1 now2 where m: "m = (topic_str, payload, now1, now2)"
    by (cases m)
  show ?case
    unfolding m using Cons.IH [OF store_keyed_msg_process [OF cb Cons.prems]] by simp
qed

lemma store_keyed_init: "store_keyed (Airzone_init cfg)"
  by (simp add: store_keyed_def Airzone_init_def)

section \<open>Examples of snapshots\<close>

lemma ex_status_sys_entry: "status_device ex_ops pfx ex_sys_entry s
   = (if systems s ''1:2'' = None
      then s\<lparr>systems := (systems s)(''1:2'' \<mapsto> system_set_mqtt_topic pfx ex_system0)\<rparr>
      else s, None)"
  by (simp add: status_device_def ex_sys_entry_def py_get_def System_init_def Device_init_def
        system_update_def device_update_def set_field_def py_str_def get_id_def
        system_set_mqtt_topic_def ex_system0_def api_consts Let_def)

lemma ex_status_entry: "status_device ex_ops pfx ex_entry s
   = (if zones s ''1:2'' = None
      then s\<lparr>zones := (zones s)(''1:2'' \<mapsto> zone_set_mqtt_topic pfx (ex_zone0\<lparr>zpower := Some True\<rparr>))\<rparr>
      else s, None)"
proof -
  have u: "zone_update ex_ops ex_entry FULL ex_zone0 = (ex_zone0\<lparr>zpower := Some True\<rparr>, None)"
    unfolding ex_entry_def by (rule zone_update_power_only) (simp_all add: api_consts)
  have i: "Zone_init ex_ops ex_entry = Inr ex_zone0"
    by (simp add: Zone_init_def Device_init_def ex_entry_def ex_zone0_def py_get_def
          py_str_def get_id_def api_consts)
  have t: "py_get ex_entry API_DEVICE_TYPE JNull = Inr (JStr API_AZ_ZONE)"
    by (simp add: ex_entry_def py_get_def api_consts)
  have n: "API_AZ_ZONE \<noteq> API_AZ_SYSTEM"
    by (simp add: api_consts)
  have g: "get_id (zone_set_mqtt_topic pfx (ex_zone0\<lparr>zpower := Some True\<rparr>)) = ''1:2''"
    by (simp add: zone_set_mqtt_topic_def get_id_def ex_zone0_def)
  show ?thesis
    by (simp add: status_device_def t n i u g Let_def)
qed


lemma ex_snapshot2_store:
  "systems (fst (api_az_get_status ex_ops ex_snapshot2 7 (Airzone_init Config_init))) ''1:2''
     = Some (system_set_mqtt_topic ''airzone-mqtt-hass/airzone'' ex_system0)
   \<and> zones (fst (api_az_get_status ex_ops ex_snapshot2 7 (Airzone_init Config_init))) ''1:2''
     = Some (zone_set_mqtt_topic ''airzone-mqtt-hass/airzone'' (ex_zone0\<lparr>zpower := Some True\<rparr>))"
  by (simp add: api_az_get_status_def ex_snapshot2_def py_get_def py_iter_def ex_status_sys_entry ex_status_entry
        Airzone_init_def Config_init_def api_consts)


lemma update_callback_empty:
  "update_callback ops cb (JObj []) now s
     = (case cb of None \<Rightarrow> (s\<lparr>update_dt := Some now\<rparr>, None)
        | Some f \<Rightarrow> f (s\<lparr>update_dt := Some now\<rparr>))"
  by (simp add: update_callback_def py_get_def Let_def)

lemma msg_response_status:
  assumes "py_get data API_HEADERS (JObj []) = Inr headers"
    and "py_get headers API_REQ_ID JNull = Inr req_id"
  shows "msg_response ops cb [AMT_RESPONSE, api_safe_str API_AZ_GET_STATUS] (Some data) now1 now2 s
     = (case api_az_get_status ops data now1
               (if req_id = api_req_id s then s\<lparr>api_resp := True\<rparr> else s) of
          (s2, Some e) \<Rightarrow> (s2, Some e)
        | (s2, None) \<Rightarrow> update_callback ops cb (JObj []) now2 s2)"
  using assms by (simp add: msg_response_def json_loads_def pop_if_def Let_def)

lemma ex_topic: "split_on CHR ''/'' (removeprefix (''airzone/v1'' @ ''/'') ''airzone/v1/response/az_get_status'')
   = [AMT_RESPONSE, api_safe_str API_AZ_GET_STATUS]"
  by (simp add: removeprefix_def amt_consts api_safe_str_def api_consts)

lemma ex_run:
  "zones (run_msgs ex_ops None [(''airzone/v1/response/az_get_status'', Some ex_snapshot2, 7, 8)]
            (Airzone_init Config_init)) ''1:2''
     = Some (zone_set_mqtt_topic ''airzone-mqtt-hass/airzone'' (ex_zone0\<lparr>zpower := Some True\<rparr>))"
proof -
  let ?s = "Airzone_init Config_init :: int airzone"
  have p: "mqtt_prefix ?s = ''airzone/v1''"
    by (simp add: Airzone_init_def Config_init_def amt_consts)
  have d: "msg_process ex_ops None ''airzone/v1/response/az_get_status'' (Some ex_snapshot2) 7 8 ?s
      = msg_response ex_ops None [AMT_RESPONSE, api_safe_str API_AZ_GET_STATUS] (Some ex_snapshot2) 7 8 ?s"
    unfolding msg_process_def p ex_topic by (simp add: amt_consts)
  have h: "py_get ex_snapshot2 API_HEADERS (JObj []) = Inr (JObj [])"
    "py_get (JObj [] :: int json) API_REQ_ID JNull = Inr JNull"
    by (simp_all add: ex_snapshot2_def py_get_def api_consts)
  have r: "JNull \<noteq> api_req_id ?s"
    by (simp add: Airzone_init_def)
  obtain s2 e where a: "api_az_get_status ex_ops ex_snapshot2 7 ?s = (s2, e)"
    by (cases "api_az_get_status ex_ops ex_snapshot2 7 ?s")
  have "zones (fst (msg_response ex_ops None [AMT_RESPONSE, api_safe_str API_AZ_GET_STATUS]
        (Some ex_snapshot2) 7 8 ?s)) = zones s2"
    unfolding msg_response_status [OF h] using r a
    by (cases e) (simp_all add: update_callback_empty)
  moreover have "zones s2 ''1:2''
     = Some (zone_set_mqtt_topic ''airzone-mqtt-hass/airzone'' (ex_zone0\<lparr>zpower := Some True\<rparr>))"
    using ex_snapshot2_store a by simp
  ultimately show ?thesis
    using d by simp
qed

text \<open>
  C8 (as amended). Every stored system and every stored zone is stored under its own id
  \<open>system_id:device_id\<close>: this holds in every state the receive loop reaches from the
  initial one (with a callback that leaves the store alone), and every snapshot keeps it.
  So no two stored systems have the same id and no two stored zones have the same id. An
  update never changes the id of a zone or a system. (A system and a zone may well be
  stored under the same id: the two dicts are separate.)
\<close>

theorem store_keys:
  "(keeps_store cb \<longrightarrow> store_keyed (run_msgs ops cb ms (Airzone_init cfg)))
   \<and> (store_keyed s \<longrightarrow> store_keyed (fst (api_az_get_status ops data now s)))
   \<and> get_id (fst (zone_update ops delta ut z)) = get_id z
   \<and> get_id (fst (system_update ops delta ut d)) = get_id d"
  using store_keyed_run_msgs [OF _ store_keyed_init, of cb ops ms cfg]
    store_keyed_api_az_get_status [of s ops data now]
    zone_update_id [of ops delta ut z] system_update_id [of ops delta ut d]
  by blast

theorem store_keys_witness:
  "keeps_store (None :: int callback)
   \<and> store_keyed (run_msgs ex_ops None
         [(''airzone/v1/response/az_get_status'', Some ex_snapshot2, 7, 8)]
         (Airzone_init Config_init))
   \<and> zones (run_msgs ex_ops None
         [(''airzone/v1/response/az_get_status'', Some ex_snapshot2, 7, 8)]
         (Airzone_init Config_init)) ''1:2''
       = Some (zone_set_mqtt_topic ''airzone-mqtt-hass/airzone'' (ex_zone0\<lparr>zpower := Some True\<rparr>))
   \<and> store_keyed ex_state
   \<and> store_keyed (fst (api_az_get_status ex_ops ex_snapshot 7 ex_state))"
proof -
  have k: "keeps_store (None :: int callback)"
    by (simp add: keeps_store_def)
  have e: "store_keyed ex_state"
    by (simp add: store_keyed_def ex_state_def Airzone_init_def get_id_def ex_zone_def)
  note t = store_keys [where cb = "None :: int callback" and ops = ex_ops
      and ms = "[(''airzone/v1/response/az_get_status'', Some ex_snapshot2, 7, 8)]"
      and cfg = Config_init and s = ex_state and data = ex_snapshot and now = 7]
  from t k have "store_keyed (run_msgs ex_ops None
         [(''airzone/v1/response/az_get_status'', Some ex_snapshot2, 7, 8)]
         (Airzone_init Config_init))"
    by blast
  moreover from t e have "store_keyed (fst (api_az_get_status ex_ops ex_snapshot 7 ex_state))"
    by blast
  ultimately show ?thesis
    using k e ex_run by blast
qed

theorem shared_key_counterexample:
  "map_option get_id
     (systems (fst (api_az_get_status ex_ops ex_snapshot2 7 (Airzone_init Config_init))) ''1:2'')
     = Some ''1:2''
   \<and> map_option get_id
     (zones (fst (api_az_get_status ex_ops ex_snapshot2 7 (Airzone_init Config_init))) ''1:2'')
     = Some ''1:2''"
  using ex_snapshot2_store
  by (simp add: get_id_def system_set_mqtt_topic_def zone_set_mqtt_topic_def ex_system0_def
        ex_zone0_def)

section \<open>What the handlers leave alone\<close>

lemma inv_sum:
  assumes "P s" and "\<And>v. P (fst (f v))"
  shows "P (fst (case x of Inl e \<Rightarrow> (s, Some e) | Inr v \<Rightarrow> f v))"
  by (cases x) (simp_all add: assms)

lemma inv_list:
  assumes "P s" and "\<And>t ts. P (fst (f t ts))"
  shows "P (fst (case xs of [] \<Rightarrow> (s, Some e) | t # ts \<Rightarrow> f t ts))"
  by (cases xs) (simp_all add: assms)

lemma inv_if:
  assumes "P (fst a)" and "P (fst b)"
  shows "P (fst (if c then a else b))"
  using assms by simp

lemma inv_option:
  assumes "P s" and "\<And>v. P (fst (f v))"
  shows "P (fst (case x of None \<Rightarrow> (s, None) | Some v \<Rightarrow> f v))"
  by (cases x) (simp_all add: assms)

lemma status_device_frame: "frame (fst (status_device ops pfx dev s)) = frame s"
  by (auto simp: status_device_def frame_def Let_def split: sum.split prod.split option.split)

lemma steps_status_frame:
  "frame (fst (steps (map (status_device ops pfx) devs) s)) = frame s"
proof (induction devs arbitrary: s)
  case Nil
  show ?case by simp
next
  case (Cons dev devs)
  obtain s1 e where st: "status_device ops pfx dev s = (s1, e)"
    by (cases "status_device ops pfx dev s")
  with status_device_frame [of ops pfx dev s] have "frame s1 = frame s"
    by simp
  with st Cons.IH [of s1] show ?case
    by (cases e) simp_all
qed

lemma api_az_get_status_frame:
  "frame (fst (api_az_get_status ops data now s)) = frame s"
proof (cases "py_get data API_BODY (JObj [])")
  case (Inl e)
  then show ?thesis by (simp add: api_az_get_status_def frame_def)
next
  case body: (Inr body)
  show ?thesis
  proof (cases "py_get body API_DEVICES (JList [])")
    case (Inl e)
    with body show ?thesis by (simp add: api_az_get_status_def frame_def)
  next
    case devices: (Inr devices)
    show ?thesis
    proof (cases "py_iter devices")
      case (Inl e)
      with body devices show ?thesis by (simp add: api_az_get_status_def frame_def)
    next
      case (Inr devs)
      obtain s2 r where st: "steps (map (status_device ops
          (topic_interface s @ ''/'' @ az_mqtt_topic s)) devs) (s\<lparr>api_raw_data := data\<rparr>) = (s2, r)"
        by (cases "steps (map (status_device ops
          (topic_interface s @ ''/'' @ az_mqtt_topic s)) devs) (s\<lparr>api_raw_data := data\<rparr>)")
      with steps_status_frame [of ops "topic_interface s @ ''/'' @ az_mqtt_topic s" devs
          "s\<lparr>api_raw_data := data\<rparr>"]
      have "frame s2 = frame s" by (simp add: frame_def)
      with body devices Inr st show ?thesis
        by (cases r) (simp_all add: api_az_get_status_def frame_def)
    qed
  qed
qed

lemma frame_ok_cong: "frame s1 = frame s \<Longrightarrow> frame_ok Q s1 = frame_ok Q s"
  by (simp add: frame_ok_def)

lemma frame_ok_update_callback:
  assumes "cb_keeps Q cb" and "frame_ok Q s"
  shows "frame_ok Q (fst (update_callback ops cb data now s))"
proof -
  have "frame_ok Q (s\<lparr>update_dt := Some dt\<rparr>)" for dt
    using assms(2) by (simp add: frame_ok_def frame_def)
  then have "frame_ok Q (fst (case cb of None \<Rightarrow> (s\<lparr>update_dt := Some dt\<rparr>, None)
             | Some f \<Rightarrow> f (s\<lparr>update_dt := Some dt\<rparr>)))" for dt
    using assms(1) by (cases cb) (simp_all add: cb_keeps_def frame_ok_def)
  then show ?thesis
    using update_callback_cases [of ops cb data now s] assms(2) by auto
qed

lemma frame_ok_update_branch:
  assumes cb: "cb_keeps Q cb" and s: "\<And>x. frame_ok Q (g x)"
  shows "frame_ok Q (fst (case u of
        (x1, Some e) \<Rightarrow> (g x1, Some e)
      | (x1, None) \<Rightarrow> update_callback ops cb data now (g x1)))"
proof -
  obtain x1 e where u: "u = (x1, e)" by (cases u)
  show ?thesis
    unfolding u using s [of x1] frame_ok_update_callback [OF cb s [of x1]]
    by (cases e) simp_all
qed

lemma frame_ok_msg_events_status:
  assumes cb: "cb_keeps Q cb" and s: "frame_ok Q s"
  shows "frame_ok Q (fst (msg_events_status ops cb topic payload now s))"
proof -
  have z: "frame_ok Q (s\<lparr>zones := m\<rparr>)" for m
    using s by (simp add: frame_ok_def frame_def)
  have d: "frame_ok Q (s\<lparr>systems := m\<rparr>)" for m
    using s by (simp add: frame_ok_def frame_def)
  show ?thesis
    unfolding msg_events_status_def Let_def
    by (intro inv_sum [where P = "frame_ok Q"] inv_if [where P = "frame_ok Q"]
          inv_option [where P = "frame_ok Q"] frame_ok_update_branch [OF cb] s z d)
       (simp add: s)
qed

lemma frame_ok_msg_events:
  assumes cb: "cb_keeps Q cb" and s: "frame_ok Q s"
  shows "frame_ok Q (fst (msg_events ops cb topic payload now s))"
  unfolding msg_events_def
  by (intro inv_sum [where P = "frame_ok Q"] inv_list [where P = "frame_ok Q"]
        inv_if [where P = "frame_ok Q"] s frame_ok_msg_events_status [OF cb s])
     (simp add: s)

lemma frame_ok_msg_online:
  assumes s: "frame_ok Q s"
  shows "frame_ok Q (fst (msg_online ops payload s))"
  unfolding msg_online_def
  by (intro inv_sum [where P = "frame_ok Q"] s) (use s in \<open>simp add: frame_ok_def frame_def\<close>)

lemma frame_ok_poll_branch:
  assumes cb: "cb_keeps Q cb" and s: "frame_ok Q s"
  shows "frame_ok Q (fst (case api_az_get_status ops data now1 s of
           (s2, Some e) \<Rightarrow> (s2, Some e)
         | (s2, None) \<Rightarrow> update_callback ops cb d2 now2 s2))"
proof -
  obtain s2 r where u: "api_az_get_status ops data now1 s = (s2, r)"
    by (cases "api_az_get_status ops data now1 s")
  with api_az_get_status_frame [of ops data now1 s] s have k: "frame_ok Q s2"
    by (simp add: frame_ok_def)
  show ?thesis
    using u k frame_ok_update_callback [OF cb k] by (cases r) simp_all
qed

lemma frame_ok_msg_response:
  assumes cb: "cb_keeps Q cb" and s: "frame_ok Q s"
  shows "frame_ok Q (fst (msg_response ops cb topic payload now1 now2 s))"
  unfolding msg_response_def
proof (intro inv_sum [where P = "frame_ok Q"] s)
  fix data headers req_id :: "'a json"
  define s1 where "s1 = (if req_id = api_req_id s then s\<lparr>api_resp := True\<rparr> else s)"
  have k: "frame_ok Q s1"
    using s by (simp add: s1_def frame_ok_def frame_def)
  have "frame_ok Q (fst (case pop_if AMT_RESPONSE topic of
             Inl e \<Rightarrow> (s1, Some e)
           | Inr [] \<Rightarrow> (s1, Some IndexError)
           | Inr (t # ts) \<Rightarrow>
               if t = api_safe_str API_AZ_GET_STATUS then
                 (case api_az_get_status ops data now1 s1 of
                    (s2, Some e) \<Rightarrow> (s2, Some e)
                  | (s2, None) \<Rightarrow> update_callback ops cb (JObj []) now2 s2)
               else (s1, None)))"
    by (intro inv_sum [where P = "frame_ok Q"] inv_list [where P = "frame_ok Q"]
          inv_if [where P = "frame_ok Q"] k frame_ok_poll_branch [OF cb k]) (simp add: k)
  then show "frame_ok Q (fst (let s1 = (if req_id = api_req_id s then s\<lparr>api_resp := True\<rparr> else s) in
           case pop_if AMT_RESPONSE topic of
             Inl e \<Rightarrow> (s1, Some e)
           | Inr [] \<Rightarrow> (s1, Some IndexError)
           | Inr (t # ts) \<Rightarrow>
               if t = api_safe_str API_AZ_GET_STATUS then
                 (case api_az_get_status ops data now1 s1 of
                    (s2, Some e) \<Rightarrow> (s2, Some e)
                  | (s2, None) \<Rightarrow> update_callback ops cb (JObj []) now2 s2)
               else (s1, None)))"
    unfolding s1_def Let_def .
qed

lemma frame_ok_msg_process:
  assumes cb: "cb_keeps Q cb" and s: "frame_ok Q s"
  shows "frame_ok Q (fst (msg_process ops cb topic_str payload now1 now2 s))"
  unfolding msg_process_def Let_def
  by (intro inv_list [where P = "frame_ok Q"] inv_if [where P = "frame_ok Q"] s
        frame_ok_msg_events [OF cb s] frame_ok_msg_online [OF s]
        frame_ok_msg_response [OF cb s]) (simp_all add: s)

lemma frame_ok_api_resp_wait:
  assumes cb: "cb_keeps Q cb" and s: "frame_ok Q s"
  shows "frame_ok Q (fst (api_resp_wait ops cb ms s))"
  using s
proof (induction ms arbitrary: s)
  case Nil
  then show ?case by simp
next
  case (Cons m ms)
  obtain topic_str payload now1 now2 where m: "m = (topic_str, payload, now1, now2)"
    by (cases m)
  obtain s1 e where p: "msg_process ops cb topic_str payload now1 now2 s = (s1, e)"
    by (cases "msg_process ops cb topic_str payload now1 now2 s")
  with frame_ok_msg_process [OF cb Cons.prems, of ops topic_str payload now1 now2]
  have k: "frame_ok Q s1" by simp
  show ?case
    unfolding m using Cons.prems p k Cons.IH [OF k] by (cases e) simp_all
qed

section \<open>The update cycle\<close>

lemma has_prefix_frame:
  "has_prefix pre s = frame_ok (\<lambda>(p, r, l). take (length pre) p = pre) s"
  by (simp add: has_prefix_def frame_ok_def frame_def)

lemma cb_appends_keeps:
  "cb_appends cb \<Longrightarrow> cb_keeps (\<lambda>(p, r, l). take (length pre) p = pre) cb"
  by (cases cb) (simp_all add: cb_appends_def cb_keeps_def has_prefix_frame [symmetric])

lemma cmd_az_get_status_free:
  assumes "\<not> api_lock s"
  shows "cmd_az_get_status ops cb now msgs s
     = (case api_resp_wait ops cb msgs
               (s\<lparr>api_lock := True, api_resp := False,
                   api_req_id := JStr (cmd_req_id ops now API_AZ_GET_STATUS),
                   published := published s
                     @ [(mqtt_prefix s @ ''/'' @ AMT_INVOKE, az_get_status_request ops s now)]\<rparr>) of
          (s5, r) \<Rightarrow>
            (case lock_release (api_lock s5) of
               Inl e \<Rightarrow> (s5, Some e)
             | Inr l \<Rightarrow> (s5\<lparr>api_lock := l\<rparr>, r)))"
proof -
  have h: "py_get (az_get_status_request ops s now) API_HEADERS (JObj [])
      = Inr (JObj [(API_CMD, JStr API_AZ_GET_STATUS),
               (API_DESTINATION, JStr (cmd_destination s API_AZ_GET_STATUS)),
               (API_REQ_ID, JStr (cmd_req_id ops now API_AZ_GET_STATUS))])"
    by (simp add: az_get_status_request_def py_get_def)
  have r: "py_get (JObj [(API_CMD, JStr API_AZ_GET_STATUS),
               (API_DESTINATION, JStr (cmd_destination s API_AZ_GET_STATUS)),
               (API_REQ_ID, JStr (cmd_req_id ops now API_AZ_GET_STATUS))]) API_REQ_ID (JStr [])
      = Inr (JStr (cmd_req_id ops now API_AZ_GET_STATUS))"
    by (simp add: py_get_def API_CMD_def API_DESTINATION_def API_REQ_ID_def)
  have "cmd_az_get_status ops cb now msgs s
      = cmd_invoke ops cb (az_get_status_request ops s now) msgs s"
    by (simp add: cmd_az_get_status_def az_get_status_request_def)
  then show ?thesis
    using assms by (simp add: cmd_invoke_def h r Let_def)
qed

lemma update_polling_publishes:
  assumes on: "online s" and free: "\<not> api_lock s" and cb: "cb_appends cb"
  shows "has_prefix (published s
           @ [(mqtt_prefix s @ ''/'' @ AMT_INVOKE, az_get_status_request ops s now)])
         (fst (update_polling ops cb now msgs s))"
proof -
  let ?pre = "published s @ [(mqtt_prefix s @ ''/'' @ AMT_INVOKE, az_get_status_request ops s now)]"
  let ?s4 = "s\<lparr>api_lock := True, api_resp := False,
                   api_req_id := JStr (cmd_req_id ops now API_AZ_GET_STATUS),
                   published := ?pre\<rparr>"
  let ?Q = "\<lambda>(p :: (string \<times> 'a json) list, r :: 'a json, l :: bool). take (length ?pre) p = ?pre"
  obtain s5 r where w: "api_resp_wait ops cb msgs ?s4 = (s5, r)"
    by (cases "api_resp_wait ops cb msgs ?s4")
  have "frame_ok ?Q ?s4"
    by (simp add: frame_ok_def frame_def)
  from frame_ok_api_resp_wait [OF cb_appends_keeps [OF cb] this, of ops msgs] w
  have k: "has_prefix ?pre s5"
    by (simp add: has_prefix_frame)
  then have k2: "has_prefix ?pre (s5\<lparr>api_lock := l\<rparr>)" for l
    by (simp add: has_prefix_def)
  have c: "cmd_az_get_status ops cb now msgs s
      = (case lock_release (api_lock s5) of
               Inl e \<Rightarrow> (s5, Some e)
             | Inr l \<Rightarrow> (s5\<lparr>api_lock := l\<rparr>, r))"
    using cmd_az_get_status_free [OF free, of ops cb now msgs] w by simp
  obtain s6 r6 where c6: "cmd_az_get_status ops cb now msgs s = (s6, r6)"
    by (cases "cmd_az_get_status ops cb now msgs s")
  have k6: "has_prefix ?pre s6"
    using c c6 k k2 by (cases "lock_release (api_lock s5)") auto
  then have k7: "has_prefix ?pre (s6\<lparr>api_lock := l\<rparr>)" for l
    by (simp add: has_prefix_def)
  show ?thesis
    using on c6 k6 k7
    by (cases r6; cases "lock_release (api_lock s6)") (simp_all add: update_polling_def)
qed

lemma update_polling_offline:
  "\<not> online s \<Longrightarrow> update_polling ops cb now msgs s = (s, Some AirzoneOffline)"
  by (simp add: update_polling_def)

text \<open>
  C3 (as amended). The update cycle does nothing exactly when the store is initialized,
  the gateway is online and a last update is recorded that is at most the poll timeout
  old. In every other case it runs the polling step: online (and with the request lock
  free) it publishes the get-status request on the invoke topic; offline it raises
  \<open>AirzoneOffline\<close> and publishes nothing.
\<close>

theorem update_freshness:
  "update_events s now
     = (api_init s \<and> online s
        \<and> (case update_dt s of None \<Rightarrow> False | Some t \<Rightarrow> now - t \<le> poll_timeout s))
   \<and> (update_events s now \<longrightarrow> update ops cb now now_req msgs s = (s, None))
   \<and> (\<not> update_events s now \<and> online s \<and> \<not> api_lock s \<and> cb_appends cb
        \<longrightarrow> has_prefix
              (published s @ [(mqtt_prefix s @ ''/'' @ AMT_INVOKE, az_get_status_request ops s now_req)])
              (fst (update ops cb now now_req msgs s)))
   \<and> (\<not> update_events s now \<and> \<not> online s
        \<longrightarrow> update ops cb now now_req msgs s = (s, Some AirzoneOffline))"
proof (intro conjI impI)
  show "update_events s now
     = (api_init s \<and> online s
        \<and> (case update_dt s of None \<Rightarrow> False | Some t \<Rightarrow> now - t \<le> poll_timeout s))"
    by (simp add: update_events_def)
next
  assume "update_events s now"
  then show "update ops cb now now_req msgs s = (s, None)"
    by (simp add: update_def)
next
  assume a: "\<not> update_events s now \<and> online s \<and> \<not> api_lock s \<and> cb_appends cb"
  then have "update ops cb now now_req msgs s = update_polling ops cb now_req msgs s"
    by (simp add: update_def)
  then show "has_prefix
              (published s @ [(mqtt_prefix s @ ''/'' @ AMT_INVOKE, az_get_status_request ops s now_req)])
              (fst (update ops cb now now_req msgs s))"
    using a update_polling_publishes [of s cb ops now_req msgs] by simp
next
  assume "\<not> update_events s now \<and> \<not> online s"
  then show "update ops cb now now_req msgs s = (s, Some AirzoneOffline)"
    by (simp add: update_def update_polling_offline)
qed

theorem update_freshness_witness:
  "update_events ex_state 1000000
   \<and> update ex_ops None 1000000 1000000 [] ex_state = (ex_state, None)
   \<and> \<not> update_events ex_state 901000000
   \<and> has_prefix
        (published ex_state
           @ [(mqtt_prefix ex_state @ ''/'' @ AMT_INVOKE, az_get_status_request ex_ops ex_state 901000000)])
        (fst (update ex_ops None 901000000 901000000 [] ex_state))
   \<and> update ex_ops None 901000000 901000000 [] (ex_state\<lparr>online := False\<rparr>)
       = (ex_state\<lparr>online := False\<rparr>, Some AirzoneOffline)"
proof -
  have f: "update_events ex_state 1000000"
    by (simp add: update_events_def ex_state_def Airzone_init_def Config_init_def)
  have g: "\<not> update_events ex_state 901000000"
    by (simp add: update_events_def ex_state_def Airzone_init_def Config_init_def)
  have h: "online ex_state \<and> \<not> api_lock ex_state \<and> cb_appends (None :: int callback)"
    by (simp add: ex_state_def Airzone_init_def cb_appends_def)
  have o: "\<not> update_events (ex_state\<lparr>online := False\<rparr>) 901000000
      \<and> \<not> online (ex_state\<lparr>online := False\<rparr>)"
    by (simp add: update_events_def)
  have c1: "update ex_ops None 1000000 1000000 [] ex_state = (ex_state, None)"
    using update_freshness [where s = ex_state and now = 1000000 and ops = ex_ops
        and cb = None and now_req = 1000000 and msgs = "[]"] f
    by blast
  have c2: "has_prefix
        (published ex_state
           @ [(mqtt_prefix ex_state @ ''/'' @ AMT_INVOKE, az_get_status_request ex_ops ex_state 901000000)])
        (fst (update ex_ops None 901000000 901000000 [] ex_state))"
    using update_freshness [where s = ex_state and now = 901000000 and ops = ex_ops
        and cb = None and now_req = 901000000 and msgs = "[]"] g h
    by blast
  have c3: "update ex_ops None 901000000 901000000 [] (ex_state\<lparr>online := False\<rparr>)
       = (ex_state\<lparr>online := False\<rparr>, Some AirzoneOffline)"
    using update_freshness [where s = "ex_state\<lparr>online := False\<rparr>" and now = 901000000
        and ops = ex_ops and cb = None and now_req = 901000000 and msgs = "[]"] o
    by blast
  from f g c1 c2 c3 show ?thesis by blast
qed

theorem freshness_offline_counterexample:
  "update_events (ex_state\<lparr>online := False\<rparr>) 901000000 = False
   \<and> published (fst (update ex_ops None 901000000 901000000 [] (ex_state\<lparr>online := False\<rparr>)))
       = published (ex_state\<lparr>online := False\<rparr>)"
  by (simp add: update_def update_events_def update_polling_offline)

text \<open>
  C6. When the online flag is false, the update cycle raises \<open>AirzoneOffline\<close> and
  leaves the whole state as it was: no request is sent and nothing is published.
\<close>

theorem update_offline:
  "\<not> online s \<Longrightarrow>
     update ops cb now_ev now_req msgs s = (s, Some AirzoneOffline)
     \<and> published (fst (update ops cb now_ev now_req msgs s)) = published s"
  by (simp add: update_def update_events_def update_polling_offline)

theorem update_offline_witness:
  "\<not> online (Airzone_init Config_init :: int airzone)
   \<and> update ex_ops None 0 0 [] (Airzone_init Config_init)
       = (Airzone_init Config_init, Some AirzoneOffline)"
proof -
  have "\<not> online (Airzone_init Config_init :: int airzone)"
    by (simp add: Airzone_init_def)
  then show ?thesis
    using update_offline [of "Airzone_init Config_init" ex_ops None 0 0 "[]"] by blast
qed

section \<open>The freshness timestamp\<close>

lemma api_az_get_status_update_dt:
  assumes "api_az_get_status ops data now s = (s2, None)"
  shows "update_dt s2 = Some now"
proof (cases "py_get data API_BODY (JObj [])")
  case (Inl e)
  with assms show ?thesis by (simp add: api_az_get_status_def)
next
  case body: (Inr body)
  show ?thesis
  proof (cases "py_get body API_DEVICES (JList [])")
    case (Inl e)
    with body assms show ?thesis by (simp add: api_az_get_status_def)
  next
    case devices: (Inr devices)
    show ?thesis
    proof (cases "py_iter devices")
      case (Inl e)
      with body devices assms show ?thesis by (simp add: api_az_get_status_def)
    next
      case (Inr devs)
      obtain s3 r where st: "steps (map (status_device ops
          (topic_interface s @ ''/'' @ az_mqtt_topic s)) devs) (s\<lparr>api_raw_data := data\<rparr>) = (s3, r)"
        by (cases "steps (map (status_device ops
          (topic_interface s @ ''/'' @ az_mqtt_topic s)) devs) (s\<lparr>api_raw_data := data\<rparr>)")
      with body devices Inr assms show ?thesis
        by (cases r) (auto simp: api_az_get_status_def)
    qed
  qed
qed

text \<open>
  C7 (as amended). When a get-status response is handled and its snapshot is applied
  without an exception, the freshness timestamp is the current time: the clock as read
  when the snapshot is applied and then, once more, as read when the update callback is
  run (the callback, if any, is called with that timestamp in place). The timestamp in
  the headers of the response is not used.
\<close>

theorem poll_timestamp:
  "py_get data API_HEADERS (JObj []) = Inr headers
      \<and> py_get headers API_REQ_ID JNull = Inr req_id
      \<and> api_az_get_status ops data now1
            (if req_id = api_req_id s then s\<lparr>api_resp := True\<rparr> else s) = (s2, None)
    \<longrightarrow> update_dt s2 = Some now1
        \<and> msg_response ops cb [AMT_RESPONSE, api_safe_str API_AZ_GET_STATUS] (Some data) now1 now2 s
          = (case cb of None \<Rightarrow> (s2\<lparr>update_dt := Some now2\<rparr>, None)
             | Some f \<Rightarrow> f (s2\<lparr>update_dt := Some now2\<rparr>))"
proof (intro conjI impI)
  assume a: "py_get data API_HEADERS (JObj []) = Inr headers
      \<and> py_get headers API_REQ_ID JNull = Inr req_id
      \<and> api_az_get_status ops data now1
            (if req_id = api_req_id s then s\<lparr>api_resp := True\<rparr> else s) = (s2, None)"
  then show "update_dt s2 = Some now1"
    using api_az_get_status_update_dt by blast
  from a show "msg_response ops cb [AMT_RESPONSE, api_safe_str API_AZ_GET_STATUS] (Some data) now1 now2 s
          = (case cb of None \<Rightarrow> (s2\<lparr>update_dt := Some now2\<rparr>, None)
             | Some f \<Rightarrow> f (s2\<lparr>update_dt := Some now2\<rparr>))"
    using msg_response_status [of data headers req_id ops cb now1 now2 s]
    by (simp add: update_callback_empty)
qed

lemma ex_poll_headers:
  "py_get ex_poll_response API_HEADERS (JObj [])
     = Inr (JObj [(API_REQ_ID, JStr (cmd_req_id ex_ops 901000000 API_AZ_GET_STATUS)),
                  (API_TS, JInt 5)])"
  "py_get (JObj [(API_REQ_ID, JStr (cmd_req_id ex_ops 901000000 API_AZ_GET_STATUS)),
                  (API_TS, JInt 5)]) API_REQ_ID JNull
     = Inr (JStr (cmd_req_id ex_ops 901000000 API_AZ_GET_STATUS))"
  "py_get (JObj [(API_REQ_ID, JStr (cmd_req_id ex_ops 901000000 API_AZ_GET_STATUS)),
                  (API_TS, JInt 5)]) API_TS JNull = Inr (JInt 5)"
  by (simp_all add: ex_poll_response_def py_get_def API_REQ_ID_def API_TS_def)

lemma ex_poll_applied:
  assumes "api_init s"
  shows "api_az_get_status ex_ops ex_poll_response now s
     = (s\<lparr>api_raw_data := ex_poll_response, api_init := True, update_dt := Some now\<rparr>, None)"
proof -
  have b: "py_get ex_poll_response API_BODY (JObj []) = Inr (JObj [(API_DEVICES, JList [])])"
    by (simp add: ex_poll_response_def py_get_def API_HEADERS_def API_BODY_def)
  have d: "py_get (JObj [(API_DEVICES, JList [])] :: int json) API_DEVICES (JList []) = Inr (JList [])"
    by (simp add: py_get_def)
  have i: "py_iter (JList [] :: int json) = Inr []"
    by (simp add: py_iter_def)
  show ?thesis
    unfolding api_az_get_status_loop [OF b d i] using assms by simp
qed


lemma ex_poll_handled:
  "msg_response ex_ops None [AMT_RESPONSE, api_safe_str API_AZ_GET_STATUS]
       (Some ex_poll_response) 902000000 903000000 ex_poll_pending
     = (ex_poll_pending\<lparr>api_resp := True, api_raw_data := ex_poll_response, api_init := True,
          update_dt := Some 903000000\<rparr>, None)"
proof -
  have m: "JStr (cmd_req_id ex_ops 901000000 API_AZ_GET_STATUS) = api_req_id ex_poll_pending"
    by (simp add: ex_poll_pending_def)
  have i: "api_init (ex_poll_pending\<lparr>api_resp := True\<rparr>)"
    by (simp add: ex_poll_pending_def ex_state_def)
  show ?thesis
    unfolding msg_response_status [OF ex_poll_headers(1) ex_poll_headers(2)]
    using m ex_poll_applied [OF i, of 902000000]
    by (simp add: update_callback_empty)
qed

lemma ex_poll_wait:
  "api_resp_wait ex_ops None ex_poll_msgs ex_poll_pending
     = (ex_poll_pending\<lparr>api_resp := True, api_raw_data := ex_poll_response, api_init := True,
          update_dt := Some 903000000\<rparr>, None)"
proof -
  have p: "mqtt_prefix ex_poll_pending = ''airzone/v1''"
    by (simp add: ex_poll_pending_def ex_state_def Airzone_init_def Config_init_def amt_consts)
  have d: "msg_process ex_ops None ''airzone/v1/response/az_get_status'' (Some ex_poll_response)
        902000000 903000000 ex_poll_pending
      = msg_response ex_ops None [AMT_RESPONSE, api_safe_str API_AZ_GET_STATUS]
        (Some ex_poll_response) 902000000 903000000 ex_poll_pending"
    unfolding msg_process_def p ex_topic by (simp add: amt_consts)
  have r: "\<not> api_resp ex_poll_pending"
    by (simp add: ex_poll_pending_def)
  show ?thesis
    unfolding ex_poll_msgs_def using r by (simp add: d ex_poll_handled)
qed

lemma ex_poll_run:
  "update_polling ex_ops None 901000000 ex_poll_msgs ex_state
     = (ex_poll_pending\<lparr>api_resp := True, api_raw_data := ex_poll_response, api_init := True,
          update_dt := Some 903000000, api_lock := False\<rparr>, None)"
proof -
  have f: "\<not> api_lock ex_state" "online ex_state"
    by (simp_all add: ex_state_def Airzone_init_def)
  have "cmd_az_get_status ex_ops None 901000000 ex_poll_msgs ex_state
     = (ex_poll_pending\<lparr>api_resp := True, api_raw_data := ex_poll_response, api_init := True,
          update_dt := Some 903000000, api_lock := False\<rparr>, None)"
    unfolding cmd_az_get_status_free [OF f(1)] ex_poll_pending_def [symmetric] ex_poll_wait
    by (simp add: lock_release_def ex_poll_pending_def)
  then show ?thesis
    using f(2) by (simp add: update_polling_def)
qed


theorem poll_timestamp_witness:
  "JStr (cmd_req_id ex_ops 901000000 API_AZ_GET_STATUS) = api_req_id ex_poll_pending
   \<and> api_az_get_status ex_ops ex_poll_response 902000000 (ex_poll_pending\<lparr>api_resp := True\<rparr>)
       = (ex_poll_pending\<lparr>api_resp := True, api_raw_data := ex_poll_response, api_init := True,
            update_dt := Some 902000000\<rparr>, None)
   \<and> msg_response ex_ops None [AMT_RESPONSE, api_safe_str API_AZ_GET_STATUS]
         (Some ex_poll_response) 902000000 903000000 ex_poll_pending
       = (ex_poll_pending\<lparr>api_resp := True, api_raw_data := ex_poll_response, api_init := True,
            update_dt := Some 903000000\<rparr>, None)"
proof -
  have m: "JStr (cmd_req_id ex_ops 901000000 API_AZ_GET_STATUS) = api_req_id ex_poll_pending"
    by (simp add: ex_poll_pending_def)
  have i: "api_init (ex_poll_pending\<lparr>api_resp := True\<rparr>)"
    by (simp add: ex_poll_pending_def ex_state_def)
  have a: "api_az_get_status ex_ops ex_poll_response 902000000 (ex_poll_pending\<lparr>api_resp := True\<rparr>)
       = (ex_poll_pending\<lparr>api_resp := True, api_raw_data := ex_poll_response, api_init := True,
            update_dt := Some 902000000\<rparr>, None)"
    using ex_poll_applied [OF i, of 902000000] by simp
  have a2: "api_az_get_status ex_ops ex_poll_response 902000000
        (if JStr (cmd_req_id ex_ops 901000000 API_AZ_GET_STATUS) = api_req_id ex_poll_pending
         then ex_poll_pending\<lparr>api_resp := True\<rparr> else ex_poll_pending)
       = (ex_poll_pending\<lparr>api_resp := True, api_raw_data := ex_poll_response, api_init := True,
            update_dt := Some 902000000\<rparr>, None)"
    using a m by simp
  have "msg_response ex_ops None [AMT_RESPONSE, api_safe_str API_AZ_GET_STATUS]
         (Some ex_poll_response) 902000000 903000000 ex_poll_pending
       = (ex_poll_pending\<lparr>api_resp := True, api_raw_data := ex_poll_response, api_init := True,
            update_dt := Some 903000000\<rparr>, None)"
    using poll_timestamp [where data = ex_poll_response and ops = ex_ops and s = ex_poll_pending
        and cb = None and ?now1.0 = 902000000 and ?now2.0 = 903000000,
        THEN mp, OF conjI [OF ex_poll_headers(1) conjI [OF ex_poll_headers(2) a2]]]
    by simp
  with m a show ?thesis by simp
qed

theorem poll_timestamp_counterexample:
  "py_get ex_poll_response API_HEADERS (JObj [])
     = Inr (JObj [(API_REQ_ID, JStr (cmd_req_id ex_ops 901000000 API_AZ_GET_STATUS)),
                  (API_TS, JInt 5)])
   \<and> py_float ex_ops (JInt 5) = Inr 5 \<and> fromtimestamp ex_ops 5 = Inr 5000000
   \<and> snd (update_polling ex_ops None 901000000 ex_poll_msgs ex_state) = None
   \<and> update_dt (fst (update_polling ex_ops None 901000000 ex_poll_msgs ex_state))
       = Some 903000000"
  using ex_poll_headers(1) ex_poll_run
  by (simp add: py_float_def ex_ops_def)

section \<open>Responses that do not match\<close>

lemma status_device_api_resp: "api_resp (fst (status_device ops pfx dev s)) = api_resp s"
  by (subst status_device_shape) simp

lemma steps_status_api_resp:
  "api_resp (fst (steps (map (status_device ops pfx) devs) s)) = api_resp s"
proof (induction devs arbitrary: s)
  case Nil
  show ?case by simp
next
  case (Cons dev devs)
  obtain s1 e where st: "status_device ops pfx dev s = (s1, e)"
    by (cases "status_device ops pfx dev s")
  with status_device_api_resp [of ops pfx dev s] have "api_resp s1 = api_resp s"
    by simp
  with st Cons.IH [of s1] show ?case
    by (cases e) simp_all
qed

lemma api_az_get_status_api_resp:
  "api_resp (fst (api_az_get_status ops data now s)) = api_resp s"
proof (cases "py_get data API_BODY (JObj [])")
  case (Inl e)
  then show ?thesis by (simp add: api_az_get_status_def)
next
  case body: (Inr body)
  show ?thesis
  proof (cases "py_get body API_DEVICES (JList [])")
    case (Inl e)
    with body show ?thesis by (simp add: api_az_get_status_def)
  next
    case devices: (Inr devices)
    show ?thesis
    proof (cases "py_iter devices")
      case (Inl e)
      with body devices show ?thesis by (simp add: api_az_get_status_def)
    next
      case (Inr devs)
      obtain s2 r where st: "steps (map (status_device ops
          (topic_interface s @ ''/'' @ az_mqtt_topic s)) devs) (s\<lparr>api_raw_data := data\<rparr>) = (s2, r)"
        by (cases "steps (map (status_device ops
          (topic_interface s @ ''/'' @ az_mqtt_topic s)) devs) (s\<lparr>api_raw_data := data\<rparr>)")
      with steps_status_api_resp [of ops "topic_interface s @ ''/'' @ az_mqtt_topic s" devs
          "s\<lparr>api_raw_data := data\<rparr>"]
      have "api_resp s2 = api_resp s" by simp
      with body devices Inr st show ?thesis
        by (cases r) (simp_all add: api_az_get_status_def)
    qed
  qed
qed

lemma update_callback_pending:
  assumes "keeps_pending cb"
  shows "api_resp (fst (update_callback ops cb data now s)) = api_resp s
       \<and> api_req_id (fst (update_callback ops cb data now s)) = api_req_id s
       \<and> api_lock (fst (update_callback ops cb data now s)) = api_lock s"
proof -
  consider (err) e where "update_callback ops cb data now s = (s, Some e)"
    | (ok) dt where "update_callback ops cb data now s
          = (case cb of None \<Rightarrow> (s\<lparr>update_dt := Some dt\<rparr>, None)
             | Some f \<Rightarrow> f (s\<lparr>update_dt := Some dt\<rparr>))"
    using update_callback_cases [of ops cb data now s] by blast
  then show ?thesis
  proof cases
    case err
    then show ?thesis by simp
  next
    case ok
    show ?thesis
    proof (cases cb)
      case None
      with ok show ?thesis by simp
    next
      case (Some f)
      from assms Some
      have "api_resp (fst (f (s\<lparr>update_dt := Some dt\<rparr>))) = api_resp (s\<lparr>update_dt := Some dt\<rparr>)
          \<and> api_req_id (fst (f (s\<lparr>update_dt := Some dt\<rparr>))) = api_req_id (s\<lparr>update_dt := Some dt\<rparr>)
          \<and> api_lock (fst (f (s\<lparr>update_dt := Some dt\<rparr>))) = api_lock (s\<lparr>update_dt := Some dt\<rparr>)"
        unfolding keeps_pending_def by simp
      with ok Some show ?thesis by simp
    qed
  qed
qed

lemma poll_branch_pending:
  assumes cb: "keeps_pending cb"
  shows "api_resp (fst (case api_az_get_status ops data now1 s of
           (s2, Some e) \<Rightarrow> (s2, Some e)
         | (s2, None) \<Rightarrow> update_callback ops cb d2 now2 s2)) = api_resp s
       \<and> api_req_id (fst (case api_az_get_status ops data now1 s of
           (s2, Some e) \<Rightarrow> (s2, Some e)
         | (s2, None) \<Rightarrow> update_callback ops cb d2 now2 s2)) = api_req_id s
       \<and> api_lock (fst (case api_az_get_status ops data now1 s of
           (s2, Some e) \<Rightarrow> (s2, Some e)
         | (s2, None) \<Rightarrow> update_callback ops cb d2 now2 s2)) = api_lock s"
proof -
  obtain s2 r where u: "api_az_get_status ops data now1 s = (s2, r)"
    by (cases "api_az_get_status ops data now1 s")
  with api_az_get_status_frame [of ops data now1 s] api_az_get_status_api_resp [of ops data now1 s]
  have k: "api_resp s2 = api_resp s \<and> api_req_id s2 = api_req_id s \<and> api_lock s2 = api_lock s"
    by (simp add: frame_def)
  show ?thesis
    using u k update_callback_pending [OF cb, of ops d2 now2 s2] by (cases r) simp_all
qed

lemma msg_response_mismatch:
  assumes "py_get data API_HEADERS (JObj []) = Inr headers"
    and "py_get headers API_REQ_ID JNull = Inr req_id"
    and "req_id \<noteq> api_req_id s"
  shows "msg_response ops cb topic (Some data) now1 now2 s
     = (case pop_if AMT_RESPONSE topic of
             Inl e \<Rightarrow> (s, Some e)
           | Inr [] \<Rightarrow> (s, Some IndexError)
           | Inr (t # ts) \<Rightarrow>
               if t = api_safe_str API_AZ_GET_STATUS then
                 (case api_az_get_status ops data now1 s of
                    (s2, Some e) \<Rightarrow> (s2, Some e)
                  | (s2, None) \<Rightarrow> update_callback ops cb (JObj []) now2 s2)
               else (s, None))"
  using assms by (simp add: msg_response_def json_loads_def Let_def)

text \<open>
  C1 (as amended). A response whose id is not the pending one does not set the event the
  waiter waits for, and leaves the pending id and the lock as they are (the callback
  registered being one that leaves them alone). It is dropped when its topic is not the
  one of get-status responses. On that topic its snapshot is applied to the device store
  and, when that raises nothing, the update callback is run.
\<close>

theorem mismatched_response:
  assumes "keeps_pending cb"
    and "py_get data API_HEADERS (JObj []) = Inr headers"
    and "py_get headers API_REQ_ID JNull = Inr req_id"
    and "req_id \<noteq> api_req_id s"
  shows "api_resp (fst (msg_response ops cb topic (Some data) now1 now2 s)) = api_resp s
       \<and> api_req_id (fst (msg_response ops cb topic (Some data) now1 now2 s)) = api_req_id s
       \<and> api_lock (fst (msg_response ops cb topic (Some data) now1 now2 s)) = api_lock s
       \<and> (t \<noteq> api_safe_str API_AZ_GET_STATUS \<longrightarrow>
            msg_response ops cb [AMT_RESPONSE, t] (Some data) now1 now2 s = (s, None))
       \<and> msg_response ops cb [AMT_RESPONSE, api_safe_str API_AZ_GET_STATUS] (Some data) now1 now2 s
           = (case api_az_get_status ops data now1 s of
                (s2, Some e) \<Rightarrow> (s2, Some e)
              | (s2, None) \<Rightarrow> update_callback ops cb (JObj []) now2 s2)"
proof -
  let ?P = "\<lambda>s'. api_resp s' = api_resp s \<and> api_req_id s' = api_req_id s \<and> api_lock s' = api_lock s"
  have "?P (fst (case pop_if AMT_RESPONSE topic of
             Inl e \<Rightarrow> (s, Some e)
           | Inr [] \<Rightarrow> (s, Some IndexError)
           | Inr (t # ts) \<Rightarrow>
               if t = api_safe_str API_AZ_GET_STATUS then
                 (case api_az_get_status ops data now1 s of
                    (s2, Some e) \<Rightarrow> (s2, Some e)
                  | (s2, None) \<Rightarrow> update_callback ops cb (JObj []) now2 s2)
               else (s, None)))"
    by (intro inv_sum [where P = ?P] inv_list [where P = ?P] inv_if [where P = ?P]
          poll_branch_pending [OF assms(1)]) simp_all
  then have p: "?P (fst (msg_response ops cb topic (Some data) now1 now2 s))"
    unfolding msg_response_mismatch [OF assms(2-4)] .
  have d: "t \<noteq> api_safe_str API_AZ_GET_STATUS \<longrightarrow>
            msg_response ops cb [AMT_RESPONSE, t] (Some data) now1 now2 s = (s, None)"
    unfolding msg_response_mismatch [OF assms(2-4)] by (simp add: pop_if_def)
  have a: "msg_response ops cb [AMT_RESPONSE, api_safe_str API_AZ_GET_STATUS] (Some data) now1 now2 s
           = (case api_az_get_status ops data now1 s of
                (s2, Some e) \<Rightarrow> (s2, Some e)
              | (s2, None) \<Rightarrow> update_callback ops cb (JObj []) now2 s2)"
    unfolding msg_response_mismatch [OF assms(2-4)] by (simp add: pop_if_def)
  from p have p1: "api_resp (fst (msg_response ops cb topic (Some data) now1 now2 s)) = api_resp s"
    and p2: "api_req_id (fst (msg_response ops cb topic (Some data) now1 now2 s)) = api_req_id s"
    and p3: "api_lock (fst (msg_response ops cb topic (Some data) now1 now2 s)) = api_lock s"
    by simp_all
  show ?thesis
    by (intro conjI p1 p2 p3 d a)
qed


lemma ex_response_headers:
  "py_get ex_response API_HEADERS (JObj []) = Inr (JObj [(API_REQ_ID, JStr ''request-0'')])
   \<and> py_get (JObj [(API_REQ_ID, JStr ''request-0'')] :: int json) API_REQ_ID JNull
       = Inr (JStr ''request-0'')
   \<and> JStr ''request-0'' \<noteq> api_req_id ex_pending"
  by (simp add: ex_response_def py_get_def ex_pending_def)

theorem mismatched_response_witness:
  "keeps_pending (None :: int callback)
   \<and> JStr ''request-0'' \<noteq> api_req_id ex_pending
   \<and> api_resp (fst (msg_response ex_ops None [AMT_RESPONSE, api_safe_str API_AZ_GET_STATUS]
          (Some ex_response) 7 8 ex_pending)) = False
   \<and> api_req_id (fst (msg_response ex_ops None [AMT_RESPONSE, api_safe_str API_AZ_GET_STATUS]
          (Some ex_response) 7 8 ex_pending)) = JStr ''request-1''
   \<and> api_lock (fst (msg_response ex_ops None [AMT_RESPONSE, api_safe_str API_AZ_GET_STATUS]
          (Some ex_response) 7 8 ex_pending)) = True
   \<and> msg_response ex_ops None [AMT_RESPONSE, ''other''] (Some ex_response) 7 8 ex_pending
       = (ex_pending, None)"
proof -
  have k: "keeps_pending (None :: int callback)"
    by (simp add: keeps_pending_def)
  have h1: "py_get ex_response API_HEADERS (JObj []) = Inr (JObj [(API_REQ_ID, JStr ''request-0'')])"
    and h2: "py_get (JObj [(API_REQ_ID, JStr ''request-0'')] :: int json) API_REQ_ID JNull
       = Inr (JStr ''request-0'')"
    and h3: "JStr ''request-0'' \<noteq> api_req_id ex_pending"
    using ex_response_headers by simp_all
  have o: "''other'' \<noteq> api_safe_str API_AZ_GET_STATUS"
    by (simp add: api_safe_str_def API_AZ_GET_STATUS_def)
  have p: "api_resp ex_pending = False \<and> api_req_id ex_pending = JStr ''request-1''
      \<and> api_lock ex_pending = True"
    by (simp add: ex_pending_def Airzone_init_def)
  note t = mismatched_response [OF k h1 h2 h3, where ops = ex_ops
      and topic = "[AMT_RESPONSE, api_safe_str API_AZ_GET_STATUS]" and ?now1.0 = 7
      and ?now2.0 = 8 and t = "''other''"]
  note t1 = t [THEN conjunct1]
  note t2 = t [THEN conjunct2, THEN conjunct1]
  note t3 = t [THEN conjunct2, THEN conjunct2, THEN conjunct1]
  note t4 = t [THEN conjunct2, THEN conjunct2, THEN conjunct2, THEN conjunct1, THEN mp, OF o]
  show ?thesis
    using k h3 t1 t2 t3 t4 o p by simp
qed

theorem mismatched_response_counterexample:
  "JStr ''request-0'' \<noteq> api_req_id ex_pending
   \<and> zones ex_pending ''1:2'' = None
   \<and> zones (fst (msg_response ex_ops None [AMT_RESPONSE, api_safe_str API_AZ_GET_STATUS]
          (Some ex_response) 7 8 ex_pending)) ''1:2''
       = Some (zone_set_mqtt_topic ''airzone-mqtt-hass/airzone'' (ex_zone0\<lparr>zpower := Some True\<rparr>))"
proof -
  have h1: "py_get ex_response API_HEADERS (JObj []) = Inr (JObj [(API_REQ_ID, JStr ''request-0'')])"
    and h2: "py_get (JObj [(API_REQ_ID, JStr ''request-0'')] :: int json) API_REQ_ID JNull
       = Inr (JStr ''request-0'')"
    and h3: "JStr ''request-0'' \<noteq> api_req_id ex_pending"
    using ex_response_headers by simp_all
  have z: "zones ex_pending ''1:2'' = None"
    by (simp add: ex_pending_def Airzone_init_def)
  obtain s2 r where a: "api_az_get_status ex_ops ex_response 7 ex_pending = (s2, r)"
    by (cases "api_az_get_status ex_ops ex_response 7 ex_pending")
  have "zones (fst (api_az_get_status ex_ops ex_response 7 ex_pending)) ''1:2''
      = Some (zone_set_mqtt_topic ''airzone-mqtt-hass/airzone'' (ex_zone0\<lparr>zpower := Some True\<rparr>))"
    by (simp add: api_az_get_status_def ex_response_def py_get_def py_iter_def ex_status_entry
          ex_pending_def Airzone_init_def Config_init_def API_HEADERS_def API_BODY_def
          API_DEVICES_def)
  with a have s2: "zones s2 ''1:2''
      = Some (zone_set_mqtt_topic ''airzone-mqtt-hass/airzone'' (ex_zone0\<lparr>zpower := Some True\<rparr>))"
    by simp
  have "zones (fst (msg_response ex_ops None [AMT_RESPONSE, api_safe_str API_AZ_GET_STATUS]
          (Some ex_response) 7 8 ex_pending)) = zones s2"
    unfolding msg_response_mismatch [OF h1 h2 h3] using a
    by (cases r) (simp_all add: pop_if_def update_callback_empty)
  with h3 z s2 show ?thesis by simp
qed

section \<open>Timeouts\<close>









end
